theory Spec2Isabelle
  imports Complex_Main "HOL-Library.Word"
begin

unbundle bit_operations_syntax

section \<open>Double-precision values\<close>

text \<open>
  The C++ type \<^verbatim>\<open>double\<close>. A value is a finite number, one of the two
  infinities, or not-a-number. Finite values carry a real; the rounding of an
  arithmetic result to the nearest representable number is the parameter
  \<open>rnd\<close> of the operations below, so everything proved holds for every
  rounding, including one that overflows to an infinity or underflows to zero.
  The sign of a zero is not represented: it only decides which infinity a
  division of a non-zero number by zero yields, and both are non-finite.
\<close>

datatype double = Finite real | PosInf | NegInf | NaN

fun isfinite :: "double \<Rightarrow> bool" where
  "isfinite (Finite _) = True"
| "isfinite _ = False"

text \<open>Comparisons: every comparison with a NaN operand is false.\<close>

fun dless :: "double \<Rightarrow> double \<Rightarrow> bool" where
  "dless NaN _ = False"
| "dless _ NaN = False"
| "dless (Finite a) (Finite b) = (a < b)"
| "dless (Finite _) PosInf = True"
| "dless (Finite _) NegInf = False"
| "dless PosInf _ = False"
| "dless NegInf NegInf = False"
| "dless NegInf _ = True"

fun dle :: "double \<Rightarrow> double \<Rightarrow> bool" where
  "dle NaN _ = False"
| "dle _ NaN = False"
| "dle a b = (a = b \<or> dless a b)"

fun dneg :: "double \<Rightarrow> double" where
  "dneg (Finite a) = Finite (- a)"
| "dneg PosInf = NegInf"
| "dneg NegInf = PosInf"
| "dneg NaN = NaN"

text \<open>Subtraction \<^verbatim>\<open>a - b\<close>: infinity minus the same infinity is NaN.\<close>

fun dsub :: "(real \<Rightarrow> double) \<Rightarrow> double \<Rightarrow> double \<Rightarrow> double" where
  "dsub rnd NaN _ = NaN"
| "dsub rnd _ NaN = NaN"
| "dsub rnd (Finite a) (Finite b) = rnd (a - b)"
| "dsub rnd (Finite _) b = dneg b"
| "dsub rnd PosInf PosInf = NaN"
| "dsub rnd NegInf NegInf = NaN"
| "dsub rnd a _ = a"

text \<open>
  Division \<^verbatim>\<open>a / b\<close>: zero by zero and infinity by infinity are NaN, a
  non-zero number by zero is an infinity, a finite number by an infinity is zero.
\<close>

fun dsign :: "double \<Rightarrow> bool" where
  "dsign (Finite a) = (a < 0)"
| "dsign NegInf = True"
| "dsign _ = False"

fun ddiv :: "(real \<Rightarrow> double) \<Rightarrow> double \<Rightarrow> double \<Rightarrow> double" where
  "ddiv rnd NaN _ = NaN"
| "ddiv rnd _ NaN = NaN"
| "ddiv rnd (Finite a) (Finite b) =
     (if b = 0 then (if a = 0 then NaN else if a < 0 then NegInf else PosInf)
      else rnd (a / b))"
| "ddiv rnd (Finite _) _ = Finite 0"
| "ddiv rnd a (Finite b) = (if dsign a = (b < 0) then PosInf else NegInf)"
| "ddiv rnd _ _ = NaN"

section \<open>Colour resolution\<close>

record VisualizerConfig =
  places_colormap_min_distance :: double
  places_colormap_max_distance :: double
  mesh_edge_break_ratio :: real
  mesh_layer_offset :: real
  collapse_layers :: bool

text \<open>\<^verbatim>\<open>getRatio\<close> (anonymous namespace), statement by statement.\<close>

definition getRatio :: "(real \<Rightarrow> double) \<Rightarrow> double \<Rightarrow> double \<Rightarrow> double \<Rightarrow> double" where
  "getRatio rnd min' max' value =
     (let ratio = ddiv rnd (dsub rnd value min') (dsub rnd max' min');
          ratio = (if \<not> isfinite ratio then Finite 0 else ratio);
          ratio = (if dless (Finite 1) ratio then Finite 1 else ratio);
          ratio = (if dless ratio (Finite 0) then Finite 0 else ratio)
      in ratio)"

text \<open>
  \<^verbatim>\<open>getDistanceColor\<close>. The colour type, its default value \<^verbatim>\<open>Color()\<close>
  and \<^verbatim>\<open>dsg_utils::interpolateColorMap\<close> are declared in headers outside this
  file; they are the parameters \<open>'c\<close>, \<open>Color0\<close> and \<open>interpolateColorMap\<close>.
\<close>

definition getDistanceColor ::
  "(real \<Rightarrow> double) \<Rightarrow> 'c \<Rightarrow> ('m \<Rightarrow> double \<Rightarrow> 'c) \<Rightarrow>
   VisualizerConfig \<Rightarrow> 'm \<Rightarrow> double \<Rightarrow> 'c" where
  "getDistanceColor rnd Color0 interpolateColorMap config colors distance =
     (if dle (places_colormap_max_distance config) (places_colormap_min_distance config)
      then Color0
      else let ratio = getRatio rnd (places_colormap_min_distance config)
                         (places_colormap_max_distance config) distance
           in interpolateColorMap colors ratio)"


section \<open>Messages\<close>

text \<open>
  Coordinates, scales and alpha values of the geometry are modelled as reals:
  the builders only copy, add and multiply them, and no statement below
  depends on their rounding. \<^verbatim>\<open>geometry_msgs::Point\<close> and the Eigen
  3-vectors share the type \<open>Point\<close>, so \<^verbatim>\<open>tf2::convert\<close> between them is
  the identity.
\<close>

record Point =
  pt_x :: real
  pt_y :: real
  pt_z :: real

record Quaternion =
  q_x :: real
  q_y :: real
  q_z :: real
  q_w :: real

record Pose =
  pose_position :: Point
  pose_orientation :: Quaternion

record Header =
  seq :: nat
  stamp :: nat
  frame_id :: string

datatype MarkerType = ARROW | CUBE | SPHERE | CYLINDER | LINE_STRIP | LINE_LIST
  | CUBE_LIST | SPHERE_LIST | POINTS | TEXT_VIEW_FACING | MESH_RESOURCE | TRIANGLE_LIST

datatype MarkerAction = ADD | MODIFY | DELETE | DELETEALL

text \<open>
  \<^verbatim>\<open>std_msgs::ColorRGBA\<close> values are only ever produced by the external
  \<^verbatim>\<open>dsg_utils::makeColorMsg(color, alpha)\<close>; a message is kept as the two
  arguments it was made from (no alpha when the call passes none).
\<close>

datatype 'c ColorRGBA = ColorMsg 'c "real option"

definition makeColorMsg :: "'c \<Rightarrow> real \<Rightarrow> 'c ColorRGBA" where
  "makeColorMsg c alpha = ColorMsg c (Some alpha)"

definition makeColorMsg1 :: "'c \<Rightarrow> 'c ColorRGBA" where
  "makeColorMsg1 c = ColorMsg c None"

text \<open>
  \<^verbatim>\<open>visualization_msgs::Marker\<close>. The field \<open>marker_id\<close> is the message's
  \<^verbatim>\<open>int32 id\<close>; \<open>marker_color\<close> is \<open>None\<close> while the builder has not
  assigned it.
\<close>

record 'c Marker =
  header :: Header
  ns :: string
  marker_id :: "32 word"
  marker_type :: MarkerType
  action :: MarkerAction
  pose :: Pose
  scale :: Point
  marker_color :: "'c ColorRGBA option"
  lifetime :: nat
  points :: "Point list"
  colors :: "'c ColorRGBA list"
  marker_text :: string

definition Point0 :: Point where
  "Point0 = \<lparr>pt_x = 0, pt_y = 0, pt_z = 0\<rparr>"

text \<open>A default-constructed \<^verbatim>\<open>Marker\<close>: every field zero or empty.\<close>

definition Marker0 :: "'c Marker" where
  "Marker0 = \<lparr>header = \<lparr>seq = 0, stamp = 0, frame_id = []\<rparr>, ns = [], marker_id = 0,
     marker_type = ARROW, action = ADD,
     pose = \<lparr>pose_position = Point0,
             pose_orientation = \<lparr>q_x = 0, q_y = 0, q_z = 0, q_w = 0\<rparr>\<rparr>,
     scale = Point0, marker_color = None, lifetime = 0, points = [], colors = [],
     marker_text = []\<rparr>"

definition push_point :: "Point \<Rightarrow> 'c Marker \<Rightarrow> 'c Marker" where
  "push_point p m = m\<lparr>points := points m @ [p]\<rparr>"

definition push_color :: "'c ColorRGBA \<Rightarrow> 'c Marker \<Rightarrow> 'c Marker" where
  "push_color c m = m\<lparr>colors := colors m @ [c]\<rparr>"

definition fillPoseWithIdentity :: "Pose \<Rightarrow> Pose" where
  "fillPoseWithIdentity p =
     p\<lparr>pose_position := Point0,
       pose_orientation := \<lparr>q_x = 0, q_y = 0, q_z = 0, q_w = 1\<rparr>\<rparr>"

definition add_z :: "real \<Rightarrow> Point \<Rightarrow> Point" where
  "add_z dz p = p\<lparr>pt_z := pt_z p + dz\<rparr>"

definition pose_add_z :: "real \<Rightarrow> 'c Marker \<Rightarrow> 'c Marker" where
  "pose_add_z dz m = m\<lparr>pose := (pose m)\<lparr>pose_position := add_z dz (pose_position (pose m))\<rparr>\<rparr>"

section \<open>Configuration\<close>

record LayerConfig =
  visualize :: bool
  z_offset_scale :: real
  marker_scale :: real
  marker_alpha :: real
  use_sphere_marker :: bool
  label_scale :: real
  label_height :: real
  add_label_jitter :: bool
  label_jitter_scale :: real
  boundary_wireframe_scale :: real
  boundary_alpha :: real
  boundary_ellipse_alpha :: real
  boundary_use_node_color :: bool
  collapse_boundary :: bool
  bbox_wireframe_scale :: real
  bbox_wireframe_edge_scale :: real
  bounding_box_alpha :: real
  collapse_bounding_box :: bool
  interlayer_edge_scale :: real
  interlayer_edge_alpha :: real
  interlayer_edge_use_color :: bool
  interlayer_edge_insertion_skip :: nat
  use_edge_source :: bool
  intralayer_edge_scale :: real
  intralayer_edge_alpha :: real
  intralayer_edge_insertion_skip :: nat

record DynamicLayerConfig =
  dyn_visualize :: bool
  dyn_visualize_interlayer_edges :: bool
  dyn_interlayer_edge_insertion_skip :: nat
  dyn_z_offset_scale :: real
  dyn_node_use_sphere :: bool
  dyn_node_scale :: real
  dyn_node_alpha :: real
  dyn_edge_scale :: real
  dyn_edge_alpha :: real
  dyn_label_scale :: real
  dyn_label_height :: real

text \<open>
  What this file uses and does not define: the default colour \<^verbatim>\<open>Color()\<close>,
  the two overloads of \<^verbatim>\<open>getZOffset\<close> (by layer config and by offset scale),
  \<^verbatim>\<open>NodeSymbol(id).getLabel()\<close>, and the C library's \<^verbatim>\<open>cos\<close> and \<^verbatim>\<open>sin\<close>,
  whose results are approximations of the cosine and the sine that the
  library chooses. Every builder takes them as its first argument.
\<close>

record 'c ext =
  Color0 :: 'c
  getZOffset :: "LayerConfig \<Rightarrow> VisualizerConfig \<Rightarrow> real"
  getZOffsetScale :: "real \<Rightarrow> VisualizerConfig \<Rightarrow> real"
  getLabel :: "nat \<Rightarrow> string"
  libm_cos :: "real \<Rightarrow> real"
  libm_sin :: "real \<Rightarrow> real"

section \<open>Scene graph\<close>

type_synonym NodeId = nat
type_synonym LayerId = int

datatype error = BadCast | OutOfRange | PastTheEnd

text \<open>
  \<^verbatim>\<open>BoundingBox\<close>: \<open>bbox_corners\<close> is the array \<^verbatim>\<open>corners()\<close> returns
  (eight entries); the rotation is kept as the quaternion the builder converts
  it to.
\<close>

record BoundingBox =
  world_P_center :: Point
  world_R_center :: Quaternion
  dimensions :: Point
  bbox_corners :: "Point list"

text \<open>
  The attribute classes with their inheritance: \<^verbatim>\<open>SemanticNodeAttributes\<close>
  extends \<^verbatim>\<open>NodeAttributes\<close>; \<^verbatim>\<open>PlaceNodeAttributes\<close> and
  \<^verbatim>\<open>Place2dNodeAttributes\<close> extend \<^verbatim>\<open>SemanticNodeAttributes\<close>. Only the
  members this file reads are fields.
\<close>

record NodeAttributes =
  position :: Point

record 'c SemanticNodeAttributes = NodeAttributes +
  name :: string
  color :: 'c
  bounding_box :: BoundingBox
  semantic_label :: int

record 'c PlaceNodeAttributes = "'c SemanticNodeAttributes" +
  distance :: double
  real_place :: bool
  frontier_scale :: Point
  orientation :: Quaternion

record 'c Place2dNodeAttributes = "'c SemanticNodeAttributes" +
  boundary :: "Point list"
  ellipse_matrix_expand :: "(real \<times> real) \<times> (real \<times> real)"
  ellipse_centroid :: Point
  pcl_mesh_connections :: "nat list"

text \<open>The dynamic type of the attribute object a node owns.\<close>

datatype 'c Attrs =
    BaseAttrs NodeAttributes
  | SemanticAttrs "'c SemanticNodeAttributes"
  | PlaceAttrs "'c PlaceNodeAttributes"
  | Place2dAttrs "'c Place2dNodeAttributes"

record 'c SceneGraphNode =
  node_id :: NodeId
  node_layer :: LayerId
  node_attrs :: "'c Attrs"

text \<open>
  \<^verbatim>\<open>node.attributes<T>()\<close> is a \<^verbatim>\<open>dynamic_cast\<close> to a reference of the
  requested class: it yields the object seen as a \<open>T\<close> when the node's
  attributes are a \<open>T\<close> or derive from it, and throws \<^verbatim>\<open>std::bad_cast\<close>
  otherwise (the exception \<^verbatim>\<open>makeTextMarker\<close> catches). The base class is
  always available.
\<close>

fun attributes :: "'c Attrs \<Rightarrow> NodeAttributes" where
  "attributes (BaseAttrs a) = a"
| "attributes (SemanticAttrs a) = NodeAttributes.truncate a"
| "attributes (PlaceAttrs a) = NodeAttributes.truncate a"
| "attributes (Place2dAttrs a) = NodeAttributes.truncate a"

fun attributes_Semantic :: "'c Attrs \<Rightarrow> error + 'c SemanticNodeAttributes" where
  "attributes_Semantic (BaseAttrs a) = Inl BadCast"
| "attributes_Semantic (SemanticAttrs a) = Inr a"
| "attributes_Semantic (PlaceAttrs a) = Inr (SemanticNodeAttributes.truncate a)"
| "attributes_Semantic (Place2dAttrs a) = Inr (SemanticNodeAttributes.truncate a)"

fun attributes_Place :: "'c Attrs \<Rightarrow> error + 'c PlaceNodeAttributes" where
  "attributes_Place (PlaceAttrs a) = Inr a"
| "attributes_Place _ = Inl BadCast"

fun attributes_Place2d :: "'c Attrs \<Rightarrow> error + 'c Place2dNodeAttributes" where
  "attributes_Place2d (Place2dAttrs a) = Inr a"
| "attributes_Place2d _ = Inl BadCast"

record SceneGraphEdge =
  source :: NodeId
  target :: NodeId
  weight :: double

text \<open>
  A layer: \<open>nodes\<close> and \<open>edges\<close> are the two ordered maps in iteration order.
\<close>

record 'c SceneGraphLayer =
  nodes :: "'c SceneGraphNode list"
  edges :: "SceneGraphEdge list"

definition numNodes :: "'c SceneGraphLayer \<Rightarrow> nat" where
  "numNodes layer = length (nodes layer)"

text \<open>
  A range-based \<^verbatim>\<open>for\<close> whose body may throw: the exception leaves the loop
  and the function.
\<close>

fun for_each :: "('a \<Rightarrow> 's \<Rightarrow> error + 's) \<Rightarrow> 'a list \<Rightarrow> 's \<Rightarrow> error + 's" where
  "for_each body [] s = Inr s"
| "for_each body (x # xs) s =
     (case body x s of Inl e \<Rightarrow> Inl e | Inr s' \<Rightarrow> for_each body xs s')"


type_synonym 'c ColorFunction = "'c SceneGraphNode \<Rightarrow> error + 'c"
type_synonym 'c FilterFunction = "('c SceneGraphNode \<Rightarrow> bool) option"

text \<open>\<^verbatim>\<open>filter && !filter(node)\<close>: an empty \<^verbatim>\<open>std::function\<close> rejects nothing.\<close>

definition rejects :: "'c FilterFunction \<Rightarrow> 'c SceneGraphNode \<Rightarrow> bool" where
  "rejects filter' node = (case filter' of None \<Rightarrow> False | Some f \<Rightarrow> \<not> f node)"

section \<open>Rounding to single and double precision\<close>

text \<open>
  Rounding of a real number to the nearest number with a significand of \<open>p\<close>
  bits, ties to the even significand, as IEEE 754 arithmetic does it for
  \<^verbatim>\<open>double\<close> (\<open>p = 53\<close>) and \<^verbatim>\<open>float\<close> (\<open>p = 24\<close>). Overflow and subnormal
  numbers are left out: the only values rounded here are the angles of the
  ellipse samples, between 0.3 and 126.
\<close>

definition round_half_even :: "real \<Rightarrow> int" where
  "round_half_even x =
     (let f = \<lfloor>x\<rfloor>; d = x - of_int f
      in if d < 1/2 then f else if 1/2 < d then f + 1 else if even f then f else f + 1)"

definition round_to_precision :: "nat \<Rightarrow> real \<Rightarrow> real" where
  "round_to_precision p x =
     (if x = 0 then 0
      else let ulp = 2 powi (\<lfloor>log 2 \<bar>x\<bar>\<rfloor> - int p + 1)
           in of_int (round_half_even (x / ulp)) * ulp)"

definition to_double :: "real \<Rightarrow> real" where
  "to_double = round_to_precision 53"

definition to_float :: "real \<Rightarrow> real" where
  "to_float = round_to_precision 24"


section \<open>Boundary builders\<close>

definition makeDeleteMarker :: "Header \<Rightarrow> nat \<Rightarrow> string \<Rightarrow> 'c Marker" where
  "makeDeleteMarker hdr i ns' =
     Marker0\<lparr>header := hdr, action := DELETE, marker_id := of_nat i, ns := ns'\<rparr>"

definition mat_vec :: "(real \<times> real) \<times> (real \<times> real) \<Rightarrow> real \<times> real \<Rightarrow> real \<times> real" where
  "mat_vec M v = (fst (fst M) * fst v + snd (fst M) * snd v,
                  fst (snd M) * fst v + snd (snd M) * snd v)"

text \<open>
  The constant \<^verbatim>\<open>M_PI\<close> is the \<^verbatim>\<open>double\<close> nearest to pi. In
  \<^verbatim>\<open>float t = ix * 2 * M_PI / npts\<close> the product \<^verbatim>\<open>ix * 2\<close> is an integer, the
  multiplication by \<^verbatim>\<open>M_PI\<close> and the division by \<^verbatim>\<open>npts\<close> are done in
  \<^verbatim>\<open>double\<close>, and the result is converted to \<^verbatim>\<open>float\<close>.
\<close>

definition M_PI :: real where
  "M_PI = 884279719003555 / 281474976710656"

definition ellipse_angle :: "nat \<Rightarrow> nat \<Rightarrow> real" where
  "ellipse_angle ix npts = to_float (to_double (to_double (real (ix * 2) * M_PI) / real npts))"

text \<open>
  One pass of the inner loop of \<^verbatim>\<open>makeLayerEllipseBoundaries\<close>. Coordinates
  are reals: the product with the ellipse matrix and the sum with the centroid
  are not rounded.
\<close>

definition ellipse_iter ::
  "'c ext \<Rightarrow> 'c Place2dNodeAttributes \<Rightarrow> 'c ColorRGBA \<Rightarrow> nat \<Rightarrow> nat \<Rightarrow>
   'c Marker \<times> Point \<Rightarrow> 'c Marker \<times> Point" where
  "ellipse_iter X attrs col npts ix = (\<lambda>(marker, last_point).
     let marker = push_color col (push_point last_point marker);
         t = ellipse_angle ix npts;
         p2 = mat_vec (ellipse_matrix_expand attrs) (libm_cos X t, libm_sin X t);
         last_point = \<lparr>pt_x = fst p2 + pt_x (ellipse_centroid attrs),
                       pt_y = snd p2 + pt_y (ellipse_centroid attrs),
                       pt_z = pt_z (position attrs)\<rparr>;
         marker = push_color col (push_point last_point marker)
     in (marker, last_point))"

text \<open>The inner loop \<^verbatim>\<open>for (int ix = 1; ix < npts + 1; ++ix)\<close>.\<close>

definition ellipse_loop ::
  "'c ext \<Rightarrow> 'c Place2dNodeAttributes \<Rightarrow> 'c ColorRGBA \<Rightarrow> nat \<Rightarrow> 'c Marker \<times> Point \<Rightarrow>
   'c Marker \<times> Point" where
  "ellipse_loop X attrs col npts s =
     foldl (\<lambda>s ix. ellipse_iter X attrs col npts ix s) s [1..<npts + 1]"

text \<open>
  The loop body over the nodes. The locals \<^verbatim>\<open>last_point\<close> and \<^verbatim>\<open>color\<close>
  live outside the loop in the source, but every node that reads them assigns
  them first, so the marker is the only state carried over.
\<close>

definition ellipse_node ::
  "'c ext \<Rightarrow> LayerConfig \<Rightarrow> 'c SceneGraphNode \<Rightarrow> 'c Marker \<Rightarrow> error + 'c Marker" where
  "ellipse_node X config node marker =
     (case attributes_Place2d (node_attrs node) of
        Inl e \<Rightarrow> Inl e
      | Inr attrs \<Rightarrow>
          if length (boundary attrs) \<le> 1 then Inr marker
          else
            let col = makeColorMsg (color attrs) (boundary_ellipse_alpha config);
                last_point = \<lparr>pt_x = fst (fst (ellipse_matrix_expand attrs)) + pt_x (ellipse_centroid attrs),
                              pt_y = fst (snd (ellipse_matrix_expand attrs)) + pt_y (ellipse_centroid attrs),
                              pt_z = pt_z (position attrs)\<rparr>;
                npts = 20
            in Inr (fst (ellipse_loop X attrs col npts (marker, last_point))))"

definition makeLayerEllipseBoundaries ::
  "'c ext \<Rightarrow> Header \<Rightarrow> LayerConfig \<Rightarrow> 'c SceneGraphLayer \<Rightarrow> VisualizerConfig \<Rightarrow> string \<Rightarrow>
   error + 'c Marker" where
  "makeLayerEllipseBoundaries X hdr config layer visualizer_config ns' =
     (let marker = Marker0\<lparr>header := hdr, marker_type := LINE_LIST, action := ADD,
                     marker_id := 0, ns := ns',
                     scale := Point0\<lparr>pt_x := boundary_wireframe_scale config\<rparr>\<rparr>;
          marker = marker\<lparr>pose := fillPoseWithIdentity (pose marker)\<rparr>;
          marker = pose_add_z (if collapse_boundary config then 0
                               else getZOffset X config visualizer_config) marker
      in for_each (ellipse_node X config) (nodes layer) marker)"

definition polygon_edges_node ::
  "'c ext \<Rightarrow> LayerConfig \<Rightarrow> VisualizerConfig \<Rightarrow> 'c SceneGraphNode \<Rightarrow> 'c Marker \<Rightarrow>
   error + 'c Marker" where
  "polygon_edges_node X config visualizer_config node marker =
     (case attributes_Place2d (node_attrs node) of
        Inl e \<Rightarrow> Inl e
      | Inr attrs \<Rightarrow>
          if length (boundary attrs) \<le> 1 then Inr marker
          else
            let pos = position attrs;
                node_point = add_z (getZOffset X config visualizer_config) pos;
                col = makeColorMsg (color attrs) (boundary_alpha config)
            in Inr (foldl (\<lambda>marker b.
                      let boundary_point = b\<lparr>pt_z := pt_z pos\<rparr>
                      in push_color col (push_point node_point
                           (push_color col (push_point boundary_point marker))))
                    marker (boundary attrs)))"

definition makeLayerPolygonEdges ::
  "'c ext \<Rightarrow> Header \<Rightarrow> LayerConfig \<Rightarrow> 'c SceneGraphLayer \<Rightarrow> VisualizerConfig \<Rightarrow> string \<Rightarrow>
   error + 'c Marker" where
  "makeLayerPolygonEdges X hdr config layer visualizer_config ns' =
     (let marker = Marker0\<lparr>header := hdr, marker_type := LINE_LIST, action := ADD,
                     marker_id := 0, ns := ns',
                     scale := Point0\<lparr>pt_x := boundary_wireframe_scale config\<rparr>\<rparr>;
          marker = marker\<lparr>pose := fillPoseWithIdentity (pose marker)\<rparr>
      in for_each (polygon_edges_node X config visualizer_config) (nodes layer) marker)"

definition polygon_boundary_node ::
  "'c ext \<Rightarrow> LayerConfig \<Rightarrow> 'c SceneGraphNode \<Rightarrow> 'c Marker \<Rightarrow> error + 'c Marker" where
  "polygon_boundary_node X config node marker =
     (case attributes_Place2d (node_attrs node) of
        Inl e \<Rightarrow> Inl e
      | Inr attrs \<Rightarrow>
          if length (boundary attrs) \<le> 1 then Inr marker
          else
            let pos = position attrs;
                col = (if boundary_use_node_color config
                       then makeColorMsg (color attrs) (boundary_alpha config)
                       else makeColorMsg (Color0 X) (boundary_alpha config));
                last_point = (last (boundary attrs))\<lparr>pt_z := pt_z pos\<rparr>
            in Inr (fst (foldl (\<lambda>(marker, last_point) b.
                      let marker = push_color col (push_point last_point marker);
                          last_point = b\<lparr>pt_z := pt_z pos\<rparr>;
                          marker = push_color col (push_point last_point marker)
                      in (marker, last_point))
                    (marker, last_point) (boundary attrs))))"

definition makeLayerPolygonBoundaries ::
  "'c ext \<Rightarrow> Header \<Rightarrow> LayerConfig \<Rightarrow> 'c SceneGraphLayer \<Rightarrow> VisualizerConfig \<Rightarrow> string \<Rightarrow>
   error + 'c Marker" where
  "makeLayerPolygonBoundaries X hdr config layer visualizer_config ns' =
     (let marker = Marker0\<lparr>header := hdr, marker_type := LINE_LIST, action := ADD,
                     marker_id := 0, ns := ns',
                     scale := Point0\<lparr>pt_x := boundary_wireframe_scale config\<rparr>\<rparr>;
          marker = marker\<lparr>pose := fillPoseWithIdentity (pose marker)\<rparr>;
          marker = pose_add_z (if collapse_boundary config then 0
                               else getZOffset X config visualizer_config) marker
      in for_each (polygon_boundary_node X config) (nodes layer) marker)"

section \<open>Bounding boxes\<close>

text \<open>
  The 3-by-8 corner matrix is the list of its columns. The builders only index
  it at columns that exist: the loops below run over eight columns and a
  neighbour index \<open>c OR 1\<close>, \<open>c OR 2\<close>, \<open>c OR 4\<close> of a column below 8 is
  below 8.
\<close>

definition getPointFromMatrix :: "Point list \<Rightarrow> nat \<Rightarrow> Point" where
  "getPointFromMatrix matrix col = matrix ! col"

definition remapping :: "nat list" where
  "remapping = [0, 1, 3, 2, 4, 5, 7, 6]"

definition fillCornersFromBbox :: "BoundingBox \<Rightarrow> Point list" where
  "fillCornersFromBbox bbox =
     (let corner_array = bbox_corners bbox
      in map (\<lambda>i. corner_array ! (remapping ! i)) [0..<8])"

text \<open>
  \<^verbatim>\<open>addWireframeToMarker\<close>: one pass of its loop, then the loop over the
  columns \<^verbatim>\<open>c = 0 .. corners.cols() - 1\<close>.
\<close>

definition push_segment :: "Point list \<Rightarrow> 'c ColorRGBA \<Rightarrow> nat \<Rightarrow> nat \<Rightarrow> 'c Marker \<Rightarrow> 'c Marker" where
  "push_segment corners col c n marker =
     push_color col (push_point (getPointFromMatrix corners n)
       (push_color col (push_point (getPointFromMatrix corners c) marker)))"

definition wireframe_iter :: "Point list \<Rightarrow> 'c ColorRGBA \<Rightarrow> nat \<Rightarrow> 'c Marker \<Rightarrow> 'c Marker" where
  "wireframe_iter corners col c marker =
     (let x_neighbor = c OR 1;
          y_neighbor = c OR 2;
          z_neighbor = c OR 4;
          marker = (if c \<noteq> x_neighbor then push_segment corners col c x_neighbor marker
                    else marker);
          marker = (if c \<noteq> y_neighbor then push_segment corners col c y_neighbor marker
                    else marker);
          marker = (if c \<noteq> z_neighbor then push_segment corners col c z_neighbor marker
                    else marker)
      in marker)"

definition addWireframeToMarker :: "Point list \<Rightarrow> 'c ColorRGBA \<Rightarrow> 'c Marker \<Rightarrow> 'c Marker" where
  "addWireframeToMarker corners col marker =
     foldl (\<lambda>marker c. wireframe_iter corners col c marker) marker [0..<length corners]"

definition addEdgesToCorners ::
  "Point list \<Rightarrow> Point \<Rightarrow> 'c ColorRGBA \<Rightarrow> 'c Marker \<Rightarrow> 'c Marker" where
  "addEdgesToCorners corners node_centroid col marker =
     (let marker = foldl (\<lambda>m i. push_color col m) marker [0..<8];
          marker = push_point node_centroid marker;
          marker = push_point (getPointFromMatrix corners 4) marker;
          marker = push_point node_centroid marker;
          marker = push_point (getPointFromMatrix corners 5) marker;
          marker = push_point node_centroid marker;
          marker = push_point (getPointFromMatrix corners 6) marker;
          marker = push_point node_centroid marker;
          marker = push_point (getPointFromMatrix corners 7) marker
      in marker)"

definition edges_to_bbox_node ::
  "'c ext \<Rightarrow> LayerConfig \<Rightarrow> VisualizerConfig \<Rightarrow> 'c ColorFunction \<Rightarrow> 'c FilterFunction \<Rightarrow>
   'c SceneGraphNode \<Rightarrow> 'c Marker \<Rightarrow> error + 'c Marker" where
  "edges_to_bbox_node X config visualizer_config func filter' node marker =
     (if rejects filter' node then Inr marker
      else case attributes_Semantic (node_attrs node) of
        Inl e \<Rightarrow> Inl e
      | Inr attrs \<Rightarrow>
         (case func node of
            Inl e \<Rightarrow> Inl e
          | Inr c \<Rightarrow>
              let col = makeColorMsg c (bounding_box_alpha config);
                  corners = fillCornersFromBbox (bounding_box attrs);
                  node_centroid = add_z (getZOffset X config visualizer_config) (position attrs);
                  center_point = add_z (mesh_edge_break_ratio visualizer_config *
                                        getZOffset X config visualizer_config) (position attrs);
                  marker = push_color col (push_point node_centroid marker);
                  marker = push_color col (push_point center_point marker)
              in Inr (addEdgesToCorners corners center_point col marker)))"

definition makeEdgesToBoundingBoxes ::
  "'c ext \<Rightarrow> Header \<Rightarrow> LayerConfig \<Rightarrow> 'c SceneGraphLayer \<Rightarrow> VisualizerConfig \<Rightarrow> string \<Rightarrow>
   'c ColorFunction \<Rightarrow> 'c FilterFunction \<Rightarrow> error + 'c Marker" where
  "makeEdgesToBoundingBoxes X hdr config layer visualizer_config ns' func filter' =
     (let marker = Marker0\<lparr>header := hdr, marker_type := LINE_LIST, action := ADD,
                     marker_id := 0, ns := ns',
                     scale := Point0\<lparr>pt_x := bbox_wireframe_edge_scale config\<rparr>\<rparr>;
          marker = marker\<lparr>pose := fillPoseWithIdentity (pose marker)\<rparr>
      in for_each (edges_to_bbox_node X config visualizer_config func filter')
           (nodes layer) marker)"

definition wireframe_node ::
  "LayerConfig \<Rightarrow> 'c ColorFunction \<Rightarrow> 'c FilterFunction \<Rightarrow>
   'c SceneGraphNode \<Rightarrow> 'c Marker \<Rightarrow> error + 'c Marker" where
  "wireframe_node config func filter' node marker =
     (if rejects filter' node then Inr marker
      else case attributes_Semantic (node_attrs node) of
        Inl e \<Rightarrow> Inl e
      | Inr attrs \<Rightarrow>
         (case func node of
            Inl e \<Rightarrow> Inl e
          | Inr c \<Rightarrow>
              let col = makeColorMsg c (bounding_box_alpha config);
                  corners = fillCornersFromBbox (bounding_box attrs)
              in Inr (addWireframeToMarker corners col marker)))"

definition makeLayerWireframeBoundingBoxes ::
  "'c ext \<Rightarrow> Header \<Rightarrow> LayerConfig \<Rightarrow> 'c SceneGraphLayer \<Rightarrow> VisualizerConfig \<Rightarrow> string \<Rightarrow>
   'c ColorFunction \<Rightarrow> 'c FilterFunction \<Rightarrow> error + 'c Marker" where
  "makeLayerWireframeBoundingBoxes X hdr config layer visualizer_config ns' func filter' =
     (let marker = Marker0\<lparr>header := hdr, marker_type := LINE_LIST, action := ADD,
                     marker_id := 0, ns := ns',
                     scale := Point0\<lparr>pt_x := bbox_wireframe_scale config\<rparr>\<rparr>;
          marker = marker\<lparr>pose := fillPoseWithIdentity (pose marker)\<rparr>;
          marker = pose_add_z (if collapse_bounding_box config then 0
                               else getZOffset X config visualizer_config) marker
      in for_each (wireframe_node config func filter') (nodes layer) marker)"

definition makeBoundingBoxMarker ::
  "'c ext \<Rightarrow> Header \<Rightarrow> LayerConfig \<Rightarrow> 'c SceneGraphNode \<Rightarrow> VisualizerConfig \<Rightarrow> string \<Rightarrow>
   'c ColorFunction \<Rightarrow> error + 'c Marker" where
  "makeBoundingBoxMarker X hdr config node visualizer_config ns' func =
     (let marker = Marker0\<lparr>header := hdr, marker_type := CUBE, action := ADD,
                     marker_id := of_nat (node_id node), ns := ns'\<rparr>
      in case func node of
        Inl e \<Rightarrow> Inl e
      | Inr c \<Rightarrow>
         (case attributes_Semantic (node_attrs node) of
            Inl e \<Rightarrow> Inl e
          | Inr attrs \<Rightarrow>
              let marker = marker\<lparr>marker_color := Some (makeColorMsg c (bounding_box_alpha config))\<rparr>;
                  bbox = bounding_box attrs;
                  marker = marker\<lparr>pose := \<lparr>pose_position = world_P_center bbox,
                                             pose_orientation = world_R_center bbox\<rparr>\<rparr>;
                  marker = pose_add_z (if collapse_bounding_box config then 0
                                       else getZOffset X config visualizer_config) marker
              in Inr (marker\<lparr>scale := dimensions bbox\<rparr>)))"


section \<open>Labels and point clouds\<close>

text \<open>
  \<^verbatim>\<open>makeTextMarker\<close>. The \<^verbatim>\<open>try\<close> block catches the failed cast and leaves
  \<open>name\<close> empty. \<open>jitter_draw\<close> is the number \<^verbatim>\<open>dist(gen)\<close> draws from the
  process-wide generator.
\<close>

definition makeTextMarker ::
  "'c ext \<Rightarrow> real \<Rightarrow> Header \<Rightarrow> LayerConfig \<Rightarrow> 'c SceneGraphNode \<Rightarrow> VisualizerConfig \<Rightarrow>
   string \<Rightarrow> 'c Marker" where
  "makeTextMarker X jitter_draw hdr config node visualizer_config ns' =
     (let marker = Marker0\<lparr>header := hdr, ns := ns', marker_id := of_nat (node_id node),
                     marker_type := TEXT_VIEW_FACING, action := ADD, lifetime := 0\<rparr>;
          name' = (case attributes_Semantic (node_attrs node) of
                     Inl e \<Rightarrow> []
                   | Inr attrs \<Rightarrow> name attrs);
          marker = marker\<lparr>marker_text := (if name' = [] then getLabel X (node_id node) else name')\<rparr>;
          marker = marker\<lparr>scale := (scale marker)\<lparr>pt_z := label_scale config\<rparr>,
                          marker_color := Some (makeColorMsg1 (Color0 X))\<rparr>;
          marker = marker\<lparr>pose := fillPoseWithIdentity (pose marker)\<rparr>;
          marker = marker\<lparr>pose := (pose marker)\<lparr>pose_position :=
                                        position (attributes (node_attrs node))\<rparr>\<rparr>;
          marker = pose_add_z (getZOffset X config visualizer_config + label_height config) marker
      in if add_label_jitter config
         then pose_add_z (label_jitter_scale config * jitter_draw) marker
         else marker)"

text \<open>
  \<^verbatim>\<open>makeTextMarkerNoHeight\<close>. The host's collaborators are arguments:
  \<open>regex_number s\<close> is the first capture of \<^verbatim>\<open>O\((\d+)\)\<close> in \<open>s\<close> when the
  search succeeds, and \<open>label_names\<close> is the parameter \<^verbatim>\<open>/label_names\<close>:
  \<open>None\<close> when it is not an array, else its entries, each \<open>Some (label, name)\<close>
  when it is a struct with both members. The result pairs the marker with the
  parameter the function writes.
\<close>

fun find_label :: "(int \<times> string) option list \<Rightarrow> int \<Rightarrow> string \<Rightarrow> string" where
  "find_label [] semantic_label' label_text = label_text"
| "find_label (None # rest) semantic_label' label_text =
     find_label rest semantic_label' label_text"
| "find_label (Some (label_id, name') # rest) semantic_label' label_text =
     (if label_id = semantic_label' then name'
      else find_label rest semantic_label' label_text)"

definition makeTextMarkerNoHeight ::
  "'c ext \<Rightarrow> (string \<Rightarrow> string option) \<Rightarrow> (int \<times> string) option list option \<Rightarrow>
   Header \<Rightarrow> LayerConfig \<Rightarrow> 'c SceneGraphNode \<Rightarrow> VisualizerConfig \<Rightarrow> string \<Rightarrow>
   error + ('c Marker \<times> (string \<times> string))" where
  "makeTextMarkerNoHeight X regex_number label_names hdr config node visualizer_config ns' =
     (let marker = Marker0\<lparr>header := hdr, ns := ns', marker_id := of_nat (node_id node),
                     marker_type := TEXT_VIEW_FACING, action := ADD, lifetime := 0\<rparr>
      in case attributes_Semantic (node_attrs node) of
        Inl e \<Rightarrow> Inl e
      | Inr attrs \<Rightarrow>
          let semantic_label' = semantic_label attrs;
              unique_id = name attrs;
              unique_id = (case regex_number unique_id of Some n \<Rightarrow> n | None \<Rightarrow> unique_id);
              label_text = ''Unknown'';
              label_text = (case label_names of
                              Some entries \<Rightarrow> find_label entries semantic_label' label_text
                            | None \<Rightarrow> label_text);
              marker = marker\<lparr>marker_text := label_text @ ''('' @ unique_id @ '')''\<rparr>;
              marker = marker\<lparr>scale := (scale marker)\<lparr>pt_z := label_scale config\<rparr>,
                              marker_color := Some (makeColorMsg1 (Color0 X))\<rparr>;
              param_key = ''/semantic_labels/'' @ unique_id;
              marker = marker\<lparr>pose := fillPoseWithIdentity (pose marker)\<rparr>;
              marker = marker\<lparr>pose := (pose marker)\<lparr>pose_position :=
                                            position (attributes (node_attrs node))\<rparr>\<rparr>;
              marker = pose_add_z (label_height config) marker
          in Inr (marker, (param_key, label_text)))"

definition ellipsoid_node ::
  "'c ext \<Rightarrow> Header \<Rightarrow> LayerConfig \<Rightarrow> VisualizerConfig \<Rightarrow> string \<Rightarrow> 'c ColorFunction \<Rightarrow>
   'c SceneGraphNode \<Rightarrow> nat \<times> 'c Marker list \<Rightarrow> error + (nat \<times> 'c Marker list)" where
  "ellipsoid_node X hdr config visualizer_config ns' color_func node = (\<lambda>(i, markers).
     case attributes_Place (node_attrs node) of
       Inl e \<Rightarrow> Inl e
     | Inr attrs \<Rightarrow>
         if real_place attrs then Inr (i, markers)
         else
           let marker = Marker0\<lparr>header := hdr, marker_type := SPHERE, action := ADD,
                           marker_id := of_nat i, ns := ns', scale := frontier_scale attrs\<rparr>;
               marker = marker\<lparr>pose := \<lparr>pose_position = position attrs,
                                          pose_orientation = orientation attrs\<rparr>\<rparr>;
               marker = pose_add_z (getZOffset X config visualizer_config) marker
           in case color_func node of
                Inl e \<Rightarrow> Inl e
              | Inr c \<Rightarrow>
                 (let marker = marker\<lparr>marker_color := Some (makeColorMsg c (marker_alpha config))\<rparr>
                  in case color_func node of
                       Inl e \<Rightarrow> Inl e
                     | Inr desired_color \<Rightarrow>
                         let marker = push_color (makeColorMsg desired_color (marker_alpha config)) marker
                         in Inr (i + 1, markers @ [marker])))"

definition makeEllipsoidMarkers ::
  "'c ext \<Rightarrow> Header \<Rightarrow> LayerConfig \<Rightarrow> 'c SceneGraphLayer \<Rightarrow> VisualizerConfig \<Rightarrow> string \<Rightarrow>
   'c ColorFunction \<Rightarrow> error + 'c Marker list" where
  "makeEllipsoidMarkers X hdr config layer visualizer_config ns' color_func =
     (case for_each (ellipsoid_node X hdr config visualizer_config ns' color_func)
             (nodes layer) (0, []) of
        Inl e \<Rightarrow> Inl e
      | Inr (i, markers) \<Rightarrow> Inr markers)"

definition centroid_node ::
  "'c ext \<Rightarrow> LayerConfig \<Rightarrow> VisualizerConfig \<Rightarrow> 'c ColorFunction \<Rightarrow> 'c FilterFunction \<Rightarrow>
   'c SceneGraphNode \<Rightarrow> 'c Marker \<Rightarrow> error + 'c Marker" where
  "centroid_node X config visualizer_config color_func filter' node marker =
     (if rejects filter' node then Inr marker
      else
        let node_centroid = add_z (getZOffset X config visualizer_config)
                              (position (attributes (node_attrs node)));
            marker = push_point node_centroid marker
        in case color_func node of
             Inl e \<Rightarrow> Inl e
           | Inr desired_color \<Rightarrow>
               Inr (push_color (makeColorMsg desired_color (marker_alpha config)) marker))"

definition makeCentroidMarkers ::
  "'c ext \<Rightarrow> Header \<Rightarrow> LayerConfig \<Rightarrow> 'c SceneGraphLayer \<Rightarrow> VisualizerConfig \<Rightarrow> string \<Rightarrow>
   'c ColorFunction \<Rightarrow> 'c FilterFunction \<Rightarrow> error + 'c Marker" where
  "makeCentroidMarkers X hdr config layer visualizer_config ns' color_func filter' =
     (let marker = Marker0\<lparr>header := hdr,
                     marker_type := (if use_sphere_marker config then SPHERE_LIST else CUBE_LIST),
                     action := ADD, marker_id := 0, ns := ns',
                     scale := \<lparr>pt_x = marker_scale config, pt_y = marker_scale config,
                               pt_z = marker_scale config\<rparr>\<rparr>;
          marker = marker\<lparr>pose := fillPoseWithIdentity (pose marker)\<rparr>
      in for_each (centroid_node X config visualizer_config color_func filter')
           (nodes layer) marker)"

definition place_centroid_node ::
  "'c ext \<Rightarrow> LayerConfig \<Rightarrow> VisualizerConfig \<Rightarrow> 'c ColorFunction \<Rightarrow>
   'c SceneGraphNode \<Rightarrow> 'c Marker \<Rightarrow> error + 'c Marker" where
  "place_centroid_node X config visualizer_config color_func node marker =
     (case attributes_Place (node_attrs node) of
        Inl e \<Rightarrow> Inl e
      | Inr attrs \<Rightarrow>
          if \<not> real_place attrs then Inr marker
          else
            let node_centroid = add_z (getZOffset X config visualizer_config) (position attrs);
                marker = push_point node_centroid marker
            in case color_func node of
                 Inl e \<Rightarrow> Inl e
               | Inr desired_color \<Rightarrow>
                   Inr (push_color (makeColorMsg desired_color (marker_alpha config)) marker))"

definition makePlaceCentroidMarkers ::
  "'c ext \<Rightarrow> Header \<Rightarrow> LayerConfig \<Rightarrow> 'c SceneGraphLayer \<Rightarrow> VisualizerConfig \<Rightarrow> string \<Rightarrow>
   'c ColorFunction \<Rightarrow> error + 'c Marker" where
  "makePlaceCentroidMarkers X hdr config layer visualizer_config ns' color_func =
     (let marker = Marker0\<lparr>header := hdr,
                     marker_type := (if use_sphere_marker config then SPHERE_LIST else CUBE_LIST),
                     action := ADD, marker_id := 0, ns := ns',
                     scale := \<lparr>pt_x = marker_scale config, pt_y = marker_scale config,
                               pt_z = marker_scale config\<rparr>\<rparr>;
          marker = marker\<lparr>pose := fillPoseWithIdentity (pose marker)\<rparr>
      in for_each (place_centroid_node X config visualizer_config color_func)
           (nodes layer) marker)"


section \<open>Inter-layer edges\<close>

text \<open>\<^verbatim>\<open>std::to_string\<close> on a layer id: decimal digits, a minus sign first when negative.\<close>

fun digits :: "nat \<Rightarrow> string" where
  "digits n = (if n < 10 then [''0123456789'' ! n]
               else digits (n div 10) @ [''0123456789'' ! (n mod 10)])"

declare digits.simps [simp del]

definition to_string :: "int \<Rightarrow> string" where
  "to_string i = (if i < 0 then CHR ''-'' # digits (nat (- i)) else digits (nat i))"

record Mesh =
  vertices :: "Point list"

definition numVertices :: "Mesh \<Rightarrow> nat" where
  "numVertices m = length (vertices m)"

text \<open>
  The graph as this file reads it: all nodes, the ids \<^verbatim>\<open>isDynamic\<close> accepts,
  the two maps of inter-layer edges in iteration order, and the mesh pointer
  (\<open>None\<close> when null). \<^verbatim>\<open>getNode\<close> throws \<^verbatim>\<open>std::out_of_range\<close> for an
  id the graph does not hold.
\<close>

record 'c DynamicSceneGraph =
  graph_nodes :: "'c SceneGraphNode list"
  dynamic_ids :: "NodeId list"
  interlayer_edges :: "SceneGraphEdge list"
  dynamic_interlayer_edges :: "SceneGraphEdge list"
  mesh :: "Mesh option"

definition getNode :: "'c SceneGraphNode list \<Rightarrow> NodeId \<Rightarrow> error + 'c SceneGraphNode" where
  "getNode ns' i = (case find (\<lambda>n. node_id n = i) ns' of
                      None \<Rightarrow> Inl OutOfRange
                    | Some n \<Rightarrow> Inr n)"

definition isDynamic :: "'c DynamicSceneGraph \<Rightarrow> NodeId \<Rightarrow> bool" where
  "isDynamic graph i = (i \<in> set (dynamic_ids graph))"

text \<open>
  A \<^verbatim>\<open>std::map\<close> that is iterated at the end is the list of its entries in
  ascending key order; \<open>map_put\<close> is the assignment \<^verbatim>\<open>m[k] = v\<close>, \<open>map_of\<close>
  the lookup.
\<close>

fun map_put :: "'k::linorder \<Rightarrow> 'v \<Rightarrow> ('k \<times> 'v) list \<Rightarrow> ('k \<times> 'v) list" where
  "map_put k v [] = [(k, v)]"
| "map_put k v ((k', v') # m) =
     (if k < k' then (k, v) # (k', v') # m
      else if k = k' then (k, v) # m
      else (k', v') # map_put k v m)"

definition makeNewEdgeList ::
  "Header \<Rightarrow> LayerConfig \<Rightarrow> string \<Rightarrow> LayerId \<Rightarrow> LayerId \<Rightarrow> 'c Marker" where
  "makeNewEdgeList hdr config ns_prefix source' target' =
     (let marker = Marker0\<lparr>header := hdr, marker_type := LINE_LIST, action := ADD,
                     marker_id := 0,
                     ns := ns_prefix @ to_string source' @ ''_'' @ to_string target',
                     scale := Point0\<lparr>pt_x := interlayer_edge_scale config\<rparr>\<rparr>
      in marker\<lparr>pose := fillPoseWithIdentity (pose marker)\<rparr>)"

definition shouldVisualize ::
  "'c DynamicSceneGraph \<Rightarrow> 'c SceneGraphNode \<Rightarrow> (LayerId \<rightharpoonup> LayerConfig) \<Rightarrow>
   (LayerId \<rightharpoonup> DynamicLayerConfig) \<Rightarrow> bool" where
  "shouldVisualize graph node configs dynamic_configs =
     (if isDynamic graph (node_id node)
      then (case dynamic_configs (node_layer node) of
              None \<Rightarrow> False
            | Some c \<Rightarrow> dyn_visualize c \<and> dyn_visualize_interlayer_edges c)
      else (case configs (node_layer node) of
              None \<Rightarrow> False
            | Some c \<Rightarrow> visualize c))"

definition getConfigLayer ::
  "'c DynamicSceneGraph \<Rightarrow> 'c SceneGraphNode \<Rightarrow> 'c SceneGraphNode \<Rightarrow> LayerId" where
  "getConfigLayer graph source' target' =
     (if isDynamic graph (node_id source') then node_layer source' else node_layer target')"

text \<open>\<^verbatim>\<open>std::map::at\<close>: throws \<^verbatim>\<open>std::out_of_range\<close> for a missing key.\<close>

definition map_at :: "('k \<rightharpoonup> 'v) \<Rightarrow> 'k \<Rightarrow> error + 'v" where
  "map_at m k = (case m k of None \<Rightarrow> Inl OutOfRange | Some v \<Rightarrow> Inr v)"

text \<open>
  The state of the aggregation loops: \<^verbatim>\<open>layer_markers\<close> and
  \<^verbatim>\<open>num_since_last_insertion\<close> (a counter the loop reads is one it has written).
\<close>

type_synonym 'c edge_state = "(LayerId \<times> 'c Marker) list \<times> (LayerId \<Rightarrow> nat)"

text \<open>The body of the loop of \<^verbatim>\<open>makeDynamicGraphEdgeMarkers\<close>.\<close>

definition dynamic_edge_body ::
  "'c ext \<Rightarrow> Header \<Rightarrow> 'c DynamicSceneGraph \<Rightarrow> (LayerId \<rightharpoonup> LayerConfig) \<Rightarrow>
   (LayerId \<rightharpoonup> DynamicLayerConfig) \<Rightarrow> VisualizerConfig \<Rightarrow> string \<Rightarrow>
   SceneGraphEdge \<Rightarrow> 'c edge_state \<Rightarrow> error + 'c edge_state" where
  "dynamic_edge_body X hdr graph configs dynamic_configs visualizer_config ns_prefix edge =
     (\<lambda>(layer_markers, num_since_last_insertion).
     case getNode (graph_nodes graph) (source edge) of Inl e \<Rightarrow> Inl e | Inr source' \<Rightarrow>
     case getNode (graph_nodes graph) (target edge) of Inl e \<Rightarrow> Inl e | Inr target' \<Rightarrow>
     if \<not> shouldVisualize graph source' configs dynamic_configs
       then Inr (layer_markers, num_since_last_insertion)
     else if \<not> shouldVisualize graph target' configs dynamic_configs
       then Inr (layer_markers, num_since_last_insertion)
     else
     case map_at dynamic_configs (getConfigLayer graph source' target') of Inl e \<Rightarrow> Inl e | Inr config \<Rightarrow>
     let num_between_insertions = dyn_interlayer_edge_insertion_skip config;
         sl = node_layer source'
     in
     case (if map_of layer_markers sl = None
           then (case map_at configs sl of
                   Inl e \<Rightarrow> Inl e
                 | Inr cs \<Rightarrow>
                     Inr (map_put sl
                            ((makeNewEdgeList hdr cs ns_prefix sl (node_layer target'))
                               \<lparr>marker_color := Some (makeColorMsg (Color0 X) (dyn_edge_alpha config))\<rparr>)
                            layer_markers,
                          num_since_last_insertion(sl := num_between_insertions)))
           else Inr (layer_markers, num_since_last_insertion))
     of Inl e \<Rightarrow> Inl e | Inr (layer_markers, num_since_last_insertion) \<Rightarrow>
     if \<not> num_since_last_insertion sl \<ge> num_between_insertions
       then Inr (layer_markers, num_since_last_insertion(sl := num_since_last_insertion sl + 1))
     else
     let num_since_last_insertion = num_since_last_insertion(sl := 0) in
     case map_of layer_markers sl of None \<Rightarrow> Inl OutOfRange | Some marker \<Rightarrow>
     case map_at configs sl of Inl e \<Rightarrow> Inl e | Inr cs \<Rightarrow>
     let source_point = add_z (getZOffset X cs visualizer_config)
                          (position (attributes (node_attrs source')));
         marker = push_point source_point marker
     in
     case map_at configs (node_layer target') of Inl e \<Rightarrow> Inl e | Inr ct \<Rightarrow>
     let target_point = add_z (getZOffset X ct visualizer_config)
                          (position (attributes (node_attrs target')));
         marker = push_point target_point marker
     in Inr (map_put sl marker layer_markers, num_since_last_insertion))"

definition makeDynamicGraphEdgeMarkers ::
  "'c ext \<Rightarrow> Header \<Rightarrow> 'c DynamicSceneGraph \<Rightarrow> (LayerId \<rightharpoonup> LayerConfig) \<Rightarrow>
   (LayerId \<rightharpoonup> DynamicLayerConfig) \<Rightarrow> VisualizerConfig \<Rightarrow> string \<Rightarrow>
   error + 'c Marker list" where
  "makeDynamicGraphEdgeMarkers X hdr graph configs dynamic_configs visualizer_config ns_prefix =
     (case for_each (dynamic_edge_body X hdr graph configs dynamic_configs visualizer_config ns_prefix)
             (dynamic_interlayer_edges graph) ([], \<lambda>_. 0) of
        Inl e \<Rightarrow> Inl e
      | Inr (layer_markers, num_since_last_insertion) \<Rightarrow> Inr (map snd layer_markers))"

text \<open>The body of the loop of \<^verbatim>\<open>makeGraphEdgeMarkers\<close>.\<close>

definition graph_edge_body ::
  "'c ext \<Rightarrow> Header \<Rightarrow> 'c DynamicSceneGraph \<Rightarrow> (LayerId \<rightharpoonup> LayerConfig) \<Rightarrow>
   VisualizerConfig \<Rightarrow> string \<Rightarrow> 'c FilterFunction \<Rightarrow>
   SceneGraphEdge \<Rightarrow> 'c edge_state \<Rightarrow> error + 'c edge_state" where
  "graph_edge_body X hdr graph configs visualizer_config ns_prefix filter' edge =
     (\<lambda>(layer_markers, num_since_last_insertion).
     case getNode (graph_nodes graph) (source edge) of Inl e \<Rightarrow> Inl e | Inr source' \<Rightarrow>
     case getNode (graph_nodes graph) (target edge) of Inl e \<Rightarrow> Inl e | Inr target' \<Rightarrow>
     if rejects filter' source' then Inr (layer_markers, num_since_last_insertion)
     else if rejects filter' target' then Inr (layer_markers, num_since_last_insertion)
     else if configs (node_layer source') = None \<or> configs (node_layer target') = None
       then Inr (layer_markers, num_since_last_insertion)
     else
     case map_at configs (node_layer source') of Inl e \<Rightarrow> Inl e | Inr cs \<Rightarrow>
     case map_at configs (node_layer target') of Inl e \<Rightarrow> Inl e | Inr ct \<Rightarrow>
     if \<not> visualize cs then Inr (layer_markers, num_since_last_insertion)
     else if \<not> visualize ct then Inr (layer_markers, num_since_last_insertion)
     else
     let num_between_insertions = interlayer_edge_insertion_skip cs;
         sl = node_layer source';
         (layer_markers, num_since_last_insertion) =
           (if map_of layer_markers sl = None
            then (map_put sl (makeNewEdgeList hdr cs ns_prefix sl (node_layer target')) layer_markers,
                  num_since_last_insertion(sl := num_between_insertions))
            else (layer_markers, num_since_last_insertion))
     in
     if \<not> num_since_last_insertion sl \<ge> num_between_insertions
       then Inr (layer_markers, num_since_last_insertion(sl := num_since_last_insertion sl + 1))
     else
     let num_since_last_insertion = num_since_last_insertion(sl := 0) in
     case map_of layer_markers sl of None \<Rightarrow> Inl OutOfRange | Some marker \<Rightarrow>
     let source_point = add_z (getZOffset X cs visualizer_config)
                          (position (attributes (node_attrs source')));
         marker = push_point source_point marker;
         target_point = add_z (getZOffset X ct visualizer_config)
                          (position (attributes (node_attrs target')));
         marker = push_point target_point marker
     in
     case (if interlayer_edge_use_color cs
           then (if use_edge_source cs
                 then map_sum (\<lambda>e. e) color (attributes_Semantic (node_attrs source'))
                 else map_sum (\<lambda>e. e) color (attributes_Semantic (node_attrs target')))
           else Inr (Color0 X))
     of Inl e \<Rightarrow> Inl e | Inr edge_color \<Rightarrow>
     let marker = push_color (makeColorMsg edge_color (intralayer_edge_alpha cs)) marker;
         marker = push_color (makeColorMsg edge_color (intralayer_edge_alpha cs)) marker
     in Inr (map_put sl marker layer_markers, num_since_last_insertion))"

definition makeGraphEdgeMarkers ::
  "'c ext \<Rightarrow> Header \<Rightarrow> 'c DynamicSceneGraph \<Rightarrow> (LayerId \<rightharpoonup> LayerConfig) \<Rightarrow>
   VisualizerConfig \<Rightarrow> string \<Rightarrow> 'c FilterFunction \<Rightarrow> error + 'c Marker list" where
  "makeGraphEdgeMarkers X hdr graph configs visualizer_config ns_prefix filter' =
     (case for_each (graph_edge_body X hdr graph configs visualizer_config ns_prefix filter')
             (interlayer_edges graph) ([], \<lambda>_. 0) of
        Inl e \<Rightarrow> Inl e
      | Inr (layer_markers, num_since_last_insertion) \<Rightarrow> Inr (map snd layer_markers))"


section \<open>Mesh-connection fans\<close>

text \<open>
  One pass of the loop over \<^verbatim>\<open>mesh_edge_indices\<close> in \<^verbatim>\<open>makeMeshEdgesMarker\<close>;
  the state is the marker and the counter \<open>i\<close>.
\<close>

definition mesh_edge_iter ::
  "LayerConfig \<Rightarrow> VisualizerConfig \<Rightarrow> Mesh \<Rightarrow> 'c ColorRGBA \<Rightarrow> Point \<Rightarrow>
   'c Marker \<times> nat \<Rightarrow> nat \<Rightarrow> 'c Marker \<times> nat" where
  "mesh_edge_iter config visualizer_config mesh' col center_point = (\<lambda>(marker, i) midx.
     let i = i + 1 in
     if (i - 1) mod (interlayer_edge_insertion_skip config + 1) \<noteq> 0 then (marker, i)
     else if midx \<ge> numVertices mesh' then (marker, i)
     else
       let vertex = vertices mesh' ! midx;
           vertex = (if \<not> collapse_layers visualizer_config
                     then add_z (mesh_layer_offset visualizer_config) vertex else vertex);
           marker = push_point vertex (push_point center_point marker);
           marker = push_color col (push_color col marker)
       in (marker, i))"

definition mesh_edges_node ::
  "'c ext \<Rightarrow> LayerConfig \<Rightarrow> VisualizerConfig \<Rightarrow> Mesh \<Rightarrow>
   'c SceneGraphNode \<Rightarrow> 'c Marker \<Rightarrow> error + 'c Marker" where
  "mesh_edges_node X config visualizer_config mesh' node marker =
     (case attributes_Place2d (node_attrs node) of
        Inl e \<Rightarrow> Inl e
      | Inr attrs \<Rightarrow>
          let mesh_edge_indices = pcl_mesh_connections attrs in
          if mesh_edge_indices = [] then Inr marker
          else
            let center_point = add_z (mesh_edge_break_ratio visualizer_config *
                                      getZOffset X config visualizer_config) (position attrs);
                centroid_location = add_z (getZOffset X config visualizer_config) (position attrs);
                marker = push_point center_point (push_point centroid_location marker);
                col = (if interlayer_edge_use_color config
                       then makeColorMsg (color attrs) (interlayer_edge_alpha config)
                       else makeColorMsg (Color0 X) (interlayer_edge_alpha config));
                marker = push_color col (push_color col marker)
            in Inr (fst (foldl (mesh_edge_iter config visualizer_config mesh' col center_point)
                           (marker, 0) mesh_edge_indices)))"

definition makeMeshEdgesMarker ::
  "'c ext \<Rightarrow> Header \<Rightarrow> LayerConfig \<Rightarrow> VisualizerConfig \<Rightarrow> 'c DynamicSceneGraph \<Rightarrow>
   'c SceneGraphLayer \<Rightarrow> string \<Rightarrow> error + 'c Marker" where
  "makeMeshEdgesMarker X hdr config visualizer_config graph layer ns' =
     (let marker = Marker0\<lparr>header := hdr, marker_type := LINE_LIST, action := ADD,
                     marker_id := 0, ns := ns',
                     scale := Point0\<lparr>pt_x := interlayer_edge_scale config\<rparr>\<rparr>;
          marker = marker\<lparr>pose := fillPoseWithIdentity (pose marker)\<rparr>
      in case mesh graph of
           None \<Rightarrow> Inr marker
         | Some mesh' \<Rightarrow>
             for_each (mesh_edges_node X config visualizer_config mesh') (nodes layer) marker)"

section \<open>Intra-layer edges\<close>

definition gvd_node ::
  "LayerConfig \<Rightarrow> 'c ColorFunction \<Rightarrow> 'c SceneGraphNode \<Rightarrow> 'c Marker \<Rightarrow> error + 'c Marker" where
  "gvd_node config color_func node nodes' =
     (let node_centroid = position (attributes (node_attrs node));
          nodes' = push_point node_centroid nodes'
      in case color_func node of
           Inl e \<Rightarrow> Inl e
         | Inr desired_color \<Rightarrow>
             Inr (push_color (makeColorMsg desired_color (marker_alpha config)) nodes'))"

definition gvd_edge ::
  "LayerConfig \<Rightarrow> 'c SceneGraphLayer \<Rightarrow> 'c ColorFunction \<Rightarrow> SceneGraphEdge \<Rightarrow> 'c Marker \<Rightarrow>
   error + 'c Marker" where
  "gvd_edge config layer color_func edge edges' =
     (case getNode (nodes layer) (source edge) of Inl e \<Rightarrow> Inl e | Inr source_node \<Rightarrow>
      case getNode (nodes layer) (target edge) of Inl e \<Rightarrow> Inl e | Inr target_node \<Rightarrow>
      let edges' = push_point (position (attributes (node_attrs source_node))) edges';
          edges' = push_point (position (attributes (node_attrs target_node))) edges'
      in case color_func source_node of Inl e \<Rightarrow> Inl e | Inr cs \<Rightarrow>
         let edges' = push_color (makeColorMsg cs (marker_alpha config)) edges'
         in case color_func target_node of Inl e \<Rightarrow> Inl e | Inr ct \<Rightarrow>
            Inr (push_color (makeColorMsg ct (marker_alpha config)) edges'))"

definition makeGvdWireframe ::
  "Header \<Rightarrow> LayerConfig \<Rightarrow> 'c SceneGraphLayer \<Rightarrow> string \<Rightarrow> 'c ColorFunction \<Rightarrow> nat \<Rightarrow>
   error + 'c Marker list" where
  "makeGvdWireframe hdr config layer ns' color_func marker_id' =
     (let edges' = Marker0\<lparr>header := hdr, marker_type := LINE_LIST,
                     marker_id := of_nat marker_id', ns := ns' @ ''_edges'', action := ADD,
                     scale := Point0\<lparr>pt_x := intralayer_edge_scale config\<rparr>\<rparr>;
          edges' = edges'\<lparr>pose := fillPoseWithIdentity (pose edges')\<rparr>;
          nodes' = Marker0\<lparr>header := hdr, marker_type := SPHERE_LIST,
                     marker_id := of_nat marker_id', ns := ns' @ ''_nodes'', action := ADD,
                     scale := \<lparr>pt_x = intralayer_edge_scale config,
                               pt_y = intralayer_edge_scale config,
                               pt_z = intralayer_edge_scale config\<rparr>\<rparr>;
          nodes' = nodes'\<lparr>pose := fillPoseWithIdentity (pose nodes')\<rparr>
      in if nodes layer = [] then Inr []
         else case for_each (gvd_node config color_func) (nodes layer) nodes' of
                Inl e \<Rightarrow> Inl e
              | Inr nodes' \<Rightarrow>
                  if edges layer = [] then Inr [nodes']
                  else case for_each (gvd_edge config layer color_func) (edges layer) edges' of
                         Inl e \<Rightarrow> Inl e
                       | Inr edges' \<Rightarrow> Inr [nodes', edges'])"

text \<open>
  The overload of \<^verbatim>\<open>makeGvdWireframe\<close> that colours by distance; the rounding
  and the colour map's interpolation are arguments as in \<open>getDistanceColor\<close>.
\<close>

definition makeGvdWireframe_colormap ::
  "'c ext \<Rightarrow> (real \<Rightarrow> double) \<Rightarrow> ('m \<Rightarrow> double \<Rightarrow> 'c) \<Rightarrow> Header \<Rightarrow> LayerConfig \<Rightarrow>
   VisualizerConfig \<Rightarrow> 'c SceneGraphLayer \<Rightarrow> string \<Rightarrow> 'm \<Rightarrow> nat \<Rightarrow> error + 'c Marker list" where
  "makeGvdWireframe_colormap X rnd interpolateColorMap hdr config visualizer_config layer ns'
       colors' marker_id' =
     makeGvdWireframe hdr config layer ns'
       (\<lambda>node. case attributes_Place (node_attrs node) of
                  Inl e \<Rightarrow> Inl e
                | Inr attrs \<Rightarrow> Inr (getDistanceColor rnd (Color0 X) interpolateColorMap
                                       visualizer_config colors' (distance attrs)))
       marker_id'"

type_synonym 'c EdgeColorFunction =
  "'c SceneGraphNode \<Rightarrow> 'c SceneGraphNode \<Rightarrow> SceneGraphEdge \<Rightarrow> bool \<Rightarrow> error + 'c"

text \<open>
  The \<^verbatim>\<open>while\<close> loop of \<^verbatim>\<open>makeLayerEdgeMarkers\<close>. The iterator
  \<^verbatim>\<open>edge_iter\<close> is the position \<open>i\<close> in the edge sequence, \<^verbatim>\<open>end()\<close> the
  position \<open>length (edges layer)\<close>. The \<^verbatim>\<open>continue\<close> of the filter branch
  re-enters the loop with the iterator where it was. \<^verbatim>\<open>std::advance\<close> beyond
  \<^verbatim>\<open>end()\<close> has no defined behaviour; the model stops there with
  \<open>PastTheEnd\<close>. A run that never leaves the loop has the value \<open>None\<close>.
\<close>

partial_function (option) layer_edge_loop ::
  "'c ext \<Rightarrow> LayerConfig \<Rightarrow> 'c SceneGraphLayer \<Rightarrow> VisualizerConfig \<Rightarrow> 'c EdgeColorFunction \<Rightarrow>
   'c FilterFunction \<Rightarrow> nat \<Rightarrow> 'c Marker \<Rightarrow> (error + 'c Marker) option" where
  "layer_edge_loop X config layer visualizer_config color_func filter' i marker =
     (if \<not> i \<noteq> length (edges layer) then Some (Inr marker)
      else
      case getNode (nodes layer) (source (edges layer ! i)) of
        Inl e \<Rightarrow> Some (Inl e)
      | Inr source_node \<Rightarrow>
      case getNode (nodes layer) (target (edges layer ! i)) of
        Inl e \<Rightarrow> Some (Inl e)
      | Inr target_node \<Rightarrow>
      if filter' \<noteq> None \<and> (rejects filter' source_node \<or> rejects filter' target_node)
      then layer_edge_loop X config layer visualizer_config color_func filter' i marker
      else
      case color_func source_node target_node (edges layer ! i) True of
        Inl e \<Rightarrow> Some (Inl e)
      | Inr c1 \<Rightarrow>
      case color_func source_node target_node (edges layer ! i) False of
        Inl e \<Rightarrow> Some (Inl e)
      | Inr c2 \<Rightarrow>
      if i + (intralayer_edge_insertion_skip config + 1) > length (edges layer)
      then Some (Inl PastTheEnd)
      else layer_edge_loop X config layer visualizer_config color_func filter'
             (i + (intralayer_edge_insertion_skip config + 1))
             (push_color (makeColorMsg c2 (intralayer_edge_alpha config))
               (push_color (makeColorMsg c1 (intralayer_edge_alpha config))
                 (push_point (add_z (getZOffset X config visualizer_config)
                                (position (attributes (node_attrs target_node))))
                   (push_point (add_z (getZOffset X config visualizer_config)
                                  (position (attributes (node_attrs source_node))))
                      marker)))))"

definition makeLayerEdgeMarkers ::
  "'c ext \<Rightarrow> Header \<Rightarrow> LayerConfig \<Rightarrow> 'c SceneGraphLayer \<Rightarrow> VisualizerConfig \<Rightarrow> string \<Rightarrow>
   'c EdgeColorFunction \<Rightarrow> 'c FilterFunction \<Rightarrow> (error + 'c Marker) option" where
  "makeLayerEdgeMarkers X hdr config layer visualizer_config ns' color_func filter' =
     (let marker = Marker0\<lparr>header := hdr, marker_type := LINE_LIST, marker_id := 0, ns := ns',
                     action := ADD,
                     scale := Point0\<lparr>pt_x := intralayer_edge_scale config\<rparr>\<rparr>;
          marker = marker\<lparr>pose := fillPoseWithIdentity (pose marker)\<rparr>
      in layer_edge_loop X config layer visualizer_config color_func filter' 0 marker)"

text \<open>The two overloads that fix the colour function.\<close>

definition makeLayerEdgeMarkers_color ::
  "'c ext \<Rightarrow> Header \<Rightarrow> LayerConfig \<Rightarrow> 'c SceneGraphLayer \<Rightarrow> VisualizerConfig \<Rightarrow> 'c \<Rightarrow>
   string \<Rightarrow> 'c FilterFunction \<Rightarrow> (error + 'c Marker) option" where
  "makeLayerEdgeMarkers_color X hdr config layer visualizer_config color' ns' filter' =
     makeLayerEdgeMarkers X hdr config layer visualizer_config ns'
       (\<lambda>s t e b. Inr color') filter'"

definition makeLayerEdgeMarkers_colormap ::
  "'c ext \<Rightarrow> (real \<Rightarrow> double) \<Rightarrow> ('m \<Rightarrow> double \<Rightarrow> 'c) \<Rightarrow> Header \<Rightarrow> LayerConfig \<Rightarrow>
   'c SceneGraphLayer \<Rightarrow> VisualizerConfig \<Rightarrow> 'm \<Rightarrow> string \<Rightarrow> 'c FilterFunction \<Rightarrow>
   (error + 'c Marker) option" where
  "makeLayerEdgeMarkers_colormap X rnd interpolateColorMap hdr config layer visualizer_config
       cmap ns' filter' =
     makeLayerEdgeMarkers X hdr config layer visualizer_config ns'
       (\<lambda>s t edge b. Inr (getDistanceColor rnd (Color0 X) interpolateColorMap
                            visualizer_config cmap (weight edge)))
       filter'"

section \<open>Dynamic layers\<close>

text \<open>
  Modelled from the spec: the dynamic layer class is declared outside this
  file; the spec describes it as a time-ordered node sequence "with additional
  index-to-position lookup by sequence order". \<open>dyn_nodes\<close> is the sequence
  \<^verbatim>\<open>nodes()\<close>, whose entries may be null (the builders test for it),
  \<^verbatim>\<open>numNodes()\<close> its length as a \<^verbatim>\<open>size_t\<close>, and the two position lookups
  throw \<^verbatim>\<open>std::out_of_range\<close> where there is no node to read.
\<close>

record 'c DynamicSceneGraphLayer =
  dyn_nodes :: "'c SceneGraphNode option list"
  dyn_edges :: "SceneGraphEdge list"

definition dyn_numNodes :: "'c DynamicSceneGraphLayer \<Rightarrow> 64 word" where
  "dyn_numNodes layer = of_nat (length (dyn_nodes layer))"

definition getPositionByIndex :: "'c DynamicSceneGraphLayer \<Rightarrow> 64 word \<Rightarrow> error + Point" where
  "getPositionByIndex layer ix =
     (if unat ix < length (dyn_nodes layer)
      then (case dyn_nodes layer ! unat ix of
              None \<Rightarrow> Inl OutOfRange
            | Some n \<Rightarrow> Inr (position (attributes (node_attrs n))))
      else Inl OutOfRange)"

definition getPosition :: "'c DynamicSceneGraphLayer \<Rightarrow> NodeId \<Rightarrow> error + Point" where
  "getPosition layer i =
     (case find (\<lambda>n. map_option node_id n = Some i) (dyn_nodes layer) of
        Some (Some n) \<Rightarrow> Inr (position (attributes (node_attrs n)))
      | _ \<Rightarrow> Inl OutOfRange)"

definition dynamic_centroid_node ::
  "'c ext \<Rightarrow> DynamicLayerConfig \<Rightarrow> real \<Rightarrow> VisualizerConfig \<Rightarrow> 'c ColorFunction \<Rightarrow>
   'c SceneGraphNode option \<Rightarrow> 'c Marker \<Rightarrow> error + 'c Marker" where
  "dynamic_centroid_node X config layer_offset_scale visualizer_config color_func node marker =
     (case node of
        None \<Rightarrow> Inr marker
      | Some n \<Rightarrow>
          let node_centroid = add_z (getZOffsetScale X layer_offset_scale visualizer_config)
                                (position (attributes (node_attrs n)));
              marker = push_point node_centroid marker
          in case color_func n of
               Inl e \<Rightarrow> Inl e
             | Inr c \<Rightarrow> Inr (push_color (makeColorMsg c (dyn_node_alpha config)) marker))"

definition makeDynamicCentroidMarkers ::
  "'c ext \<Rightarrow> Header \<Rightarrow> DynamicLayerConfig \<Rightarrow> 'c DynamicSceneGraphLayer \<Rightarrow> real \<Rightarrow>
   VisualizerConfig \<Rightarrow> string \<Rightarrow> 'c ColorFunction \<Rightarrow> nat \<Rightarrow> error + 'c Marker" where
  "makeDynamicCentroidMarkers X hdr config layer layer_offset_scale visualizer_config ns'
       color_func marker_id' =
     (let marker = Marker0\<lparr>header := hdr,
                     marker_type := (if dyn_node_use_sphere config then SPHERE_LIST else CUBE_LIST),
                     action := ADD, ns := ns', marker_id := of_nat marker_id',
                     scale := \<lparr>pt_x = dyn_node_scale config, pt_y = dyn_node_scale config,
                               pt_z = dyn_node_scale config\<rparr>\<rparr>;
          marker = marker\<lparr>pose := fillPoseWithIdentity (pose marker)\<rparr>
      in for_each (dynamic_centroid_node X config layer_offset_scale visualizer_config color_func)
           (dyn_nodes layer) marker)"

definition makeDynamicCentroidMarkers_color ::
  "'c ext \<Rightarrow> Header \<Rightarrow> DynamicLayerConfig \<Rightarrow> 'c DynamicSceneGraphLayer \<Rightarrow>
   VisualizerConfig \<Rightarrow> 'c \<Rightarrow> string \<Rightarrow> nat \<Rightarrow> error + 'c Marker" where
  "makeDynamicCentroidMarkers_color X hdr config layer visualizer_config color' ns' marker_id' =
     makeDynamicCentroidMarkers X hdr config layer (dyn_z_offset_scale config) visualizer_config
       ns' (\<lambda>n. Inr color') marker_id'"

definition dynamic_edge ::
  "'c ext \<Rightarrow> DynamicLayerConfig \<Rightarrow> 'c DynamicSceneGraphLayer \<Rightarrow> VisualizerConfig \<Rightarrow>
   SceneGraphEdge \<Rightarrow> 'c Marker \<Rightarrow> error + 'c Marker" where
  "dynamic_edge X config layer visualizer_config edge marker =
     (case getPosition layer (source edge) of Inl e \<Rightarrow> Inl e | Inr p \<Rightarrow>
      let source' = add_z (getZOffsetScale X (dyn_z_offset_scale config) visualizer_config) p;
          marker = push_point source' marker
      in case getPosition layer (target edge) of Inl e \<Rightarrow> Inl e | Inr q \<Rightarrow>
         let target' = add_z (getZOffsetScale X (dyn_z_offset_scale config) visualizer_config) q
         in Inr (push_point target' marker))"

definition makeDynamicEdgeMarkers ::
  "'c ext \<Rightarrow> Header \<Rightarrow> DynamicLayerConfig \<Rightarrow> 'c DynamicSceneGraphLayer \<Rightarrow>
   VisualizerConfig \<Rightarrow> 'c \<Rightarrow> string \<Rightarrow> nat \<Rightarrow> error + 'c Marker" where
  "makeDynamicEdgeMarkers X hdr config layer visualizer_config color' ns' marker_id' =
     (let marker = Marker0\<lparr>header := hdr, marker_type := LINE_LIST, ns := ns',
                     marker_id := of_nat marker_id', action := ADD,
                     scale := Point0\<lparr>pt_x := dyn_edge_scale config\<rparr>,
                     marker_color := Some (makeColorMsg color' (dyn_edge_alpha config))\<rparr>;
          marker = marker\<lparr>pose := fillPoseWithIdentity (pose marker)\<rparr>
      in for_each (dynamic_edge X config layer visualizer_config) (dyn_edges layer) marker)"

text \<open>
  \<^verbatim>\<open>makeDynamicLabelMarker\<close>. The index \<^verbatim>\<open>layer.numNodes() - 1\<close> is computed
  in \<^verbatim>\<open>size_t\<close>, where it wraps around.
\<close>

definition makeDynamicLabelMarker ::
  "'c ext \<Rightarrow> Header \<Rightarrow> DynamicLayerConfig \<Rightarrow> 'c DynamicSceneGraphLayer \<Rightarrow>
   VisualizerConfig \<Rightarrow> string \<Rightarrow> nat \<Rightarrow> error + 'c Marker" where
  "makeDynamicLabelMarker X hdr config layer visualizer_config ns' marker_id' =
     (let marker = Marker0\<lparr>header := hdr, marker_type := TEXT_VIEW_FACING, ns := ns',
                     marker_id := of_nat marker_id', action := ADD, lifetime := 0,
                     marker_text := ''Agent''\<rparr>;
          marker = marker\<lparr>scale := (scale marker)\<lparr>pt_z := dyn_label_scale config\<rparr>,
                          marker_color := Some (makeColorMsg1 (Color0 X))\<rparr>
      in case getPositionByIndex layer (dyn_numNodes layer - 1) of
           Inl e \<Rightarrow> Inl e
         | Inr latest_position \<Rightarrow>
             let marker = marker\<lparr>pose := fillPoseWithIdentity (pose marker)\<rparr>;
                 marker = marker\<lparr>pose := (pose marker)\<lparr>pose_position := latest_position\<rparr>\<rparr>
             in Inr (pose_add_z (getZOffsetScale X (dyn_z_offset_scale config) visualizer_config
                                 + dyn_label_height config) marker))"


section \<open>The distance colour\<close>

text \<open>
  The normalisation as the specification words it: the quotient
  \<open>(d - min) / (max - min)\<close>, a non-finite quotient replaced by 0, the result
  clamped to the unit interval.
\<close>

fun clamp01 :: "double \<Rightarrow> double" where
  "clamp01 (Finite x) = Finite (max 0 (min 1 x))"
| "clamp01 PosInf = Finite 1"
| "clamp01 NegInf = Finite 0"
| "clamp01 NaN = NaN"

definition normalized_distance ::
  "(real \<Rightarrow> double) \<Rightarrow> double \<Rightarrow> double \<Rightarrow> double \<Rightarrow> double" where
  "normalized_distance rnd lo hi d =
     (let r = ddiv rnd (dsub rnd d lo) (dsub rnd hi lo)
      in clamp01 (if isfinite r then r else Finite 0))"

lemma getRatio_normalized: "getRatio rnd lo hi d = normalized_distance rnd lo hi d"
  unfolding getRatio_def normalized_distance_def Let_def
  by (cases "ddiv rnd (dsub rnd d lo) (dsub rnd hi lo)") (auto simp: max_def min_def)

lemma getRatio_unit: "\<exists>r. getRatio rnd lo hi d = Finite r \<and> 0 \<le> r \<and> r \<le> 1"
  unfolding getRatio_def Let_def
  by (cases "ddiv rnd (dsub rnd d lo) (dsub rnd hi lo)") auto

text \<open>
  C1. \<open>getDistanceColor\<close> is a total function of its arguments. When the
  configured maximum is at most the minimum it returns the default colour
  whatever the distance; otherwise it returns the colour map's interpolation at
  the normalised distance, which is a finite number between 0 and 1 for every
  distance, configuration and rounding (also for infinities and NaN).
\<close>

theorem getDistanceColor_spec:
  "getDistanceColor rnd C0 interp config colors' d =
     (if dle (places_colormap_max_distance config) (places_colormap_min_distance config)
      then C0
      else interp colors' (normalized_distance rnd (places_colormap_min_distance config)
                             (places_colormap_max_distance config) d))
   \<and> (\<exists>r. normalized_distance rnd (places_colormap_min_distance config)
             (places_colormap_max_distance config) d = Finite r \<and> 0 \<le> r \<and> r \<le> 1)"
  using getRatio_unit [of rnd "places_colormap_min_distance config"
                          "places_colormap_max_distance config" d]
  by (simp add: getDistanceColor_def getRatio_normalized)

theorem getDistanceColor_spec_witness:
  "getDistanceColor Finite (0::nat) (\<lambda>m r. if r = Finite (1/2) then 7 else 1)
     \<lparr>places_colormap_min_distance = Finite 0, places_colormap_max_distance = Finite 2,
      mesh_edge_break_ratio = 0, mesh_layer_offset = 0, collapse_layers = False\<rparr> () (Finite 1) = 7
   \<and> getDistanceColor Finite (0::nat) (\<lambda>m r. if r = Finite (1/2) then 7 else 1)
     \<lparr>places_colormap_min_distance = Finite 2, places_colormap_max_distance = Finite 2,
      mesh_edge_break_ratio = 0, mesh_layer_offset = 0, collapse_layers = False\<rparr> () NaN = 0"
  using getDistanceColor_spec [of Finite "0::nat" "\<lambda>m r. if r = Finite (1/2) then 7 else 1"
          "\<lparr>places_colormap_min_distance = Finite 0, places_colormap_max_distance = Finite 2,
            mesh_edge_break_ratio = 0, mesh_layer_offset = 0, collapse_layers = False\<rparr>" "()" "Finite 1"]
        getDistanceColor_spec [of Finite "0::nat" "\<lambda>m r. if r = Finite (1/2) then 7 else 1"
          "\<lparr>places_colormap_min_distance = Finite 2, places_colormap_max_distance = Finite 2,
            mesh_edge_break_ratio = 0, mesh_layer_offset = 0, collapse_layers = False\<rparr>" "()" NaN]
  by (simp add: normalized_distance_def)


section \<open>Line lists\<close>

text \<open>A line list read as segments: consecutive pairs of points.\<close>

fun segments_of :: "'a list \<Rightarrow> ('a \<times> 'a) list" where
  "segments_of (p # q # ps) = (p, q) # segments_of ps"
| "segments_of _ = []"

definition flatten :: "('a \<times> 'a) list \<Rightarrow> 'a list" where
  "flatten segs = concat (map (\<lambda>(p, q). [p, q]) segs)"

lemma points_push [simp]:
  "points (push_point p m) = points m @ [p]" "points (push_color c m) = points m"
  "colors (push_point p m) = colors m" "colors (push_color c m) = colors m @ [c]"
  by (simp_all add: push_point_def push_color_def)

lemma flatten_simps [simp]:
  "flatten [] = []" "flatten ((p, q) # segs) = p # q # flatten segs"
  "flatten (xs @ ys) = flatten xs @ flatten ys"
  by (simp_all add: flatten_def)

lemma segments_of_flatten_append: "segments_of (flatten segs @ ps) = segs @ segments_of ps"
  by (induction segs) auto

lemma segments_of_flatten [simp]: "segments_of (flatten segs) = segs"
  using segments_of_flatten_append [of segs "[]"] by simp

lemma length_flatten [simp]: "length (flatten segs) = 2 * length segs"
  by (induction segs) auto

lemma flatten_concat: "flatten (concat xss) = concat (map flatten xss)"
  by (induction xss) simp_all

lemma segments_of_concat_flatten:
  "segments_of (concat (map (\<lambda>a. flatten (f a)) xs)) = concat (map f xs)"
proof -
  have "concat (map (\<lambda>a. flatten (f a)) xs) = flatten (concat (map f xs))"
    by (simp add: flatten_concat comp_def)
  then show ?thesis by simp
qed


section \<open>Example inputs\<close>

text \<open>Concrete inputs on which the theorems below are exercised.\<close>

definition example_ext :: "nat ext" where
  "example_ext = \<lparr>Color0 = 0, getZOffset = (\<lambda>c v. z_offset_scale c),
                  getZOffsetScale = (\<lambda>s v. s), getLabel = (\<lambda>i. ''n''),
                  libm_cos = cos, libm_sin = sin\<rparr>"

definition example_header :: Header where
  "example_header = \<lparr>seq = 0, stamp = 0, frame_id = ''world''\<rparr>"

definition example_visualizer_config :: VisualizerConfig where
  "example_visualizer_config =
     \<lparr>places_colormap_min_distance = Finite 0, places_colormap_max_distance = Finite 2,
      mesh_edge_break_ratio = 1/2, mesh_layer_offset = 0, collapse_layers = False\<rparr>"

definition example_config :: "nat \<Rightarrow> LayerConfig" where
  "example_config k =
     \<lparr>visualize = True, z_offset_scale = 1, marker_scale = 1, marker_alpha = 1,
      use_sphere_marker = True, label_scale = 1, label_height = 1, add_label_jitter = False,
      label_jitter_scale = 0, boundary_wireframe_scale = 1, boundary_alpha = 1,
      boundary_ellipse_alpha = 1, boundary_use_node_color = True, collapse_boundary = False,
      bbox_wireframe_scale = 1, bbox_wireframe_edge_scale = 1, bounding_box_alpha = 1,
      collapse_bounding_box = False, interlayer_edge_scale = 1, interlayer_edge_alpha = 1,
      interlayer_edge_use_color = False, interlayer_edge_insertion_skip = k,
      use_edge_source = True, intralayer_edge_scale = 1, intralayer_edge_alpha = 1,
      intralayer_edge_insertion_skip = k\<rparr>"


section \<open>Example inputs: boxes and places\<close>

definition example_bbox :: BoundingBox where
  "example_bbox = \<lparr>world_P_center = Point0,
                   world_R_center = \<lparr>q_x = 0, q_y = 0, q_z = 0, q_w = 1\<rparr>,
                   dimensions = Point0, bbox_corners = replicate 8 Point0\<rparr>"

definition example_place2d :: "nat \<Rightarrow> nat list \<Rightarrow> nat Place2dNodeAttributes" where
  "example_place2d n conns =
     \<lparr>position = Point0, name = ''p'', color = 5, bounding_box = example_bbox,
      semantic_label = 1, boundary = replicate n Point0,
      ellipse_matrix_expand = ((1, 0), (0, 1)), ellipse_centroid = Point0,
      pcl_mesh_connections = conns\<rparr>"

definition example_place2d_node :: "nat \<Rightarrow> int \<Rightarrow> nat \<Rightarrow> nat list \<Rightarrow> nat SceneGraphNode" where
  "example_place2d_node i l n conns =
     \<lparr>node_id = i, node_layer = l, node_attrs = Place2dAttrs (example_place2d n conns)\<rparr>"



section \<open>Ellipse boundaries\<close>

text \<open>
  The point of a node's ellipse at the angle \<open>t\<close>, computed as the loop does
  from the library's cosine and sine; the point a node's chain starts at (the
  first column of the ellipse matrix plus the centroid, i.e. the point for the
  cosine 1 and the sine 0); the vertices of the chain: the start, then the
  points at the angles of the samples 1 to \<open>npts\<close>; and the segments joining
  consecutive vertices.
\<close>

definition ellipse_sample :: "'c ext \<Rightarrow> 'c Place2dNodeAttributes \<Rightarrow> real \<Rightarrow> Point" where
  "ellipse_sample X attrs t =
     (let p2 = mat_vec (ellipse_matrix_expand attrs) (libm_cos X t, libm_sin X t)
      in \<lparr>pt_x = fst p2 + pt_x (ellipse_centroid attrs),
          pt_y = snd p2 + pt_y (ellipse_centroid attrs),
          pt_z = pt_z (position attrs)\<rparr>)"

definition ellipse_first :: "'c Place2dNodeAttributes \<Rightarrow> Point" where
  "ellipse_first attrs =
     \<lparr>pt_x = fst (fst (ellipse_matrix_expand attrs)) + pt_x (ellipse_centroid attrs),
      pt_y = fst (snd (ellipse_matrix_expand attrs)) + pt_y (ellipse_centroid attrs),
      pt_z = pt_z (position attrs)\<rparr>"

definition ellipse_vertex :: "'c ext \<Rightarrow> 'c Place2dNodeAttributes \<Rightarrow> nat \<Rightarrow> nat \<Rightarrow> Point" where
  "ellipse_vertex X attrs npts ix =
     (if ix = 0 then ellipse_first attrs else ellipse_sample X attrs (ellipse_angle ix npts))"

definition ellipse_segments ::
  "'c ext \<Rightarrow> nat \<Rightarrow> 'c Place2dNodeAttributes \<Rightarrow> (Point \<times> Point) list" where
  "ellipse_segments X npts attrs =
     map (\<lambda>ix. (ellipse_vertex X attrs npts (ix - 1), ellipse_vertex X attrs npts ix))
       [1..<npts + 1]"




subsection \<open>The angle of the last sample\<close>













subsection \<open>The chain of a node\<close>

lemma ellipse_vertex_simps [simp]:
  "ellipse_vertex X attrs npts 0 = ellipse_first attrs"
  "ellipse_vertex X attrs npts (Suc ix) = ellipse_sample X attrs (ellipse_angle (Suc ix) npts)"
  by (simp_all add: ellipse_vertex_def)

lemma ellipse_iter_eq:
  "ellipse_iter X attrs col npts ix (m, lp) =
     (push_color col (push_point (ellipse_sample X attrs (ellipse_angle ix npts))
        (push_color col (push_point lp m))),
      ellipse_sample X attrs (ellipse_angle ix npts))"
  by (simp add: ellipse_iter_def ellipse_sample_def Let_def)

fun chain :: "'c ext \<Rightarrow> 'c Place2dNodeAttributes \<Rightarrow> nat \<Rightarrow> Point \<Rightarrow> nat list \<Rightarrow> Point list" where
  "chain X attrs npts lp [] = []"
| "chain X attrs npts lp (ix # ixs) =
     lp # ellipse_sample X attrs (ellipse_angle ix npts)
        # chain X attrs npts (ellipse_sample X attrs (ellipse_angle ix npts)) ixs"

lemma ellipse_fold_points:
  "points (fst (foldl (\<lambda>s ix. ellipse_iter X attrs col npts ix s) (m, lp) ixs)) =
     points m @ chain X attrs npts lp ixs"
  by (induction ixs arbitrary: m lp) (simp_all add: ellipse_iter_eq)

lemma ellipse_fold_colors:
  "colors (fst (foldl (\<lambda>s ix. ellipse_iter X attrs col npts ix s) (m, lp) ixs)) =
     colors m @ replicate (2 * length ixs) col"
  by (induction ixs arbitrary: m lp) (simp_all add: ellipse_iter_eq replicate_app_Cons_same)

lemma chain_upt:
  "chain X attrs npts (ellipse_vertex X attrs npts a) [Suc a..<Suc a + k] =
     flatten (map (\<lambda>ix. (ellipse_vertex X attrs npts (ix - 1), ellipse_vertex X attrs npts ix))
                [Suc a..<Suc a + k])"
proof (induction k arbitrary: a)
  case 0
  show ?case by simp
next
  case (Suc k)
  have u: "[Suc a..<Suc a + Suc k] = Suc a # [Suc (Suc a)..<Suc (Suc a) + k]"
    by (simp add: upt_conv_Cons)
  show ?case unfolding u using Suc.IH [of "Suc a"] by simp
qed

lemma ellipse_loop_points:
  "points (fst (ellipse_loop X attrs col npts (m, ellipse_first attrs))) =
     points m @ flatten (ellipse_segments X npts attrs)"
  using chain_upt [of X attrs npts 0 npts]
  by (simp add: ellipse_loop_def ellipse_fold_points ellipse_segments_def)

lemma ellipse_loop_colors:
  "colors (fst (ellipse_loop X attrs col npts (m, lp))) = colors m @ replicate (2 * npts) col"
  by (simp add: ellipse_loop_def ellipse_fold_colors)

lemma ellipse_node_Place2d:
  "node_attrs node = Place2dAttrs attrs \<Longrightarrow>
   \<exists>m'. ellipse_node X config node m = Inr m'
     \<and> points m' = points m @ (if 1 < length (boundary attrs) then flatten (ellipse_segments X 20 attrs) else [])
     \<and> colors m' = colors m @ (if 1 < length (boundary attrs) then replicate 40 (makeColorMsg (color attrs) (boundary_ellipse_alpha config)) else [])"
  by (simp add: ellipse_node_def ellipse_loop_points [unfolded ellipse_first_def]
        ellipse_loop_colors Let_def)









section \<open>The wireframe of a bounding box\<close>

text \<open>
  The corner pairs one pass of the loop of \<open>addWireframeToMarker\<close> joins, in
  the order it emits them, and those of the whole loop over \<open>cols\<close> columns.
\<close>

definition wireframe_pairs_at :: "nat \<Rightarrow> (nat \<times> nat) list" where
  "wireframe_pairs_at c =
     (if c \<noteq> c OR 1 then [(c, c OR 1)] else []) @
     (if c \<noteq> c OR 2 then [(c, c OR 2)] else []) @
     (if c \<noteq> c OR 4 then [(c, c OR 4)] else [])"

definition wireframe_pairs :: "nat \<Rightarrow> (nat \<times> nat) list" where
  "wireframe_pairs cols = concat (map wireframe_pairs_at [0..<cols])"

definition segment_points :: "Point list \<Rightarrow> (nat \<times> nat) list \<Rightarrow> Point list" where
  "segment_points corners ps =
     concat (map (\<lambda>(a, b). [getPointFromMatrix corners a, getPointFromMatrix corners b]) ps)"

definition differ_in_one_bit :: "nat \<Rightarrow> nat \<Rightarrow> bool" where
  "differ_in_one_bit a b = (length (filter (\<lambda>k. bit a k \<noteq> bit b k) [0..<3]) = 1)"

lemma wireframe_iter_points:
  "points (wireframe_iter corners col c m) = points m @ segment_points corners (wireframe_pairs_at c)"
  by (simp add: wireframe_iter_def push_segment_def segment_points_def wireframe_pairs_at_def Let_def)

lemma wireframe_iter_colors:
  "colors (wireframe_iter corners col c m) =
     colors m @ concat (map (\<lambda>p. [col, col]) (wireframe_pairs_at c))"
  by (simp add: wireframe_iter_def push_segment_def wireframe_pairs_at_def Let_def)

lemma segment_points_append [simp]:
  "segment_points corners (xs @ ys) = segment_points corners xs @ segment_points corners ys"
  by (simp add: segment_points_def)

lemma wireframe_fold_points:
  "points (foldl (\<lambda>marker c. wireframe_iter corners col c marker) m cs) =
     points m @ segment_points corners (concat (map wireframe_pairs_at cs))"
  by (induction cs arbitrary: m) (simp_all add: wireframe_iter_points segment_points_def)

lemma wireframe_fold_colors:
  "colors (foldl (\<lambda>marker c. wireframe_iter corners col c marker) m cs) =
     colors m @ concat (map (\<lambda>p. [col, col]) (concat (map wireframe_pairs_at cs)))"
  by (induction cs arbitrary: m) (simp_all add: wireframe_iter_colors)

lemma upt8: "[0..<8] = [0,1,2,3,4,5,6,7::nat]"
  by (simp add: upt_rec)

lemma wireframe_pairs_8:
  "wireframe_pairs 8 = [(0,1),(0,2),(0,4),(1,3),(1,5),(2,3),(2,6),(3,7),(4,5),(4,6),(5,7),(6,7)]"
  by (simp add: wireframe_pairs_def upt8 wireframe_pairs_at_def)

lemma length_fillCorners [simp]: "length (fillCornersFromBbox bbox) = 8"
  by (simp add: fillCornersFromBbox_def)

text \<open>
  The corner of a box with index \<open>i\<close>: for \<open>i\<close> from 0 to 7 it is entry 0, 1,
  3, 2, 4, 5, 7, 6 of the array \<^verbatim>\<open>corners()\<close>. The pairs of indices below 8
  that differ in exactly one of the bits 0, 1, 2, smaller index first; the
  edges of a box: the segments joining those pairs of corners; the boxes of
  nodes of a layer that pass the filter (there being no filter, all do); and
  a segment without its direction.
\<close>

definition box_corner :: "BoundingBox \<Rightarrow> nat \<Rightarrow> Point" where
  "box_corner bbox i = bbox_corners bbox ! ([0, 1, 3, 2, 4, 5, 7, 6] ! i)"

definition one_bit_pairs :: "(nat \<times> nat) list" where
  "one_bit_pairs = [(a, b). a \<leftarrow> [0..<8], b \<leftarrow> [0..<8], a < b \<and> differ_in_one_bit a b]"

definition box_edges :: "BoundingBox \<Rightarrow> (Point \<times> Point) list" where
  "box_edges bbox = map (\<lambda>(a, b). (box_corner bbox a, box_corner bbox b)) one_bit_pairs"

definition passes :: "'c FilterFunction \<Rightarrow> 'c SceneGraphNode \<Rightarrow> bool" where
  "passes filter' n = (case filter' of None \<Rightarrow> True | Some f \<Rightarrow> f n)"

definition wireframe_boxes :: "'c FilterFunction \<Rightarrow> 'c SceneGraphLayer \<Rightarrow> BoundingBox list" where
  "wireframe_boxes filter' layer =
     List.map_filter (\<lambda>n. if passes filter' n
                           then (case attributes_Semantic (node_attrs n) of
                                   Inl e \<Rightarrow> None
                                 | Inr attrs \<Rightarrow> Some (bounding_box attrs))
                           else None)
       (nodes layer)"

definition undirected :: "'a \<times> 'a \<Rightarrow> 'a set" where
  "undirected e = {fst e, snd e}"

lemma one_bit_pairs_eq:
  "one_bit_pairs = [(0,1),(0,2),(0,4),(1,3),(1,5),(2,3),(2,6),(3,7),(4,5),(4,6),(5,7),(6,7)]"
  unfolding one_bit_pairs_def upt8 differ_in_one_bit_def
  by (simp add: upt_rec bit_numeral_simps bit_Suc_0_iff)

lemma one_bit_pairs_iff:
  "(a, b) \<in> set one_bit_pairs \<longleftrightarrow> a < 8 \<and> b < 8 \<and> a < b \<and> differ_in_one_bit a b"
  by (auto simp: one_bit_pairs_def)

lemma differ_sym: "differ_in_one_bit a b = differ_in_one_bit b a"
proof -
  have "(\<lambda>k. bit a k \<noteq> bit b k) = (\<lambda>k. bit b k \<noteq> bit a k)" by auto
  then show ?thesis by (simp add: differ_in_one_bit_def)
qed

lemma differ_irrefl: "\<not> differ_in_one_bit a a"
  by (simp add: differ_in_one_bit_def)

lemma corner_fill:
  "i < 8 \<Longrightarrow> getPointFromMatrix (fillCornersFromBbox bbox) i = box_corner bbox i"
  by (simp add: getPointFromMatrix_def fillCornersFromBbox_def box_corner_def remapping_def
        del: upt_Suc)

lemma wireframe_box_edges:
  "segment_points (fillCornersFromBbox bbox) (wireframe_pairs 8) = flatten (box_edges bbox)"
  unfolding wireframe_pairs_8 box_edges_def one_bit_pairs_eq
  by (simp add: segment_points_def corner_fill)

lemma addWireframe_box:
  "points (addWireframeToMarker (fillCornersFromBbox bbox) col m) = points m @ flatten (box_edges bbox)"
  "colors (addWireframeToMarker (fillCornersFromBbox bbox) col m) = colors m @ replicate 24 col"
proof -
  show "points (addWireframeToMarker (fillCornersFromBbox bbox) col m) = points m @ flatten (box_edges bbox)"
    by (simp add: addWireframeToMarker_def wireframe_fold_points wireframe_box_edges [symmetric]
          wireframe_pairs_def)
  have "concat (map (\<lambda>p. [col, col]) (wireframe_pairs 8)) = replicate 24 col"
    unfolding wireframe_pairs_8 by (simp add: numeral_eq_Suc)
  then show "colors (addWireframeToMarker (fillCornersFromBbox bbox) col m) = colors m @ replicate 24 col"
    by (simp add: addWireframeToMarker_def wireframe_fold_colors wireframe_pairs_def)
qed

lemma length_box_edges [simp]: "length (box_edges bbox) = 12"
  by (simp add: box_edges_def one_bit_pairs_eq)

lemma attributes_Semantic_cases:
  "attributes_Semantic x = Inl BadCast \<or> (\<exists>a. attributes_Semantic x = Inr a)"
  by (cases x) simp_all

lemma rejects_passes: "rejects filter' n = (\<not> passes filter' n)"
  by (simp add: rejects_def passes_def split: option.splits)

lemma wireframe_for_each:
  "\<forall>n\<in>set nds. passes filter' n \<longrightarrow>
      attributes_Semantic (node_attrs n) \<noteq> Inl BadCast \<and> (\<exists>c. func n = Inr c) \<Longrightarrow>
   \<exists>m'. for_each (wireframe_node config func filter') nds m = Inr m'
     \<and> points m' = points m @ concat (map (\<lambda>b. flatten (box_edges b))
                                  (wireframe_boxes filter' \<lparr>nodes = nds, edges = es\<rparr>))
     \<and> length (colors m') = length (colors m) + 24 * length (wireframe_boxes filter' \<lparr>nodes = nds, edges = es\<rparr>)"
proof (induction nds arbitrary: m)
  case Nil
  show ?case by (simp add: wireframe_boxes_def List.map_filter_simps)
next
  case (Cons n nds)
  from Cons.prems have r: "\<forall>n\<in>set nds. passes filter' n \<longrightarrow>
      attributes_Semantic (node_attrs n) \<noteq> Inl BadCast \<and> (\<exists>c. func n = Inr c)" by simp
  show ?case
  proof (cases "passes filter' n")
    case False
    then have s: "wireframe_node config func filter' n m = Inr m"
      by (simp add: wireframe_node_def rejects_passes)
    from Cons.IH [OF r, of m] s False show ?thesis
      by (simp add: wireframe_boxes_def List.map_filter_simps)
  next
    case True
    with Cons.prems obtain c where c: "func n = Inr c"
      and nb: "attributes_Semantic (node_attrs n) \<noteq> Inl BadCast" by auto
    from nb obtain attrs where a: "attributes_Semantic (node_attrs n) = Inr attrs"
      using attributes_Semantic_cases [of "node_attrs n"] by blast
    define m1 where "m1 = addWireframeToMarker (fillCornersFromBbox (bounding_box attrs))
                            (makeColorMsg c (bounding_box_alpha config)) m"
    have s: "wireframe_node config func filter' n m = Inr m1"
      using True a c by (simp add: wireframe_node_def m1_def rejects_passes)
    have p1: "points m1 = points m @ flatten (box_edges (bounding_box attrs))"
      and c1: "length (colors m1) = length (colors m) + 24"
      by (simp_all add: m1_def addWireframe_box)
    from Cons.IH [OF r, of m1] obtain m' where
      m': "for_each (wireframe_node config func filter') nds m1 = Inr m'"
        "points m' = points m1 @ concat (map (\<lambda>b. flatten (box_edges b))
                                  (wireframe_boxes filter' \<lparr>nodes = nds, edges = es\<rparr>))"
        "length (colors m') = length (colors m1) + 24 * length (wireframe_boxes filter' \<lparr>nodes = nds, edges = es\<rparr>)"
      by blast
    from s m' p1 c1 True a show ?thesis
      by (simp add: wireframe_boxes_def List.map_filter_simps)
  qed
qed

lemma box_corner_inj:
  assumes "distinct (bbox_corners bbox)" "length (bbox_corners bbox) = 8" "a < 8" "b < 8"
  shows "(box_corner bbox a = box_corner bbox b) = (a = b)"
proof -
  let ?r = "[0, 1, 3, 2, 4, 5, 7, 6::nat]"
  have d: "distinct ?r" by simp
  have l: "?r ! i < 8" if "i < 8" for i
  proof -
    from that have "i \<in> set [0..<8]" by simp
    then show ?thesis unfolding upt8 by auto
  qed
  from l [of a] l [of b] assms have "(box_corner bbox a = box_corner bbox b) = (?r ! a = ?r ! b)"
    unfolding box_corner_def by (simp add: nth_eq_iff_index_eq)
  also have "\<dots> = (a = b)"
    using nth_eq_iff_index_eq [OF d, of a b] assms by simp
  finally show ?thesis .
qed

lemma box_edges_mem:
  assumes "distinct (bbox_corners bbox)" "length (bbox_corners bbox) = 8" "a < 8" "b < 8"
  shows "(box_corner bbox a, box_corner bbox b) \<in> set (box_edges bbox)
           \<longleftrightarrow> a < b \<and> differ_in_one_bit a b"
proof
  assume "(box_corner bbox a, box_corner bbox b) \<in> set (box_edges bbox)"
  then obtain a' b' where m: "(a', b') \<in> set one_bit_pairs"
    and e: "box_corner bbox a' = box_corner bbox a" "box_corner bbox b' = box_corner bbox b"
    by (auto simp: box_edges_def)
  from m have b: "a' < 8" "b' < 8" "a' < b'" "differ_in_one_bit a' b'"
    by (simp_all add: one_bit_pairs_iff)
  from e b assms have "a' = a" "b' = b"
    by (simp_all add: box_corner_inj)
  with b show "a < b \<and> differ_in_one_bit a b" by simp
next
  assume "a < b \<and> differ_in_one_bit a b"
  with assms have "(a, b) \<in> set one_bit_pairs" by (simp add: one_bit_pairs_iff)
  then show "(box_corner bbox a, box_corner bbox b) \<in> set (box_edges bbox)"
    by (force simp: box_edges_def)
qed

lemma box_edges_facts:
  assumes d: "distinct (bbox_corners bbox)" and l: "length (bbox_corners bbox) = 8"
  shows "distinct (map undirected (box_edges bbox))"
    and "\<forall>e\<in>set (box_edges bbox). fst e \<noteq> snd e"
    and "\<forall>a<8. \<forall>b<8.
           ((box_corner bbox a, box_corner bbox b) \<in> set (box_edges bbox)
            \<or> (box_corner bbox b, box_corner bbox a) \<in> set (box_edges bbox))
           = differ_in_one_bit a b"
proof -
  have lt: "\<And>a b. (a, b) \<in> set one_bit_pairs \<Longrightarrow> a < 8 \<and> b < 8 \<and> a < b"
    by (simp add: one_bit_pairs_iff)
  have inj: "inj_on (\<lambda>(a, b). {box_corner bbox a, box_corner bbox b}) (set one_bit_pairs)"
  proof (rule inj_onI, clarify)
    fix a b a' b'
    assume m: "(a, b) \<in> set one_bit_pairs" "(a', b') \<in> set one_bit_pairs"
      and e: "{box_corner bbox a, box_corner bbox b} = {box_corner bbox a', box_corner bbox b'}"
    from lt [OF m(1)] lt [OF m(2)] have b: "a < 8" "b < 8" "a < b" "a' < 8" "b' < 8" "a' < b'"
      by simp_all
    from e have "(box_corner bbox a = box_corner bbox a' \<and> box_corner bbox b = box_corner bbox b')
        \<or> (box_corner bbox a = box_corner bbox b' \<and> box_corner bbox b = box_corner bbox a')"
      by (simp add: doubleton_eq_iff)
    with b d l have "(a = a' \<and> b = b') \<or> (a = b' \<and> b = a')"
      by (simp add: box_corner_inj)
    with b show "a = a' \<and> b = b'" by auto
  qed
  have dp: "distinct one_bit_pairs"
    unfolding one_bit_pairs_eq by simp
  have "map undirected (box_edges bbox)
      = map (\<lambda>(a, b). {box_corner bbox a, box_corner bbox b}) one_bit_pairs"
    by (simp add: box_edges_def undirected_def case_prod_beta comp_def)
  with inj dp show "distinct (map undirected (box_edges bbox))"
    by (simp add: distinct_map)
  show "\<forall>e\<in>set (box_edges bbox). fst e \<noteq> snd e"
  proof
    fix e assume "e \<in> set (box_edges bbox)"
    then obtain a b where m: "(a, b) \<in> set one_bit_pairs"
      and e: "e = (box_corner bbox a, box_corner bbox b)"
      by (auto simp: box_edges_def)
    from lt [OF m] d l have "box_corner bbox a \<noteq> box_corner bbox b"
      by (simp add: box_corner_inj)
    with e show "fst e \<noteq> snd e" by simp
  qed
  show "\<forall>a<8. \<forall>b<8.
           ((box_corner bbox a, box_corner bbox b) \<in> set (box_edges bbox)
            \<or> (box_corner bbox b, box_corner bbox a) \<in> set (box_edges bbox))
           = differ_in_one_bit a b"
  proof (intro allI impI)
    fix a b :: nat assume ab: "a < 8" "b < 8"
    have "a < b \<or> b < a \<or> a = b" by auto
    then show "((box_corner bbox a, box_corner bbox b) \<in> set (box_edges bbox)
            \<or> (box_corner bbox b, box_corner bbox a) \<in> set (box_edges bbox))
           = differ_in_one_bit a b"
      using box_edges_mem [OF d l ab] box_edges_mem [OF d l ab(2) ab(1)]
        differ_sym [of a b] differ_irrefl [of a]
      by auto
  qed
qed


text \<open>
  C2. On a layer whose nodes that pass the filter have a bounding box and a
  colour, the wireframe builder returns a line list whose segments are, node
  after node, the twelve edges \<open>box_edges\<close> of the node's box: the segments
  joining the corners whose indices differ in exactly one bit, one colour per
  point. When the eight corners of a box are distinct points, no two of its
  twelve segments join the same two corners, none joins a corner to itself,
  and two corners are joined exactly when their indices differ in exactly one
  bit.
\<close>

theorem wireframe_twelve_edges:
  assumes "\<forall>n\<in>set (nodes layer). passes filter' n \<longrightarrow>
             attributes_Semantic (node_attrs n) \<noteq> Inl BadCast \<and> (\<exists>c. func n = Inr c)"
  shows "\<exists>m. makeLayerWireframeBoundingBoxes X hdr config layer visualizer_config ns' func filter'
               = Inr m
     \<and> segments_of (points m) = concat (map box_edges (wireframe_boxes filter' layer))
     \<and> length (segments_of (points m)) = 12 * length (wireframe_boxes filter' layer)
     \<and> length (points m) = 2 * length (segments_of (points m))
     \<and> length (colors m) = length (points m)
     \<and> (\<forall>bbox\<in>set (wireframe_boxes filter' layer).
          length (box_edges bbox) = 12
          \<and> (distinct (bbox_corners bbox) \<and> length (bbox_corners bbox) = 8 \<longrightarrow>
               distinct (map undirected (box_edges bbox))
               \<and> (\<forall>e\<in>set (box_edges bbox). fst e \<noteq> snd e)
               \<and> (\<forall>a<8. \<forall>b<8.
                    ((box_corner bbox a, box_corner bbox b) \<in> set (box_edges bbox)
                     \<or> (box_corner bbox b, box_corner bbox a) \<in> set (box_edges bbox))
                    = differ_in_one_bit a b)))"
proof -
  have "\<exists>m0. makeLayerWireframeBoundingBoxes X hdr config layer visualizer_config ns' func filter' =
      for_each (wireframe_node config func filter') (nodes layer) m0
      \<and> points m0 = [] \<and> colors m0 = []"
    unfolding makeLayerWireframeBoundingBoxes_def Let_def
    by (rule exI, rule conjI, rule refl) (simp add: pose_add_z_def Marker0_def)
  then obtain m0 where
    e: "makeLayerWireframeBoundingBoxes X hdr config layer visualizer_config ns' func filter' =
      for_each (wireframe_node config func filter') (nodes layer) m0"
    and p0: "points m0 = []" and c0: "colors m0 = []"
    by blast
  have b: "wireframe_boxes filter' \<lparr>nodes = nodes layer, edges = edges layer\<rparr>
             = wireframe_boxes filter' layer"
    by (simp add: wireframe_boxes_def)
  from wireframe_for_each [OF assms, of config m0 "edges layer"] obtain m where
    m: "for_each (wireframe_node config func filter') (nodes layer) m0 = Inr m"
       "points m = points m0 @ concat (map (\<lambda>b. flatten (box_edges b)) (wireframe_boxes filter' layer))"
       "length (colors m) = length (colors m0) + 24 * length (wireframe_boxes filter' layer)"
    unfolding b by blast
  have pm: "points m = concat (map (\<lambda>b. flatten (box_edges b)) (wireframe_boxes filter' layer))"
    using m(2) p0 by simp
  have s: "segments_of (points m) = concat (map box_edges (wireframe_boxes filter' layer))"
    unfolding pm by (rule segments_of_concat_flatten)
  have ls: "length (concat (map box_edges bs)) = 12 * length bs" for bs
    by (induction bs) simp_all
  have l: "length (points m) = 2 * length (concat (map box_edges (wireframe_boxes filter' layer)))"
  proof -
    have "concat (map (\<lambda>b. flatten (box_edges b)) (wireframe_boxes filter' layer)) =
        flatten (concat (map box_edges (wireframe_boxes filter' layer)))"
      by (simp add: flatten_concat comp_def)
    then show ?thesis unfolding pm by simp
  qed
  have cl: "length (colors m) = 24 * length (wireframe_boxes filter' layer)"
    using m(3) c0 by simp
  have f: "\<forall>bbox\<in>set (wireframe_boxes filter' layer).
          length (box_edges bbox) = 12
          \<and> (distinct (bbox_corners bbox) \<and> length (bbox_corners bbox) = 8 \<longrightarrow>
               distinct (map undirected (box_edges bbox))
               \<and> (\<forall>e\<in>set (box_edges bbox). fst e \<noteq> snd e)
               \<and> (\<forall>a<8. \<forall>b<8.
                    ((box_corner bbox a, box_corner bbox b) \<in> set (box_edges bbox)
                     \<or> (box_corner bbox b, box_corner bbox a) \<in> set (box_edges bbox))
                    = differ_in_one_bit a b))"
  proof (rule ballI, rule conjI, simp, rule impI, elim conjE)
    fix bbox :: BoundingBox
    assume d: "distinct (bbox_corners bbox)" and l8: "length (bbox_corners bbox) = 8"
    from box_edges_facts [OF d l8]
    show "distinct (map undirected (box_edges bbox))
               \<and> (\<forall>e\<in>set (box_edges bbox). fst e \<noteq> snd e)
               \<and> (\<forall>a<8. \<forall>b<8.
                    ((box_corner bbox a, box_corner bbox b) \<in> set (box_edges bbox)
                     \<or> (box_corner bbox b, box_corner bbox a) \<in> set (box_edges bbox))
                    = differ_in_one_bit a b)"
      by (intro conjI)
  qed
  have "makeLayerWireframeBoundingBoxes X hdr config layer visualizer_config ns' func filter' = Inr m"
    using e m(1) by simp
  moreover have "length (segments_of (points m)) = 12 * length (wireframe_boxes filter' layer)"
    unfolding s by (rule ls)
  moreover have "length (points m) = 2 * length (segments_of (points m))"
    unfolding s by (rule l)
  moreover have "length (colors m) = length (points m)"
    using cl l ls by simp
  ultimately show ?thesis
    using s f by blast
qed

text \<open>
  The unit cube, its corners listed face by face, bottom face first, each face
  as a ring, so that the corner with index \<open>i\<close> has bit 0, 1, 2 of \<open>i\<close> as
  its x, y, z; a layer with one object that has this box and one node without
  a bounding box, which the filter rejects. The twelve segments are the twelve
  edges of the cube.
\<close>

definition example_cube :: BoundingBox where
  "example_cube =
     \<lparr>world_P_center = \<lparr>pt_x = 1/2, pt_y = 1/2, pt_z = 1/2\<rparr>,
      world_R_center = \<lparr>q_x = 0, q_y = 0, q_z = 0, q_w = 1\<rparr>,
      dimensions = \<lparr>pt_x = 1, pt_y = 1, pt_z = 1\<rparr>,
      bbox_corners = [\<lparr>pt_x = 0, pt_y = 0, pt_z = 0\<rparr>, \<lparr>pt_x = 1, pt_y = 0, pt_z = 0\<rparr>,
                      \<lparr>pt_x = 1, pt_y = 1, pt_z = 0\<rparr>, \<lparr>pt_x = 0, pt_y = 1, pt_z = 0\<rparr>,
                      \<lparr>pt_x = 0, pt_y = 0, pt_z = 1\<rparr>, \<lparr>pt_x = 1, pt_y = 0, pt_z = 1\<rparr>,
                      \<lparr>pt_x = 1, pt_y = 1, pt_z = 1\<rparr>, \<lparr>pt_x = 0, pt_y = 1, pt_z = 1\<rparr>]\<rparr>"

definition example_cube_layer :: "nat SceneGraphLayer" where
  "example_cube_layer =
     \<lparr>nodes = [\<lparr>node_id = 1, node_layer = 2,
                 node_attrs = SemanticAttrs \<lparr>position = Point0, name = ''o'', color = 9,
                                bounding_box = example_cube, semantic_label = 2\<rparr>\<rparr>,
               \<lparr>node_id = 2, node_layer = 2, node_attrs = BaseAttrs \<lparr>position = Point0\<rparr>\<rparr>],
      edges = []\<rparr>"

theorem wireframe_twelve_edges_witness:
  "\<exists>m. makeLayerWireframeBoundingBoxes example_ext example_header (example_config 0)
          example_cube_layer example_visualizer_config ''bbox'' (\<lambda>n. Inr 3)
          (Some (\<lambda>n. node_id n \<noteq> 2)) = Inr m
     \<and> segments_of (points m) =
         [(\<lparr>pt_x = 0, pt_y = 0, pt_z = 0\<rparr>, \<lparr>pt_x = 1, pt_y = 0, pt_z = 0\<rparr>),
          (\<lparr>pt_x = 0, pt_y = 0, pt_z = 0\<rparr>, \<lparr>pt_x = 0, pt_y = 1, pt_z = 0\<rparr>),
          (\<lparr>pt_x = 0, pt_y = 0, pt_z = 0\<rparr>, \<lparr>pt_x = 0, pt_y = 0, pt_z = 1\<rparr>),
          (\<lparr>pt_x = 1, pt_y = 0, pt_z = 0\<rparr>, \<lparr>pt_x = 1, pt_y = 1, pt_z = 0\<rparr>),
          (\<lparr>pt_x = 1, pt_y = 0, pt_z = 0\<rparr>, \<lparr>pt_x = 1, pt_y = 0, pt_z = 1\<rparr>),
          (\<lparr>pt_x = 0, pt_y = 1, pt_z = 0\<rparr>, \<lparr>pt_x = 1, pt_y = 1, pt_z = 0\<rparr>),
          (\<lparr>pt_x = 0, pt_y = 1, pt_z = 0\<rparr>, \<lparr>pt_x = 0, pt_y = 1, pt_z = 1\<rparr>),
          (\<lparr>pt_x = 1, pt_y = 1, pt_z = 0\<rparr>, \<lparr>pt_x = 1, pt_y = 1, pt_z = 1\<rparr>),
          (\<lparr>pt_x = 0, pt_y = 0, pt_z = 1\<rparr>, \<lparr>pt_x = 1, pt_y = 0, pt_z = 1\<rparr>),
          (\<lparr>pt_x = 0, pt_y = 0, pt_z = 1\<rparr>, \<lparr>pt_x = 0, pt_y = 1, pt_z = 1\<rparr>),
          (\<lparr>pt_x = 1, pt_y = 0, pt_z = 1\<rparr>, \<lparr>pt_x = 1, pt_y = 1, pt_z = 1\<rparr>),
          (\<lparr>pt_x = 0, pt_y = 1, pt_z = 1\<rparr>, \<lparr>pt_x = 1, pt_y = 1, pt_z = 1\<rparr>)]
     \<and> length (points m) = 24 \<and> length (colors m) = 24
     \<and> distinct (map undirected (segments_of (points m)))
     \<and> differ_in_one_bit 0 4 \<and> \<not> differ_in_one_bit 3 4"
proof -
  have h: "\<forall>n\<in>set (nodes example_cube_layer). passes (Some (\<lambda>n. node_id n \<noteq> 2)) n \<longrightarrow>
             attributes_Semantic (node_attrs n) \<noteq> Inl BadCast \<and> (\<exists>c. (\<lambda>n. Inr (3::nat)) n = Inr c)"
    by (simp add: example_cube_layer_def passes_def)
  have b: "wireframe_boxes (Some (\<lambda>n. node_id n \<noteq> 2)) example_cube_layer = [example_cube]"
    by (simp add: wireframe_boxes_def List.map_filter_simps example_cube_layer_def passes_def)
  have d: "distinct (bbox_corners example_cube) \<and> length (bbox_corners example_cube) = 8"
    by (simp add: example_cube_def)
  from wireframe_twelve_edges [OF h, of example_ext example_header "example_config 0"
         example_visualizer_config "''bbox''"]
  obtain m where
    m: "makeLayerWireframeBoundingBoxes example_ext example_header (example_config 0)
          example_cube_layer example_visualizer_config ''bbox'' (\<lambda>n. Inr 3)
          (Some (\<lambda>n. node_id n \<noteq> 2)) = Inr m"
    "segments_of (points m) = concat (map box_edges [example_cube])"
    "length (points m) = 2 * length (segments_of (points m))"
    "length (colors m) = length (points m)"
    "distinct (map undirected (box_edges example_cube))"
    unfolding b using d by auto
  have e: "box_edges example_cube =
         [(\<lparr>pt_x = 0, pt_y = 0, pt_z = 0\<rparr>, \<lparr>pt_x = 1, pt_y = 0, pt_z = 0\<rparr>),
          (\<lparr>pt_x = 0, pt_y = 0, pt_z = 0\<rparr>, \<lparr>pt_x = 0, pt_y = 1, pt_z = 0\<rparr>),
          (\<lparr>pt_x = 0, pt_y = 0, pt_z = 0\<rparr>, \<lparr>pt_x = 0, pt_y = 0, pt_z = 1\<rparr>),
          (\<lparr>pt_x = 1, pt_y = 0, pt_z = 0\<rparr>, \<lparr>pt_x = 1, pt_y = 1, pt_z = 0\<rparr>),
          (\<lparr>pt_x = 1, pt_y = 0, pt_z = 0\<rparr>, \<lparr>pt_x = 1, pt_y = 0, pt_z = 1\<rparr>),
          (\<lparr>pt_x = 0, pt_y = 1, pt_z = 0\<rparr>, \<lparr>pt_x = 1, pt_y = 1, pt_z = 0\<rparr>),
          (\<lparr>pt_x = 0, pt_y = 1, pt_z = 0\<rparr>, \<lparr>pt_x = 0, pt_y = 1, pt_z = 1\<rparr>),
          (\<lparr>pt_x = 1, pt_y = 1, pt_z = 0\<rparr>, \<lparr>pt_x = 1, pt_y = 1, pt_z = 1\<rparr>),
          (\<lparr>pt_x = 0, pt_y = 0, pt_z = 1\<rparr>, \<lparr>pt_x = 1, pt_y = 0, pt_z = 1\<rparr>),
          (\<lparr>pt_x = 0, pt_y = 0, pt_z = 1\<rparr>, \<lparr>pt_x = 0, pt_y = 1, pt_z = 1\<rparr>),
          (\<lparr>pt_x = 1, pt_y = 0, pt_z = 1\<rparr>, \<lparr>pt_x = 1, pt_y = 1, pt_z = 1\<rparr>),
          (\<lparr>pt_x = 0, pt_y = 1, pt_z = 1\<rparr>, \<lparr>pt_x = 1, pt_y = 1, pt_z = 1\<rparr>)]"
    by (simp add: box_edges_def one_bit_pairs_eq box_corner_def example_cube_def)
  have s: "segments_of (points m) = box_edges example_cube"
    using m(2) by simp
  have bits: "differ_in_one_bit 0 4 \<and> \<not> differ_in_one_bit 3 4"
    by (simp add: differ_in_one_bit_def upt_rec bit_numeral_simps bit_Suc_0_iff)
  have l: "length (points m) = 24" "length (colors m) = 24"
    using m(3,4) s by simp_all
  have dd: "distinct (map undirected (segments_of (points m)))"
    using m(5) s by simp
  show ?thesis
    using m(1) s l dd bits unfolding e by blast
qed


section \<open>Sampling of inter-layer edges\<close>

text \<open>
  Draw one, skip \<open>k\<close>, as the aggregation loops do it: \<open>sample kf c es\<close> are the
  edges drawn from the qualifying edges \<open>es\<close> of one batch when the batch's
  counter is \<open>c\<close> and \<open>kf e\<close> is the skip count in force at edge \<open>e\<close>. An edge
  is drawn, and the counter reset to 0, when the counter has reached the skip
  count; otherwise the counter is incremented and the edge dropped. A new batch
  starts with its counter at the skip count of its first edge.
\<close>

fun sample :: "('e \<Rightarrow> nat) \<Rightarrow> nat \<Rightarrow> 'e list \<Rightarrow> 'e list" where
  "sample kf c [] = []"
| "sample kf c (e # es) = (if kf e \<le> c then e # sample kf 0 es else sample kf (c + 1) es)"

lemma length_sample:
  "\<forall>e\<in>set es. kf e = k \<Longrightarrow> c \<le> k \<Longrightarrow> length (sample kf c es) = (length es + c) div (k + 1)"
proof (induction es arbitrary: c)
  case Nil
  then show ?case by simp
next
  case (Cons e es)
  show ?case
  proof (cases "k \<le> c")
    case True
    with Cons.prems have ck: "c = k" by simp
    have "length (sample kf 0 es) = (length es + 0) div (k + 1)"
      using Cons.IH [of 0] Cons.prems by simp
    moreover have "(Suc (length es) + k) div (k + 1) = Suc (length es div (k + 1))"
    proof -
      have "Suc (length es) + k = length es + (k + 1)" by simp
      then show ?thesis by (simp only: div_add_self2)
    qed
    ultimately show ?thesis using Cons.prems ck by simp
  next
    case False
    then have "c + 1 \<le> k" by simp
    from Cons.IH [OF _ this] Cons.prems False show ?thesis by simp
  qed
qed

lemma ceiling_div: "(n + k) div (k + 1) = nat \<lceil>real n / real (k + 1)\<rceil>" for n k :: nat
proof -
  define m where "m = (n + k) div (k + 1)"
  have lo: "m * (k + 1) \<le> n + k"
    unfolding m_def by (rule div_times_less_eq_dividend)
  have hi: "n + k < m * (k + 1) + (k + 1)"
    unfolding m_def using dividend_less_div_times [of "k + 1" "n + k"] by simp
  from hi have "n \<le> m * (k + 1)" by simp
  then have "real n \<le> real (m * (k + 1))" by (simp only: of_nat_le_iff)
  then have u: "real n / real (k + 1) \<le> real m"
    by (simp add: field_simps)
  from lo have "m * (k + 1) < n + (k + 1)" by simp
  then have "real (m * (k + 1)) < real (n + (k + 1))" by (simp only: of_nat_less_iff)
  then have l: "real m - 1 < real n / real (k + 1)"
    by (simp add: field_simps)
  have "\<lceil>real n / real (k + 1)\<rceil> = int m"
    by (rule ceiling_unique) (use u l in simp_all)
  then show ?thesis by (simp add: m_def)
qed


lemma map_of_map_put: "map_of (map_put k v m) = (map_of m)(k \<mapsto> v)"
  by (induction m) (auto simp: fun_upd_twist)

lemma for_each_Cons_Inr:
  "for_each body (x # xs) s = Inr s' \<Longrightarrow> \<exists>s1. body x s = Inr s1 \<and> for_each body xs s1 = Inr s'"
  by (cases "body x s") simp_all

lemma for_each_sampled:
  fixes step :: "'e \<Rightarrow> 'c edge_state \<Rightarrow> error + 'c edge_state"
  assumes step: "\<And>e lm cnt lm' cnt'. step e (lm, cnt) = Inr (lm', cnt') \<Longrightarrow>
       (if q e then
          (case map_of lm s of
             None \<Rightarrow> (\<exists>m'. map_of lm' s = Some m' \<and> v m' = vdraw e (vnew e)) \<and> cnt' s = 0
           | Some m \<Rightarrow> if kf e \<le> cnt s
                       then (\<exists>m'. map_of lm' s = Some m' \<and> v m' = vdraw e (v m)) \<and> cnt' s = 0
                       else (\<exists>m'. map_of lm' s = Some m' \<and> v m' = v m) \<and> cnt' s = cnt s + 1)
        else map_of lm' s = map_of lm s \<and> cnt' s = cnt s)"
  and run: "for_each step es (lm, cnt) = Inr (lm', cnt')"
  shows "map_option v (map_of lm' s) = (case map_of lm s of
            None \<Rightarrow> (case filter q es of
                        [] \<Rightarrow> None
                      | e # r \<Rightarrow> Some (foldl (\<lambda>x e. vdraw e x) (vnew e) (sample kf (kf e) (e # r))))
          | Some m \<Rightarrow> Some (foldl (\<lambda>x e. vdraw e x) (v m) (sample kf (cnt s) (filter q es))))"
  using run
proof (induction es arbitrary: lm cnt)
  case Nil
  then show ?case by (simp split: option.splits)
next
  case (Cons e es)
  from for_each_Cons_Inr [OF Cons.prems] obtain lm1 cnt1 where
    s1: "step e (lm, cnt) = Inr (lm1, cnt1)" and r1: "for_each step es (lm1, cnt1) = Inr (lm', cnt')"
    by (metis surj_pair)
  note ih = Cons.IH [OF r1]
  note st = step [OF s1]
  show ?case
  proof (cases "q e")
    case False
    with st ih show ?thesis by (simp split: option.splits)
  next
    case True
    show ?thesis
    proof (cases "map_of lm s")
      case None
      with st True obtain m' where "map_of lm1 s = Some m'" "v m' = vdraw e (vnew e)" "cnt1 s = 0"
        by auto
      with ih None True show ?thesis by simp
    next
      case (Some m)
      show ?thesis
      proof (cases "kf e \<le> cnt s")
        case True
        with st \<open>q e\<close> Some obtain m' where "map_of lm1 s = Some m'" "v m' = vdraw e (v m)" "cnt1 s = 0"
          by auto
        with ih Some \<open>q e\<close> True show ?thesis by simp
      next
        case False
        with st \<open>q e\<close> Some obtain m' where "map_of lm1 s = Some m'" "v m' = v m" "cnt1 s = cnt s + 1"
          by auto
        with ih Some \<open>q e\<close> False show ?thesis by simp
      qed
    qed
  qed
qed

text \<open>What the statements below read off a batch: its points, the number of its colours, its namespace.\<close>

definition batch_view :: "'c Marker \<Rightarrow> Point list \<times> nat \<times> string" where
  "batch_view m = (points m, length (colors m), ns m)"

definition draw_view :: "nat \<Rightarrow> Point \<times> Point \<Rightarrow> Point list \<times> nat \<times> string \<Rightarrow> Point list \<times> nat \<times> string" where
  "draw_view ncol seg = (\<lambda>(ps, nc, n). (ps @ [fst seg, snd seg], nc + ncol, n))"

lemma foldl_draw_view:
  "foldl (\<lambda>x e. draw_view ncol (seg e) x) (ps, nc, n) es =
     (ps @ concat (map (\<lambda>e. [fst (seg e), snd (seg e)]) es), nc + ncol * length es, n)"
  by (induction es arbitrary: ps nc) (simp_all add: draw_view_def)

text \<open>
  The two end nodes of an edge, and the gates of \<open>graph_edge_body\<close> an edge
  must pass to count for the batch of source layer \<open>s\<close>.
\<close>

definition edge_ends ::
  "'c DynamicSceneGraph \<Rightarrow> SceneGraphEdge \<Rightarrow> ('c SceneGraphNode \<times> 'c SceneGraphNode) option" where
  "edge_ends graph e =
     (case getNode (graph_nodes graph) (source e) of
        Inl x \<Rightarrow> None
      | Inr sn \<Rightarrow> (case getNode (graph_nodes graph) (target e) of
                     Inl x \<Rightarrow> None
                   | Inr tn \<Rightarrow> Some (sn, tn)))"

definition graph_edge_qualifies ::
  "'c DynamicSceneGraph \<Rightarrow> (LayerId \<rightharpoonup> LayerConfig) \<Rightarrow> 'c FilterFunction \<Rightarrow>
   LayerId \<Rightarrow> SceneGraphEdge \<Rightarrow> bool" where
  "graph_edge_qualifies graph configs filter' s e =
     (case edge_ends graph e of
        None \<Rightarrow> False
      | Some (sn, tn) \<Rightarrow>
          \<not> rejects filter' sn \<and> \<not> rejects filter' tn
          \<and> (case configs (node_layer sn) of None \<Rightarrow> False | Some cs \<Rightarrow> visualize cs)
          \<and> (case configs (node_layer tn) of None \<Rightarrow> False | Some ct \<Rightarrow> visualize ct)
          \<and> node_layer sn = s)"

definition layer_skip :: "(LayerId \<rightharpoonup> LayerConfig) \<Rightarrow> LayerId \<Rightarrow> nat" where
  "layer_skip configs s =
     (case configs s of None \<Rightarrow> 0 | Some cs \<Rightarrow> interlayer_edge_insertion_skip cs)"

definition graph_edge_new ::
  "Header \<Rightarrow> 'c DynamicSceneGraph \<Rightarrow> (LayerId \<rightharpoonup> LayerConfig) \<Rightarrow> string \<Rightarrow>
   SceneGraphEdge \<Rightarrow> 'c Marker" where
  "graph_edge_new hdr graph configs ns_prefix e =
     (case edge_ends graph e of
        None \<Rightarrow> Marker0
      | Some (sn, tn) \<Rightarrow>
          (case configs (node_layer sn) of
             None \<Rightarrow> Marker0
           | Some cs \<Rightarrow> makeNewEdgeList hdr cs ns_prefix (node_layer sn) (node_layer tn)))"

text \<open>The two points a drawn edge contributes.\<close>

definition edge_segment ::
  "'c ext \<Rightarrow> 'c DynamicSceneGraph \<Rightarrow> (LayerId \<rightharpoonup> LayerConfig) \<Rightarrow> VisualizerConfig \<Rightarrow>
   SceneGraphEdge \<Rightarrow> Point \<times> Point" where
  "edge_segment X graph configs visualizer_config e =
     (case edge_ends graph e of
        None \<Rightarrow> (Point0, Point0)
      | Some (sn, tn) \<Rightarrow>
          (case (configs (node_layer sn), configs (node_layer tn)) of
             (Some cs, Some ct) \<Rightarrow>
               (add_z (getZOffset X cs visualizer_config) (position (attributes (node_attrs sn))),
                add_z (getZOffset X ct visualizer_config) (position (attributes (node_attrs tn))))
           | _ \<Rightarrow> (Point0, Point0)))"

lemma ns_push [simp]:
  "ns (push_point p m) = ns m" "ns (push_color c m) = ns m"
  by (simp_all add: push_point_def push_color_def)

lemma graph_edge_body_step:
  assumes "graph_edge_body X hdr graph configs visualizer_config ns_prefix filter' e (lm, cnt)
             = Inr (lm', cnt')"
  shows "if graph_edge_qualifies graph configs filter' s e then
          (case map_of lm s of
             None \<Rightarrow> (\<exists>m'. map_of lm' s = Some m'
                        \<and> batch_view m' = draw_view 2 (edge_segment X graph configs visualizer_config e)
                              (batch_view (graph_edge_new hdr graph configs ns_prefix e)))
                      \<and> cnt' s = 0
           | Some m \<Rightarrow> if layer_skip configs s \<le> cnt s
                       then (\<exists>m'. map_of lm' s = Some m'
                              \<and> batch_view m' = draw_view 2 (edge_segment X graph configs visualizer_config e)
                                    (batch_view m)) \<and> cnt' s = 0
                       else (\<exists>m'. map_of lm' s = Some m' \<and> batch_view m' = batch_view m)
                            \<and> cnt' s = cnt s + 1)
        else map_of lm' s = map_of lm s \<and> cnt' s = cnt s"
  using assms
  unfolding graph_edge_body_def graph_edge_qualifies_def edge_ends_def layer_skip_def
    graph_edge_new_def edge_segment_def map_at_def batch_view_def draw_view_def
  by (auto simp: Let_def map_of_map_put split: sum.splits option.splits if_splits prod.splits)

lemma graph_edges_final:
  assumes "for_each (graph_edge_body X hdr graph configs visualizer_config ns_prefix filter')
             es (lm, cnt) = Inr (lm', cnt')"
  shows "map_option batch_view (map_of lm' s) = (case map_of lm s of
            None \<Rightarrow> (case filter (graph_edge_qualifies graph configs filter' s) es of
                        [] \<Rightarrow> None
                      | e # r \<Rightarrow> Some (foldl (\<lambda>x e. draw_view 2 (edge_segment X graph configs visualizer_config e) x)
                                      (batch_view (graph_edge_new hdr graph configs ns_prefix e))
                                      (sample (\<lambda>e. layer_skip configs s) (layer_skip configs s) (e # r))))
          | Some m \<Rightarrow> Some (foldl (\<lambda>x e. draw_view 2 (edge_segment X graph configs visualizer_config e) x)
                             (batch_view m)
                             (sample (\<lambda>e. layer_skip configs s) (cnt s)
                                (filter (graph_edge_qualifies graph configs filter' s) es))))"
proof (rule for_each_sampled [where
      step = "graph_edge_body X hdr graph configs visualizer_config ns_prefix filter'"
      and q = "graph_edge_qualifies graph configs filter' s" and s = s and v = batch_view
      and vdraw = "\<lambda>e. draw_view 2 (edge_segment X graph configs visualizer_config e)"
      and vnew = "\<lambda>e. batch_view (graph_edge_new hdr graph configs ns_prefix e)"
      and kf = "\<lambda>e. layer_skip configs s", OF _ assms])
  fix e lm cnt lm' cnt'
  assume "graph_edge_body X hdr graph configs visualizer_config ns_prefix filter' e (lm, cnt)
            = Inr (lm', cnt')"
  then show "if graph_edge_qualifies graph configs filter' s e then
          (case map_of lm s of
             None \<Rightarrow> (\<exists>m'. map_of lm' s = Some m'
                        \<and> batch_view m' = draw_view 2 (edge_segment X graph configs visualizer_config e)
                              (batch_view (graph_edge_new hdr graph configs ns_prefix e)))
                      \<and> cnt' s = 0
           | Some m \<Rightarrow> if layer_skip configs s \<le> cnt s
                       then (\<exists>m'. map_of lm' s = Some m'
                              \<and> batch_view m' = draw_view 2 (edge_segment X graph configs visualizer_config e)
                                    (batch_view m)) \<and> cnt' s = 0
                       else (\<exists>m'. map_of lm' s = Some m' \<and> batch_view m' = batch_view m)
                            \<and> cnt' s = cnt s + 1)
        else map_of lm' s = map_of lm s \<and> cnt' s = cnt s"
    by (rule graph_edge_body_step)
qed


definition dynamic_edge_qualifies ::
  "'c DynamicSceneGraph \<Rightarrow> (LayerId \<rightharpoonup> LayerConfig) \<Rightarrow> (LayerId \<rightharpoonup> DynamicLayerConfig) \<Rightarrow>
   LayerId \<Rightarrow> SceneGraphEdge \<Rightarrow> bool" where
  "dynamic_edge_qualifies graph configs dynamic_configs s e =
     (case edge_ends graph e of
        None \<Rightarrow> False
      | Some (sn, tn) \<Rightarrow>
          shouldVisualize graph sn configs dynamic_configs
          \<and> shouldVisualize graph tn configs dynamic_configs
          \<and> node_layer sn = s)"

definition dynamic_edge_skip ::
  "'c DynamicSceneGraph \<Rightarrow> (LayerId \<rightharpoonup> DynamicLayerConfig) \<Rightarrow> SceneGraphEdge \<Rightarrow> nat" where
  "dynamic_edge_skip graph dynamic_configs e =
     (case edge_ends graph e of
        None \<Rightarrow> 0
      | Some (sn, tn) \<Rightarrow>
          (case dynamic_configs (getConfigLayer graph sn tn) of
             None \<Rightarrow> 0
           | Some c \<Rightarrow> dyn_interlayer_edge_insertion_skip c))"

lemma dynamic_edge_body_step:
  assumes "dynamic_edge_body X hdr graph configs dynamic_configs visualizer_config ns_prefix e (lm, cnt)
             = Inr (lm', cnt')"
  shows "if dynamic_edge_qualifies graph configs dynamic_configs s e then
          (case map_of lm s of
             None \<Rightarrow> (\<exists>m'. map_of lm' s = Some m'
                        \<and> batch_view m' = draw_view 0 (edge_segment X graph configs visualizer_config e)
                              (batch_view (graph_edge_new hdr graph configs ns_prefix e)))
                      \<and> cnt' s = 0
           | Some m \<Rightarrow> if dynamic_edge_skip graph dynamic_configs e \<le> cnt s
                       then (\<exists>m'. map_of lm' s = Some m'
                              \<and> batch_view m' = draw_view 0 (edge_segment X graph configs visualizer_config e)
                                    (batch_view m)) \<and> cnt' s = 0
                       else (\<exists>m'. map_of lm' s = Some m' \<and> batch_view m' = batch_view m)
                            \<and> cnt' s = cnt s + 1)
        else map_of lm' s = map_of lm s \<and> cnt' s = cnt s"
  using assms
  unfolding dynamic_edge_body_def dynamic_edge_qualifies_def edge_ends_def dynamic_edge_skip_def
    graph_edge_new_def edge_segment_def map_at_def batch_view_def draw_view_def
  by (auto simp: Let_def map_of_map_put split: sum.splits option.splits if_splits prod.splits)

lemma dynamic_edges_final:
  assumes "for_each (dynamic_edge_body X hdr graph configs dynamic_configs visualizer_config ns_prefix)
             es (lm, cnt) = Inr (lm', cnt')"
  shows "map_option batch_view (map_of lm' s) = (case map_of lm s of
            None \<Rightarrow> (case filter (dynamic_edge_qualifies graph configs dynamic_configs s) es of
                        [] \<Rightarrow> None
                      | e # r \<Rightarrow> Some (foldl (\<lambda>x e. draw_view 0 (edge_segment X graph configs visualizer_config e) x)
                                      (batch_view (graph_edge_new hdr graph configs ns_prefix e))
                                      (sample (dynamic_edge_skip graph dynamic_configs)
                                         (dynamic_edge_skip graph dynamic_configs e) (e # r))))
          | Some m \<Rightarrow> Some (foldl (\<lambda>x e. draw_view 0 (edge_segment X graph configs visualizer_config e) x)
                             (batch_view m)
                             (sample (dynamic_edge_skip graph dynamic_configs) (cnt s)
                                (filter (dynamic_edge_qualifies graph configs dynamic_configs s) es))))"
proof (rule for_each_sampled [where
      step = "dynamic_edge_body X hdr graph configs dynamic_configs visualizer_config ns_prefix"
      and q = "dynamic_edge_qualifies graph configs dynamic_configs s" and s = s and v = batch_view
      and vdraw = "\<lambda>e. draw_view 0 (edge_segment X graph configs visualizer_config e)"
      and vnew = "\<lambda>e. batch_view (graph_edge_new hdr graph configs ns_prefix e)"
      and kf = "dynamic_edge_skip graph dynamic_configs", OF _ assms])
  fix e lm cnt lm' cnt'
  assume "dynamic_edge_body X hdr graph configs dynamic_configs visualizer_config ns_prefix e (lm, cnt)
            = Inr (lm', cnt')"
  then show "if dynamic_edge_qualifies graph configs dynamic_configs s e then
          (case map_of lm s of
             None \<Rightarrow> (\<exists>m'. map_of lm' s = Some m'
                        \<and> batch_view m' = draw_view 0 (edge_segment X graph configs visualizer_config e)
                              (batch_view (graph_edge_new hdr graph configs ns_prefix e)))
                      \<and> cnt' s = 0
           | Some m \<Rightarrow> if dynamic_edge_skip graph dynamic_configs e \<le> cnt s
                       then (\<exists>m'. map_of lm' s = Some m'
                              \<and> batch_view m' = draw_view 0 (edge_segment X graph configs visualizer_config e)
                                    (batch_view m)) \<and> cnt' s = 0
                       else (\<exists>m'. map_of lm' s = Some m' \<and> batch_view m' = batch_view m)
                            \<and> cnt' s = cnt s + 1)
        else map_of lm' s = map_of lm s \<and> cnt' s = cnt s"
    by (rule dynamic_edge_body_step)
qed


lemma concat_segment_flatten:
  "concat (map (\<lambda>e. [fst (seg e), snd (seg e)]) es) = flatten (map seg es)"
  by (induction es) (simp_all add: flatten_def case_prod_beta)

lemma graph_edge_new_empty [simp]:
  "points (graph_edge_new hdr graph configs ns_prefix e) = []"
  "colors (graph_edge_new hdr graph configs ns_prefix e) = []"
  by (simp_all add: graph_edge_new_def makeNewEdgeList_def Marker0_def Let_def
        split: option.splits prod.splits)

lemma sample_first: "sample kf (kf e) (e # r) = e # sample kf 0 r"
  by simp

lemma graph_edges_batch:
  assumes "for_each (graph_edge_body X hdr graph configs visualizer_config ns_prefix filter')
             es ([], \<lambda>_. 0) = Inr (lm, cnt)"
  shows "case filter (graph_edge_qualifies graph configs filter' s) es of
           [] \<Rightarrow> map_of lm s = None
         | e # r \<Rightarrow> \<exists>m. map_of lm s = Some m
             \<and> points m = flatten (map (edge_segment X graph configs visualizer_config)
                                 (sample (\<lambda>e. layer_skip configs s) (layer_skip configs s) (e # r)))
             \<and> length (colors m) = length (points m)
             \<and> ns m = ns (graph_edge_new hdr graph configs ns_prefix e)"
  using graph_edges_final [OF assms, of s]
  by (auto simp: foldl_draw_view concat_segment_flatten batch_view_def
        simp del: sample.simps split: list.splits)

lemma dynamic_edges_batch:
  assumes "for_each (dynamic_edge_body X hdr graph configs dynamic_configs visualizer_config ns_prefix)
             es ([], \<lambda>_. 0) = Inr (lm, cnt)"
  shows "case filter (dynamic_edge_qualifies graph configs dynamic_configs s) es of
           [] \<Rightarrow> map_of lm s = None
         | e # r \<Rightarrow> \<exists>m. map_of lm s = Some m
             \<and> points m = flatten (map (edge_segment X graph configs visualizer_config)
                                 (sample (dynamic_edge_skip graph dynamic_configs)
                                    (dynamic_edge_skip graph dynamic_configs e) (e # r)))
             \<and> colors m = []
             \<and> ns m = ns (graph_edge_new hdr graph configs ns_prefix e)"
  using dynamic_edges_final [OF assms, of s]
  by (auto simp: foldl_draw_view concat_segment_flatten batch_view_def
        simp del: sample.simps split: list.splits)

lemma makeGraphEdgeMarkers_Inr:
  "makeGraphEdgeMarkers X hdr graph configs visualizer_config ns_prefix filter' = Inr markers \<Longrightarrow>
   \<exists>lm cnt. for_each (graph_edge_body X hdr graph configs visualizer_config ns_prefix filter')
               (interlayer_edges graph) ([], \<lambda>_. 0) = Inr (lm, cnt) \<and> markers = map snd lm"
  by (auto simp: makeGraphEdgeMarkers_def split: sum.splits)

lemma makeDynamicGraphEdgeMarkers_Inr:
  "makeDynamicGraphEdgeMarkers X hdr graph configs dynamic_configs visualizer_config ns_prefix = Inr markers \<Longrightarrow>
   \<exists>lm cnt. for_each (dynamic_edge_body X hdr graph configs dynamic_configs visualizer_config ns_prefix)
               (dynamic_interlayer_edges graph) ([], \<lambda>_. 0) = Inr (lm, cnt) \<and> markers = map snd lm"
  by (auto simp: makeDynamicGraphEdgeMarkers_def split: sum.splits)


lemma sampled_batch_facts:
  assumes "points m = flatten (map seg (sample kf (kf e) (e # r)))"
  shows "segments_of (points m) = map seg (sample kf (kf e) (e # r))"
    and "hd (segments_of (points m)) = seg e"
    and "\<forall>e'\<in>set (e # r). kf e' = k \<Longrightarrow>
           length (segments_of (points m)) = nat \<lceil>real (length (e # r)) / real (k + 1)\<rceil>"
proof -
  show a: "segments_of (points m) = map seg (sample kf (kf e) (e # r))"
    using assms by simp
  show "hd (segments_of (points m)) = seg e"
    unfolding a by simp
  assume k: "\<forall>e'\<in>set (e # r). kf e' = k"
  then have "kf e = k" by simp
  with length_sample [OF k, of k] show
    "length (segments_of (points m)) = nat \<lceil>real (length (e # r)) / real (k + 1)\<rceil>"
    unfolding a by (simp only: length_map ceiling_div [symmetric])
qed

text \<open>
  C4. Whenever the static (resp. dynamic) aggregation returns, the batch kept
  under a source layer \<open>s\<close> is absent if no edge qualifies for \<open>s\<close>, and
  otherwise holds exactly the segments of the edges \<open>sample\<close> picks from the
  qualifying edges of \<open>s\<close>, in order, with the counter starting at the skip
  count: the first qualifying edge is always drawn, and with \<open>E\<close> qualifying
  edges and skip count \<open>k\<close> there are \<open>ceil (E / (k + 1))\<close> segments. In the
  static variant \<open>k\<close> is the skip count of the source layer's config; in the
  dynamic variant the skip count is read per edge, and the count holds when
  all qualifying edges of the batch have the skip count \<open>k\<close>.
\<close>

theorem interlayer_edge_sampling:
  "(makeGraphEdgeMarkers X hdr graph configs visualizer_config ns_prefix filter' = Inr markers \<longrightarrow>
      (\<exists>lm cnt.
         for_each (graph_edge_body X hdr graph configs visualizer_config ns_prefix filter')
           (interlayer_edges graph) ([], \<lambda>_. 0) = Inr (lm, cnt)
         \<and> markers = map snd lm
         \<and> (case filter (graph_edge_qualifies graph configs filter' s) (interlayer_edges graph) of
              [] \<Rightarrow> map_of lm s = None
            | e # r \<Rightarrow> \<exists>m. map_of lm s = Some m
                \<and> segments_of (points m) =
                    map (edge_segment X graph configs visualizer_config)
                      (sample (\<lambda>e. layer_skip configs s) (layer_skip configs s) (e # r))
                \<and> hd (segments_of (points m)) = edge_segment X graph configs visualizer_config e
                \<and> length (segments_of (points m)) =
                    nat \<lceil>real (length (e # r)) / real (layer_skip configs s + 1)\<rceil>)))
   \<and> (makeDynamicGraphEdgeMarkers X hdr graph configs dynamic_configs visualizer_config ns_prefix
         = Inr dmarkers \<longrightarrow>
      (\<exists>lm cnt.
         for_each (dynamic_edge_body X hdr graph configs dynamic_configs visualizer_config ns_prefix)
           (dynamic_interlayer_edges graph) ([], \<lambda>_. 0) = Inr (lm, cnt)
         \<and> dmarkers = map snd lm
         \<and> (case filter (dynamic_edge_qualifies graph configs dynamic_configs s)
                   (dynamic_interlayer_edges graph) of
              [] \<Rightarrow> map_of lm s = None
            | e # r \<Rightarrow> \<exists>m. map_of lm s = Some m
                \<and> segments_of (points m) =
                    map (edge_segment X graph configs visualizer_config)
                      (sample (dynamic_edge_skip graph dynamic_configs)
                         (dynamic_edge_skip graph dynamic_configs e) (e # r))
                \<and> hd (segments_of (points m)) = edge_segment X graph configs visualizer_config e
                \<and> ((\<forall>e'\<in>set (e # r). dynamic_edge_skip graph dynamic_configs e' = k) \<longrightarrow>
                     length (segments_of (points m)) =
                       nat \<lceil>real (length (e # r)) / real (k + 1)\<rceil>))))"
proof (intro conjI impI)
  assume "makeGraphEdgeMarkers X hdr graph configs visualizer_config ns_prefix filter' = Inr markers"
  from makeGraphEdgeMarkers_Inr [OF this] obtain lm cnt where
    run: "for_each (graph_edge_body X hdr graph configs visualizer_config ns_prefix filter')
           (interlayer_edges graph) ([], \<lambda>_. 0) = Inr (lm, cnt)" and mk: "markers = map snd lm"
    by blast
  have "case filter (graph_edge_qualifies graph configs filter' s) (interlayer_edges graph) of
              [] \<Rightarrow> map_of lm s = None
            | e # r \<Rightarrow> \<exists>m. map_of lm s = Some m
                \<and> segments_of (points m) =
                    map (edge_segment X graph configs visualizer_config)
                      (sample (\<lambda>e. layer_skip configs s) (layer_skip configs s) (e # r))
                \<and> hd (segments_of (points m)) = edge_segment X graph configs visualizer_config e
                \<and> length (segments_of (points m)) =
                    nat \<lceil>real (length (e # r)) / real (layer_skip configs s + 1)\<rceil>"
  proof (cases "filter (graph_edge_qualifies graph configs filter' s) (interlayer_edges graph)")
    case Nil
    with graph_edges_batch [OF run, of s] show ?thesis by simp
  next
    case (Cons e r)
    with graph_edges_batch [OF run, of s] obtain m where
      m: "map_of lm s = Some m"
         "points m = flatten (map (edge_segment X graph configs visualizer_config)
                         (sample (\<lambda>e. layer_skip configs s) (layer_skip configs s) (e # r)))"
      by auto
    from sampled_batch_facts(1,2) [OF m(2)]
      sampled_batch_facts(3) [OF m(2), of "layer_skip configs s"] m(1) Cons
    show ?thesis by simp
  qed
  with run mk show "\<exists>lm cnt.
         for_each (graph_edge_body X hdr graph configs visualizer_config ns_prefix filter')
           (interlayer_edges graph) ([], \<lambda>_. 0) = Inr (lm, cnt)
         \<and> markers = map snd lm
         \<and> (case filter (graph_edge_qualifies graph configs filter' s) (interlayer_edges graph) of
              [] \<Rightarrow> map_of lm s = None
            | e # r \<Rightarrow> \<exists>m. map_of lm s = Some m
                \<and> segments_of (points m) =
                    map (edge_segment X graph configs visualizer_config)
                      (sample (\<lambda>e. layer_skip configs s) (layer_skip configs s) (e # r))
                \<and> hd (segments_of (points m)) = edge_segment X graph configs visualizer_config e
                \<and> length (segments_of (points m)) =
                    nat \<lceil>real (length (e # r)) / real (layer_skip configs s + 1)\<rceil>)"
    by blast
next
  assume "makeDynamicGraphEdgeMarkers X hdr graph configs dynamic_configs visualizer_config ns_prefix
         = Inr dmarkers"
  from makeDynamicGraphEdgeMarkers_Inr [OF this] obtain lm cnt where
    run: "for_each (dynamic_edge_body X hdr graph configs dynamic_configs visualizer_config ns_prefix)
           (dynamic_interlayer_edges graph) ([], \<lambda>_. 0) = Inr (lm, cnt)" and mk: "dmarkers = map snd lm"
    by blast
  have "case filter (dynamic_edge_qualifies graph configs dynamic_configs s)
                   (dynamic_interlayer_edges graph) of
              [] \<Rightarrow> map_of lm s = None
            | e # r \<Rightarrow> \<exists>m. map_of lm s = Some m
                \<and> segments_of (points m) =
                    map (edge_segment X graph configs visualizer_config)
                      (sample (dynamic_edge_skip graph dynamic_configs)
                         (dynamic_edge_skip graph dynamic_configs e) (e # r))
                \<and> hd (segments_of (points m)) = edge_segment X graph configs visualizer_config e
                \<and> ((\<forall>e'\<in>set (e # r). dynamic_edge_skip graph dynamic_configs e' = k) \<longrightarrow>
                     length (segments_of (points m)) =
                       nat \<lceil>real (length (e # r)) / real (k + 1)\<rceil>)"
  proof (cases "filter (dynamic_edge_qualifies graph configs dynamic_configs s)
                   (dynamic_interlayer_edges graph)")
    case Nil
    with dynamic_edges_batch [OF run, of s] show ?thesis by simp
  next
    case (Cons e r)
    with dynamic_edges_batch [OF run, of s] obtain m where
      m: "map_of lm s = Some m"
         "points m = flatten (map (edge_segment X graph configs visualizer_config)
                         (sample (dynamic_edge_skip graph dynamic_configs)
                            (dynamic_edge_skip graph dynamic_configs e) (e # r)))"
      by auto
    from sampled_batch_facts(1,2) [OF m(2)]
      sampled_batch_facts(3) [OF m(2), of k] m(1) Cons
    show ?thesis by simp
  qed
  with run mk show "\<exists>lm cnt.
         for_each (dynamic_edge_body X hdr graph configs dynamic_configs visualizer_config ns_prefix)
           (dynamic_interlayer_edges graph) ([], \<lambda>_. 0) = Inr (lm, cnt)
         \<and> dmarkers = map snd lm
         \<and> (case filter (dynamic_edge_qualifies graph configs dynamic_configs s)
                   (dynamic_interlayer_edges graph) of
              [] \<Rightarrow> map_of lm s = None
            | e # r \<Rightarrow> \<exists>m. map_of lm s = Some m
                \<and> segments_of (points m) =
                    map (edge_segment X graph configs visualizer_config)
                      (sample (dynamic_edge_skip graph dynamic_configs)
                         (dynamic_edge_skip graph dynamic_configs e) (e # r))
                \<and> hd (segments_of (points m)) = edge_segment X graph configs visualizer_config e
                \<and> ((\<forall>e'\<in>set (e # r). dynamic_edge_skip graph dynamic_configs e' = k) \<longrightarrow>
                     length (segments_of (points m)) =
                       nat \<lceil>real (length (e # r)) / real (k + 1)\<rceil>))"
    by blast
qed


definition example_semantic_node :: "nat \<Rightarrow> int \<Rightarrow> real \<Rightarrow> nat SceneGraphNode" where
  "example_semantic_node i l px =
     \<lparr>node_id = i, node_layer = l,
      node_attrs = SemanticAttrs \<lparr>position = \<lparr>pt_x = px, pt_y = 0, pt_z = 0\<rparr>, name = ''s'',
                     color = 9, bounding_box = example_bbox, semantic_label = 2\<rparr>\<rparr>"

definition example_edge :: "nat \<Rightarrow> nat \<Rightarrow> SceneGraphEdge" where
  "example_edge a b = \<lparr>source = a, target = b, weight = Finite 1\<rparr>"

definition example_configs :: "nat \<Rightarrow> LayerId \<rightharpoonup> LayerConfig" where
  "example_configs k = (\<lambda>l. if l \<in> {2, 3, 4} then Some (example_config k) else None)"

definition example_dynamic_configs :: "nat \<Rightarrow> LayerId \<rightharpoonup> DynamicLayerConfig" where
  "example_dynamic_configs k = (\<lambda>l. if l = 2 then
     Some \<lparr>dyn_visualize = True, dyn_visualize_interlayer_edges = True,
           dyn_interlayer_edge_insertion_skip = k, dyn_z_offset_scale = 1,
           dyn_node_use_sphere = True, dyn_node_scale = 1, dyn_node_alpha = 1,
           dyn_edge_scale = 1, dyn_edge_alpha = 1, dyn_label_scale = 1, dyn_label_height = 1\<rparr>
     else None)"

text \<open>Five edges from layer 3 to layer 2, and three edges from layer 3 to agents of layer 2.\<close>

definition example_graph :: "nat DynamicSceneGraph" where
  "example_graph =
     \<lparr>graph_nodes = [example_semantic_node 1 3 1, example_semantic_node 2 3 2,
                     example_semantic_node 3 3 3, example_semantic_node 4 3 4,
                     example_semantic_node 5 3 5, example_semantic_node 6 2 6,
                     example_semantic_node 7 2 7, example_semantic_node 8 2 8,
                     example_semantic_node 9 2 9, example_semantic_node 10 2 10,
                     example_semantic_node 11 2 11, example_semantic_node 12 2 12,
                     example_semantic_node 13 2 13],
      dynamic_ids = [11, 12, 13],
      interlayer_edges = [example_edge 1 6, example_edge 2 7, example_edge 3 8,
                          example_edge 4 9, example_edge 5 10],
      dynamic_interlayer_edges = [example_edge 1 11, example_edge 2 12, example_edge 3 13],
      mesh = None\<rparr>"

text \<open>A node of layer 4 with a child in layer 3 and a child in layer 2, and an edge between the children.\<close>

definition example_fan_graph :: "nat DynamicSceneGraph" where
  "example_fan_graph =
     \<lparr>graph_nodes = [example_semantic_node 1 4 1, example_semantic_node 2 3 2,
                     example_semantic_node 3 2 3],
      dynamic_ids = [],
      interlayer_edges = [example_edge 1 2, example_edge 1 3, example_edge 2 3],
      dynamic_interlayer_edges = [],
      mesh = None\<rparr>"

lemma digits_small: "n < 10 \<Longrightarrow> digits n = [''0123456789'' ! n]"
  by (simp add: digits.simps)

lemmas example_simps =
  example_graph_def example_semantic_node_def example_edge_def example_configs_def
  example_dynamic_configs_def example_config_def example_ext_def example_header_def
  example_visualizer_config_def example_bbox_def

lemmas builder_simps =
  getNode_def rejects_def map_at_def makeNewEdgeList_def to_string_def digits_small
  push_point_def push_color_def add_z_def makeColorMsg_def makeColorMsg1_def Marker0_def
  fillPoseWithIdentity_def Point0_def NodeAttributes.defs SemanticNodeAttributes.defs
  isDynamic_def shouldVisualize_def getConfigLayer_def pose_add_z_def

theorem interlayer_edge_sampling_witness:
  "\<exists>markers lm m dmarkers dlm dm.
      makeGraphEdgeMarkers example_ext example_header example_graph (example_configs 2)
        example_visualizer_config ''edges_'' None = Inr markers
    \<and> markers = map snd lm \<and> map_of lm (3::int) = Some m
    \<and> length (segments_of (points m)) = 2
    \<and> hd (segments_of (points m)) = (\<lparr>pt_x = 1, pt_y = 0, pt_z = 1\<rparr>, \<lparr>pt_x = 6, pt_y = 0, pt_z = 1\<rparr>)
    \<and> makeDynamicGraphEdgeMarkers example_ext example_header example_graph (example_configs 0)
        (example_dynamic_configs 1) example_visualizer_config ''dynamic_edges_'' = Inr dmarkers
    \<and> dmarkers = map snd dlm \<and> map_of dlm (3::int) = Some dm
    \<and> length (segments_of (points dm)) = 2
    \<and> hd (segments_of (points dm)) = (\<lparr>pt_x = 1, pt_y = 0, pt_z = 1\<rparr>, \<lparr>pt_x = 11, pt_y = 0, pt_z = 1\<rparr>)"
proof -
  have "\<exists>markers. makeGraphEdgeMarkers example_ext example_header example_graph (example_configs 2)
        example_visualizer_config ''edges_'' None = Inr markers"
    by (simp add: makeGraphEdgeMarkers_def graph_edge_body_def example_simps builder_simps)
  then obtain markers where mk: "makeGraphEdgeMarkers example_ext example_header example_graph
        (example_configs 2) example_visualizer_config ''edges_'' None = Inr markers" ..
  have "\<exists>dmarkers. makeDynamicGraphEdgeMarkers example_ext example_header example_graph
        (example_configs 0) (example_dynamic_configs 1) example_visualizer_config ''dynamic_edges_''
        = Inr dmarkers"
    by (simp add: makeDynamicGraphEdgeMarkers_def dynamic_edge_body_def example_simps builder_simps)
  then obtain dmarkers where dmk: "makeDynamicGraphEdgeMarkers example_ext example_header
        example_graph (example_configs 0) (example_dynamic_configs 1) example_visualizer_config
        ''dynamic_edges_'' = Inr dmarkers" ..
  have q: "filter (graph_edge_qualifies example_graph (example_configs 2) None 3)
             (interlayer_edges example_graph) = interlayer_edges example_graph"
    by (simp add: graph_edge_qualifies_def edge_ends_def example_simps builder_simps)
  have dq: "filter (dynamic_edge_qualifies example_graph (example_configs 0) (example_dynamic_configs 1) 3)
             (dynamic_interlayer_edges example_graph) = dynamic_interlayer_edges example_graph"
    by (simp add: dynamic_edge_qualifies_def edge_ends_def example_simps builder_simps)
  have ie: "interlayer_edges example_graph = [example_edge 1 6, example_edge 2 7, example_edge 3 8,
                          example_edge 4 9, example_edge 5 10]"
    and de: "dynamic_interlayer_edges example_graph =
               [example_edge 1 11, example_edge 2 12, example_edge 3 13]"
    by (simp_all add: example_graph_def)
  have k: "layer_skip (example_configs 2) 3 = 2"
    by (simp add: layer_skip_def example_configs_def example_config_def)
  have dk: "\<forall>e'\<in>set (dynamic_interlayer_edges example_graph).
              dynamic_edge_skip example_graph (example_dynamic_configs 1) e' = 1"
    by (simp add: dynamic_edge_skip_def edge_ends_def example_simps builder_simps)
  have s1: "edge_segment example_ext example_graph (example_configs 2) example_visualizer_config
              (example_edge 1 6) = (\<lparr>pt_x = 1, pt_y = 0, pt_z = 1\<rparr>, \<lparr>pt_x = 6, pt_y = 0, pt_z = 1\<rparr>)"
    by (simp add: edge_segment_def edge_ends_def example_simps builder_simps)
  have s2: "edge_segment example_ext example_graph (example_configs 0) example_visualizer_config
              (example_edge 1 11) = (\<lparr>pt_x = 1, pt_y = 0, pt_z = 1\<rparr>, \<lparr>pt_x = 11, pt_y = 0, pt_z = 1\<rparr>)"
    by (simp add: edge_segment_def edge_ends_def example_simps builder_simps)
  have c1: "nat \<lceil>real 5 / real (2 + 1)\<rceil> = 2" and c2: "nat \<lceil>real 3 / real (1 + 1)\<rceil> = 2"
    using ceiling_div [of 5 2, symmetric] ceiling_div [of 3 1, symmetric] by simp_all
  from interlayer_edge_sampling [of example_ext example_header example_graph "example_configs 2"
         example_visualizer_config "''edges_''" None markers 3, THEN conjunct1, rule_format, OF mk]
  obtain lm m where a: "markers = map snd lm" "map_of lm (3::int) = Some m"
      "length (segments_of (points m)) = 2"
      "hd (segments_of (points m)) = (\<lparr>pt_x = 1, pt_y = 0, pt_z = 1\<rparr>, \<lparr>pt_x = 6, pt_y = 0, pt_z = 1\<rparr>)"
    unfolding q unfolding ie k using c1 s1 by auto
  from interlayer_edge_sampling [where X = example_ext and hdr = example_header
         and graph = example_graph and configs = "example_configs 0"
         and visualizer_config = example_visualizer_config and ns_prefix = "''dynamic_edges_''"
         and dynamic_configs = "example_dynamic_configs 1" and dmarkers = dmarkers and s = 3
         and k = 1, THEN conjunct2, rule_format, OF dmk]
  obtain dlm dm where b: "dmarkers = map snd dlm" "map_of dlm (3::int) = Some dm"
      "length (segments_of (points dm)) = 2"
      "hd (segments_of (points dm)) = (\<lparr>pt_x = 1, pt_y = 0, pt_z = 1\<rparr>, \<lparr>pt_x = 11, pt_y = 0, pt_z = 1\<rparr>)"
    unfolding dq using dk unfolding de using c2 s2 by auto
  from mk dmk a b show ?thesis by blast
qed



text \<open>
  The edges that qualify for the batch of source layer \<open>s\<close> and end in layer
  \<open>t\<close>.
\<close>

definition pair_qualifies ::
  "'c DynamicSceneGraph \<Rightarrow> (LayerId \<rightharpoonup> LayerConfig) \<Rightarrow> 'c FilterFunction \<Rightarrow>
   LayerId \<Rightarrow> LayerId \<Rightarrow> SceneGraphEdge \<Rightarrow> bool" where
  "pair_qualifies graph configs filter' s t e =
     (graph_edge_qualifies graph configs filter' s e
      \<and> map_option (\<lambda>(sn, tn). node_layer tn) (edge_ends graph e) = Some t)"

text \<open>
  C4 with a namespace read as a pair of layers fails: with skip count 1 the
  edge 1-3 is the only qualifying edge from layer 4 to layer 2, so one edge
  (\<open>ceil (1 / 2)\<close>) of that pair should be drawn, the first one; but it shares
  the counter of source layer 4 with the edge 1-2 drawn just before it, and is
  dropped: its segment is in no batch.
\<close>

theorem interlayer_edge_sampling_counterexample:
  "map_sum (\<lambda>e. e) (map (\<lambda>m. (ns m, segments_of (points m))))
     (makeGraphEdgeMarkers example_ext example_header example_fan_graph (example_configs 1)
        example_visualizer_config ''edges_'' None)
   = Inr [(''edges_3_2'', [(\<lparr>pt_x = 2, pt_y = 0, pt_z = 1\<rparr>, \<lparr>pt_x = 3, pt_y = 0, pt_z = 1\<rparr>)]),
          (''edges_4_3'', [(\<lparr>pt_x = 1, pt_y = 0, pt_z = 1\<rparr>, \<lparr>pt_x = 2, pt_y = 0, pt_z = 1\<rparr>)])]
   \<and> filter (pair_qualifies example_fan_graph (example_configs 1) None 4 2)
        (interlayer_edges example_fan_graph) = [example_edge 1 3]
   \<and> layer_skip (example_configs 1) 4 = 1
   \<and> nat \<lceil>real (length [example_edge 1 3]) / real (1 + 1)\<rceil> = 1
   \<and> edge_segment example_ext example_fan_graph (example_configs 1) example_visualizer_config
        (example_edge 1 3) = (\<lparr>pt_x = 1, pt_y = 0, pt_z = 1\<rparr>, \<lparr>pt_x = 3, pt_y = 0, pt_z = 1\<rparr>)"
proof (intro conjI)
  show "map_sum (\<lambda>e. e) (map (\<lambda>m. (ns m, segments_of (points m))))
     (makeGraphEdgeMarkers example_ext example_header example_fan_graph (example_configs 1)
        example_visualizer_config ''edges_'' None)
   = Inr [(''edges_3_2'', [(\<lparr>pt_x = 2, pt_y = 0, pt_z = 1\<rparr>, \<lparr>pt_x = 3, pt_y = 0, pt_z = 1\<rparr>)]),
          (''edges_4_3'', [(\<lparr>pt_x = 1, pt_y = 0, pt_z = 1\<rparr>, \<lparr>pt_x = 2, pt_y = 0, pt_z = 1\<rparr>)])]"
    by (simp add: makeGraphEdgeMarkers_def graph_edge_body_def
          example_fan_graph_def example_simps builder_simps)
  show "filter (pair_qualifies example_fan_graph (example_configs 1) None 4 2)
        (interlayer_edges example_fan_graph) = [example_edge 1 3]"
    by (simp add: pair_qualifies_def graph_edge_qualifies_def edge_ends_def
          example_fan_graph_def example_simps builder_simps)
  show "layer_skip (example_configs 1) 4 = 1"
    by (simp add: layer_skip_def example_configs_def example_config_def)
  show "nat \<lceil>real (length [example_edge 1 3]) / real (1 + 1)\<rceil> = 1"
    using ceiling_div [of 1 1, symmetric] by simp
  show "edge_segment example_ext example_fan_graph (example_configs 1) example_visualizer_config
        (example_edge 1 3) = (\<lparr>pt_x = 1, pt_y = 0, pt_z = 1\<rparr>, \<lparr>pt_x = 3, pt_y = 0, pt_z = 1\<rparr>)"
    by (simp add: edge_segment_def edge_ends_def example_fan_graph_def example_simps builder_simps)
qed


section \<open>Grouping of inter-layer edges\<close>

lemma map_put_keys: "fst ` set (map_put k v m) = insert k (fst ` set m)"
proof -
  have "dom (map_of (map_put k v m)) = insert k (dom (map_of m))"
    by (simp add: map_of_map_put)
  then show ?thesis by (simp add: dom_map_of_conv_image_fst)
qed

lemma map_put_sorted:
  "sorted_wrt (<) (map fst m) \<Longrightarrow> sorted_wrt (<) (map fst (map_put k v m))"
proof (induction m)
  case Nil
  show ?case by simp
next
  case (Cons a m)
  obtain k' v' where a: "a = (k', v')" by (cases a)
  from Cons show ?case
    unfolding a using map_put_keys [of k v m] by (auto simp: less_le)
qed

lemma graph_edge_body_sorted:
  assumes "graph_edge_body X hdr graph configs visualizer_config ns_prefix filter' e (lm, cnt)
             = Inr (lm', cnt')"
    and "sorted_wrt (<) (map fst lm)"
  shows "sorted_wrt (<) (map fst lm')"
  using assms unfolding graph_edge_body_def map_at_def
  by (auto simp: Let_def map_put_sorted split: sum.splits option.splits if_splits prod.splits)

lemma graph_edges_sorted:
  "for_each (graph_edge_body X hdr graph configs visualizer_config ns_prefix filter') es (lm, cnt)
     = Inr (lm', cnt') \<Longrightarrow> sorted_wrt (<) (map fst lm) \<Longrightarrow> sorted_wrt (<) (map fst lm')"
proof (induction es arbitrary: lm cnt)
  case Nil
  then show ?case by simp
next
  case (Cons e es)
  from for_each_Cons_Inr [OF Cons.prems(1)] obtain lm1 cnt1 where
    s1: "graph_edge_body X hdr graph configs visualizer_config ns_prefix filter' e (lm, cnt)
           = Inr (lm1, cnt1)"
    and r1: "for_each (graph_edge_body X hdr graph configs visualizer_config ns_prefix filter')
               es (lm1, cnt1) = Inr (lm', cnt')"
    by (metis surj_pair)
  from Cons.IH [OF r1 graph_edge_body_sorted [OF s1 Cons.prems(2)]] show ?case .
qed

text \<open>Decimal strings.\<close>

lemma digit_neq: "a < 10 \<Longrightarrow> b < 10 \<Longrightarrow> ''0123456789'' ! a = ''0123456789'' ! b \<Longrightarrow> a = b"
proof -
  assume "a < 10" "b < 10" "''0123456789'' ! a = ''0123456789'' ! b"
  moreover have "distinct ''0123456789''" by simp
  ultimately show "a = b" by (simp add: nth_eq_iff_index_eq)
qed

lemma digit_in: "a < 10 \<Longrightarrow> ''0123456789'' ! a \<in> set ''0123456789''"
  by (rule nth_mem) simp

lemma digits_nonempty: "digits n \<noteq> []"
  by (subst digits.simps) simp

lemma digits_chars: "set (digits n) \<subseteq> set ''0123456789''"
proof (induction n rule: digits.induct)
  case (1 n)
  show ?case
  proof (cases "n < 10")
    case True
    then show ?thesis using digit_in [of n] by (subst digits.simps) simp
  next
    case False
    have "n mod 10 < 10" by simp
    from digit_in [OF this] 1 [OF False] False show ?thesis
      by (subst digits.simps) simp
  qed
qed

lemma digits_inj: "digits m = digits n \<Longrightarrow> m = n"
proof (induction m arbitrary: n rule: digits.induct)
  case (1 m)
  show ?case
  proof (cases "m < 10")
    case mt: True
    show ?thesis
    proof (cases "n < 10")
      case True
      with mt "1.prems" show ?thesis
        using digit_neq [of m n] by (simp add: digits.simps [of m] digits.simps [of n])
    next
      case False
      with mt "1.prems" digits_nonempty [of "n div 10"] show ?thesis
        by (simp add: digits.simps [of m] digits.simps [of n])
    qed
  next
    case mf: False
    show ?thesis
    proof (cases "n < 10")
      case True
      with mf "1.prems" digits_nonempty [of "m div 10"] show ?thesis
        by (simp add: digits.simps [of m] digits.simps [of n])
    next
      case False
      with mf "1.prems" have e: "digits (m div 10) = digits (n div 10)"
        "''0123456789'' ! (m mod 10) = ''0123456789'' ! (n mod 10)"
        by (simp_all add: digits.simps [of m] digits.simps [of n])
      from "1.IH" [OF mf e(1)] have "m div 10 = n div 10" .
      moreover from digit_neq [OF _ _ e(2)] have "m mod 10 = n mod 10" by simp
      ultimately show ?thesis by (metis div_mult_mod_eq)
    qed
  qed
qed

lemma to_string_inj: "to_string a = to_string b \<Longrightarrow> a = b"
proof -
  assume e: "to_string a = to_string b"
  have nm: "CHR ''-'' \<notin> set (digits k)" for k
    using digits_chars [of k] by auto
  have hd_digits: "digits k \<noteq> CHR ''-'' # xs" for k xs
    using nm [of k] by (cases "digits k") auto
  show "a = b"
  proof (cases "a < 0")
    case at: True
    show ?thesis
    proof (cases "b < 0")
      case True
      with at e have "digits (nat (- a)) = digits (nat (- b))" by (simp add: to_string_def)
      from digits_inj [OF this] at True show ?thesis by simp
    next
      case False
      with at e hd_digits [of "nat b" "digits (nat (- a))"] show ?thesis
        by (simp add: to_string_def)
    qed
  next
    case af: False
    show ?thesis
    proof (cases "b < 0")
      case True
      with af e hd_digits [of "nat a" "digits (nat (- b))"] show ?thesis
        by (simp add: to_string_def)
    next
      case False
      with af e have "digits (nat a) = digits (nat b)" by (simp add: to_string_def)
      from digits_inj [OF this] af False show ?thesis by simp
    qed
  qed
qed

lemma to_string_no_underscore: "CHR ''_'' \<notin> set (to_string a)"
  using digits_chars [of "nat a"] digits_chars [of "nat (- a)"]
  by (auto simp: to_string_def)

lemma separated_eq:
  "xs @ c # ys = xs' @ c # ys' \<Longrightarrow> c \<notin> set xs \<Longrightarrow> c \<notin> set xs' \<Longrightarrow> xs = xs' \<and> ys = ys'"
proof (induction xs arbitrary: xs')
  case Nil
  then show ?case by (cases xs') auto
next
  case (Cons x xs)
  then show ?case by (cases xs') auto
qed

lemma namespace_inj:
  "ns_prefix @ to_string s @ ''_'' @ to_string t = ns_prefix @ to_string s' @ ''_'' @ to_string t'
   \<Longrightarrow> s = s' \<and> t = t'"
proof -
  assume "ns_prefix @ to_string s @ ''_'' @ to_string t = ns_prefix @ to_string s' @ ''_'' @ to_string t'"
  then have "to_string s @ CHR ''_'' # to_string t = to_string s' @ CHR ''_'' # to_string t'"
    by simp
  from separated_eq [OF this to_string_no_underscore to_string_no_underscore]
  show ?thesis using to_string_inj by blast
qed


text \<open>The layer of an edge's target node.\<close>

definition edge_target_layer :: "'c DynamicSceneGraph \<Rightarrow> SceneGraphEdge \<Rightarrow> LayerId" where
  "edge_target_layer graph e =
     (case edge_ends graph e of None \<Rightarrow> 0 | Some (sn, tn) \<Rightarrow> node_layer tn)"

lemma graph_edge_new_ns:
  "graph_edge_qualifies graph configs filter' s e \<Longrightarrow>
   ns (graph_edge_new hdr graph configs ns_prefix e) =
     ns_prefix @ to_string s @ ''_'' @ to_string (edge_target_layer graph e)"
  by (auto simp: graph_edge_qualifies_def graph_edge_new_def edge_target_layer_def
        makeNewEdgeList_def Marker0_def Let_def split: option.splits prod.splits)

lemma distinct_namespaces:
  assumes "sorted_wrt (<) (map fst lm)"
    and "\<forall>(s, m)\<in>set lm. \<exists>t. ns m = ns_prefix @ to_string s @ ''_'' @ to_string t"
  shows "distinct (map (\<lambda>x. ns (snd x)) lm)"
  using assms
proof (induction lm)
  case Nil
  show ?case by simp
next
  case (Cons a lm)
  obtain s m where a: "a = (s, m)" by (cases a)
  from Cons.prems(2) a obtain t where t: "ns m = ns_prefix @ to_string s @ ''_'' @ to_string t"
    by auto
  have "ns m \<noteq> ns (snd x)" if "x \<in> set lm" for x
  proof
    assume e: "ns m = ns (snd x)"
    obtain s' m' where x: "x = (s', m')" by (cases x)
    from that x Cons.prems(2) obtain t' where
      t': "ns m' = ns_prefix @ to_string s' @ ''_'' @ to_string t'" by auto
    from namespace_inj [of ns_prefix s t s' t'] e t t' x have "s = s'" by simp
    moreover from Cons.prems(1) a that x have "s < s'" by force
    ultimately show False by simp
  qed
  then have "ns m \<notin> (\<lambda>x. ns (snd x)) ` set lm" by blast
  moreover from Cons have "distinct (map (\<lambda>x. ns (snd x)) lm)" by simp
  ultimately show ?case using a by simp
qed

text \<open>
  C5, as the code has it. \<open>makeGraphEdgeMarkers\<close> keeps one batch per source
  layer: whenever it returns, the batches come in ascending order of their
  source layers, one for every source layer that has a qualifying edge and
  none for any other; each batch is non-empty, holds the segments sampled from
  the qualifying edges of its own source layer (its own skip counter), and has
  the namespace made of the prefix, its source layer and the target layer of
  the first qualifying edge of that source layer; the namespaces of the
  returned batches are pairwise different.
\<close>

theorem interlayer_batches_by_source_layer:
  assumes "makeGraphEdgeMarkers X hdr graph configs visualizer_config ns_prefix filter' = Inr markers"
  shows "\<exists>lm cnt.
      for_each (graph_edge_body X hdr graph configs visualizer_config ns_prefix filter')
        (interlayer_edges graph) ([], \<lambda>_. 0) = Inr (lm, cnt)
    \<and> markers = map snd lm
    \<and> sorted_wrt (<) (map fst lm)
    \<and> distinct (map ns markers)
    \<and> (\<forall>s. (s \<in> fst ` set lm) =
             (\<exists>e\<in>set (interlayer_edges graph). graph_edge_qualifies graph configs filter' s e))
    \<and> (\<forall>(s, m)\<in>set lm.
          points m \<noteq> []
          \<and> (\<exists>e r. filter (graph_edge_qualifies graph configs filter' s) (interlayer_edges graph) = e # r
                \<and> ns m = ns_prefix @ to_string s @ ''_'' @ to_string (edge_target_layer graph e)
                \<and> segments_of (points m) =
                    map (edge_segment X graph configs visualizer_config)
                      (sample (\<lambda>e. layer_skip configs s) (layer_skip configs s) (e # r))))"
proof -
  let ?es = "interlayer_edges graph"
  let ?q = "graph_edge_qualifies graph configs filter'"
  from makeGraphEdgeMarkers_Inr [OF assms] obtain lm cnt where
    run: "for_each (graph_edge_body X hdr graph configs visualizer_config ns_prefix filter')
           ?es ([], \<lambda>_. 0) = Inr (lm, cnt)" and mk: "markers = map snd lm"
    by blast
  have so: "sorted_wrt (<) (map fst lm)"
    using graph_edges_sorted [OF run] by simp
  then have di: "distinct (map fst lm)"
    by (simp add: strict_sorted_iff)
  have keys: "(s \<in> fst ` set lm) = (\<exists>e\<in>set ?es. ?q s e)" for s
  proof -
    have "(s \<in> fst ` set lm) = (map_of lm s \<noteq> None)"
      by (simp add: map_of_eq_None_iff)
    also have "\<dots> = (filter (?q s) ?es \<noteq> [])"
      using graph_edges_batch [OF run, of s] by (auto split: list.splits)
    also have "\<dots> = (\<exists>e\<in>set ?es. ?q s e)"
      by (simp add: filter_empty_conv)
    finally show ?thesis .
  qed
  have batch: "points m \<noteq> []
          \<and> (\<exists>e r. filter (?q s) ?es = e # r
                \<and> ns m = ns_prefix @ to_string s @ ''_'' @ to_string (edge_target_layer graph e)
                \<and> segments_of (points m) =
                    map (edge_segment X graph configs visualizer_config)
                      (sample (\<lambda>e. layer_skip configs s) (layer_skip configs s) (e # r)))"
    if "(s, m) \<in> set lm" for s m
  proof -
    from that di have ms: "map_of lm s = Some m" by simp
    with graph_edges_batch [OF run, of s] obtain e r where
      er: "filter (?q s) ?es = e # r"
      and pm: "points m = flatten (map (edge_segment X graph configs visualizer_config)
                 (sample (\<lambda>e. layer_skip configs s) (layer_skip configs s) (e # r)))"
      and nm: "ns m = ns (graph_edge_new hdr graph configs ns_prefix e)"
      by (auto split: list.splits)
    from er have "e \<in> set (filter (?q s) ?es)" by simp
    then have qe: "?q s e" by simp
    have "points m \<noteq> []" unfolding pm
      by (simp add: flatten_def case_prod_beta)
    moreover have "segments_of (points m) = map (edge_segment X graph configs visualizer_config)
                 (sample (\<lambda>e. layer_skip configs s) (layer_skip configs s) (e # r))"
      unfolding pm by (rule segments_of_flatten)
    ultimately show ?thesis
      using er nm graph_edge_new_ns [OF qe, of hdr ns_prefix] by auto
  qed
  have "\<forall>(s, m)\<in>set lm. \<exists>t. ns m = ns_prefix @ to_string s @ ''_'' @ to_string t"
    using batch by blast
  from distinct_namespaces [OF so this] have dn: "distinct (map ns markers)"
    unfolding mk by (simp add: comp_def)
  from run mk so dn keys batch show ?thesis by blast
qed


text \<open>
  C5, as the claim words it, fails: the edges 1-2 (layers 4 and 3) and 1-3
  (layers 4 and 2) both qualify and have different layer pairs, and their
  segments are in the same batch, named after the first pair.
\<close>

theorem interlayer_batches_counterexample:
  "map_sum (\<lambda>e. e) (map (\<lambda>m. (ns m, points m)))
     (makeGraphEdgeMarkers example_ext example_header example_fan_graph (example_configs 0)
        example_visualizer_config ''edges_'' None)
   = Inr [(''edges_3_2'', [\<lparr>pt_x = 2, pt_y = 0, pt_z = 1\<rparr>, \<lparr>pt_x = 3, pt_y = 0, pt_z = 1\<rparr>]),
          (''edges_4_3'', [\<lparr>pt_x = 1, pt_y = 0, pt_z = 1\<rparr>, \<lparr>pt_x = 2, pt_y = 0, pt_z = 1\<rparr>,
                           \<lparr>pt_x = 1, pt_y = 0, pt_z = 1\<rparr>, \<lparr>pt_x = 3, pt_y = 0, pt_z = 1\<rparr>])]
   \<and> map_option (\<lambda>(sn, tn). (node_layer sn, node_layer tn))
        (edge_ends example_fan_graph (example_edge 1 2)) = Some (4, 3)
   \<and> map_option (\<lambda>(sn, tn). (node_layer sn, node_layer tn))
        (edge_ends example_fan_graph (example_edge 1 3)) = Some (4, 2)
   \<and> graph_edge_qualifies example_fan_graph (example_configs 0) None 4 (example_edge 1 2)
   \<and> graph_edge_qualifies example_fan_graph (example_configs 0) None 4 (example_edge 1 3)"
  by (simp add: makeGraphEdgeMarkers_def graph_edge_body_def graph_edge_qualifies_def edge_ends_def
        example_fan_graph_def example_simps builder_simps)

theorem interlayer_batches_by_source_layer_witness:
  "\<exists>markers.
      makeGraphEdgeMarkers example_ext example_header example_fan_graph (example_configs 0)
        example_visualizer_config ''edges_'' None = Inr markers
    \<and> map ns markers = [''edges_3_2'', ''edges_4_3'']
    \<and> distinct (map ns markers)
    \<and> list_all (\<lambda>m. points m \<noteq> []) markers"
proof -
  have "\<exists>markers. makeGraphEdgeMarkers example_ext example_header example_fan_graph
        (example_configs 0) example_visualizer_config ''edges_'' None = Inr markers
        \<and> map ns markers = [''edges_3_2'', ''edges_4_3'']"
    by (simp add: makeGraphEdgeMarkers_def graph_edge_body_def
          example_fan_graph_def example_simps builder_simps)
  then obtain markers where mk: "makeGraphEdgeMarkers example_ext example_header example_fan_graph
        (example_configs 0) example_visualizer_config ''edges_'' None = Inr markers"
    and nm: "map ns markers = [''edges_3_2'', ''edges_4_3'']" by (elim exE conjE)
  from interlayer_batches_by_source_layer [OF mk]
  have "distinct (map ns markers)" "list_all (\<lambda>m. points m \<noteq> []) markers"
    by (force simp: list_all_iff case_prod_beta)+
  with mk nm show ?thesis by (intro exI [of _ markers] conjI)
qed



section \<open>Termination of the intra-layer edge builder\<close>

text \<open>
  The loop's filter branch is taken at position \<open>i\<close>: the edge there exists,
  both its nodes are found, a filter is given and rejects one of them.
\<close>

definition rejected_at :: "'c SceneGraphLayer \<Rightarrow> 'c FilterFunction \<Rightarrow> nat \<Rightarrow> bool" where
  "rejected_at layer filter' i =
     (i < length (edges layer) \<and>
      (case getNode (nodes layer) (source (edges layer ! i)) of
         Inl e \<Rightarrow> False
       | Inr source_node \<Rightarrow>
          (case getNode (nodes layer) (target (edges layer ! i)) of
             Inl e \<Rightarrow> False
           | Inr target_node \<Rightarrow>
               filter' \<noteq> None \<and> (rejects filter' source_node \<or> rejects filter' target_node))))"

lemma layer_edge_loop_stuck:
  assumes a: "layer_edge_loop X config layer visualizer_config color_func filter' i marker = Some y"
  shows "\<not> rejected_at layer filter' i"
proof (rule layer_edge_loop.raw_induct [where
      P = "\<lambda>X config layer visualizer_config color_func filter' i marker y.
             \<not> rejected_at layer filter' i", OF _ a], goal_cases)
  case (1 f X config layer visualizer_config color_func filter' i marker y)
  show ?case
  proof
    assume r: "rejected_at layer filter' i"
    with "1"(2) have "f X config layer visualizer_config color_func filter' i marker = Some y"
      by (auto simp: rejected_at_def split: sum.splits)
    from "1"(1) [OF this] r show False by simp
  qed
qed

lemma layer_edge_loop_diverges:
  "rejected_at layer filter' i \<Longrightarrow>
   layer_edge_loop X config layer visualizer_config color_func filter' i marker = None"
  using layer_edge_loop_stuck [of X config layer visualizer_config color_func filter' i marker]
  by (cases "layer_edge_loop X config layer visualizer_config color_func filter' i marker") auto

definition example_edge_layer :: "nat SceneGraphLayer" where
  "example_edge_layer =
     \<lparr>nodes = [example_semantic_node 1 3 1, example_semantic_node 2 3 2],
      edges = [example_edge 1 2]\<rparr>"

text \<open>
  C6. On a layer with the single edge 1-2: with the filter that rejects node 1
  the builder never returns; with no filter and skip 1 the iterator is advanced
  two positions from the last edge, beyond \<open>end()\<close>; with no filter and skip 0
  it returns the one segment.
\<close>

theorem makeLayerEdgeMarkers_diverges:
  "makeLayerEdgeMarkers example_ext example_header (example_config 0) example_edge_layer
     example_visualizer_config ''layer_edges'' (\<lambda>s t e b. Inr 0)
     (Some (\<lambda>n. node_id n \<noteq> 1)) = None
   \<and> makeLayerEdgeMarkers example_ext example_header (example_config 1) example_edge_layer
     example_visualizer_config ''layer_edges'' (\<lambda>s t e b. Inr 0) None = Some (Inl PastTheEnd)
   \<and> (\<exists>m. makeLayerEdgeMarkers example_ext example_header (example_config 0) example_edge_layer
     example_visualizer_config ''layer_edges'' (\<lambda>s t e b. Inr 0) None = Some (Inr m)
       \<and> length (points m) = 2)"
proof (intro conjI)
  have "rejected_at example_edge_layer (Some (\<lambda>n. node_id n \<noteq> 1)) 0"
    by (simp add: rejected_at_def example_edge_layer_def getNode_def example_edge_def
          example_semantic_node_def rejects_def)
  from layer_edge_loop_diverges [OF this]
  show "makeLayerEdgeMarkers example_ext example_header (example_config 0) example_edge_layer
     example_visualizer_config ''layer_edges'' (\<lambda>s t e b. Inr 0)
     (Some (\<lambda>n. node_id n \<noteq> 1)) = None"
    by (simp add: makeLayerEdgeMarkers_def Let_def)
next
  show "makeLayerEdgeMarkers example_ext example_header (example_config 1) example_edge_layer
     example_visualizer_config ''layer_edges'' (\<lambda>s t e b. Inr 0) None = Some (Inl PastTheEnd)"
    by (simp add: makeLayerEdgeMarkers_def Let_def layer_edge_loop.simps example_edge_layer_def
          getNode_def example_edge_def example_semantic_node_def rejects_def example_config_def)
next
  show "\<exists>m. makeLayerEdgeMarkers example_ext example_header (example_config 0) example_edge_layer
     example_visualizer_config ''layer_edges'' (\<lambda>s t e b. Inr 0) None = Some (Inr m)
       \<and> length (points m) = 2"
    by (simp add: makeLayerEdgeMarkers_def Let_def layer_edge_loop.simps example_edge_layer_def
          getNode_def example_edge_def example_semantic_node_def rejects_def example_config_def
          Marker0_def)
qed



section \<open>Mesh-connection fans: degenerate inputs\<close>

text \<open>
  The connection indices the fan's loop does not stride over (positions 0,
  \<open>k + 1\<close>, \<open>2 * (k + 1)\<close>, ...), the mesh vertex a fan segment ends at, and the
  segments of one node's fan: the segment from the centroid to the break point,
  then one segment per sampled index that is a vertex of the mesh.
\<close>

definition sampled :: "nat \<Rightarrow> 'a list \<Rightarrow> 'a list" where
  "sampled k xs = map snd (filter (\<lambda>(j, x). j mod (k + 1) = 0) (enumerate 0 xs))"

definition fan_vertex :: "VisualizerConfig \<Rightarrow> Mesh \<Rightarrow> nat \<Rightarrow> Point" where
  "fan_vertex visualizer_config mesh' midx =
     (if \<not> collapse_layers visualizer_config
      then add_z (mesh_layer_offset visualizer_config) (vertices mesh' ! midx)
      else vertices mesh' ! midx)"

definition fan_segments ::
  "'c ext \<Rightarrow> LayerConfig \<Rightarrow> VisualizerConfig \<Rightarrow> Mesh \<Rightarrow> 'c Place2dNodeAttributes \<Rightarrow>
   (Point \<times> Point) list" where
  "fan_segments X config visualizer_config mesh' attrs =
     (let center_point = add_z (mesh_edge_break_ratio visualizer_config *
                                getZOffset X config visualizer_config) (position attrs);
          centroid_location = add_z (getZOffset X config visualizer_config) (position attrs)
      in (centroid_location, center_point) #
         map (\<lambda>midx. (center_point, fan_vertex visualizer_config mesh' midx))
           (filter (\<lambda>midx. midx < numVertices mesh')
              (sampled (interlayer_edge_insertion_skip config) (pcl_mesh_connections attrs))))"

lemma mesh_fold_points:
  "points (fst (foldl (mesh_edge_iter config visualizer_config mesh' col center_point) (m, i) xs)) =
     points m @ flatten (map (\<lambda>midx. (center_point, fan_vertex visualizer_config mesh' midx))
        (filter (\<lambda>midx. midx < numVertices mesh')
           (map snd (filter (\<lambda>(j, x). j mod (interlayer_edge_insertion_skip config + 1) = 0)
                       (enumerate i xs)))))"
  by (induction xs arbitrary: m i)
     (simp_all add: mesh_edge_iter_def fan_vertex_def Let_def)

lemma mesh_fold_balance:
  "length (colors m) = length (points m) \<Longrightarrow>
   length (colors (fst (foldl (mesh_edge_iter config visualizer_config mesh' col center_point) (m, i) xs)))
     = length (points (fst (foldl (mesh_edge_iter config visualizer_config mesh' col center_point) (m, i) xs)))"
  by (induction xs arbitrary: m i) (simp_all add: mesh_edge_iter_def Let_def)

lemma mesh_edges_node_Place2d:
  assumes "node_attrs node = Place2dAttrs attrs"
  shows "\<exists>m'. mesh_edges_node X config visualizer_config mesh' node m = Inr m'
     \<and> points m' = points m @ (if pcl_mesh_connections attrs = [] then []
                               else flatten (fan_segments X config visualizer_config mesh' attrs))
     \<and> (length (colors m) = length (points m) \<longrightarrow> length (colors m') = length (points m'))"
  using assms
  by (simp add: mesh_edges_node_def Let_def mesh_fold_points mesh_fold_balance fan_segments_def
        sampled_def)


definition example_mesh_graph :: "Mesh option \<Rightarrow> nat DynamicSceneGraph" where
  "example_mesh_graph mesh' =
     \<lparr>graph_nodes = [], dynamic_ids = [], interlayer_edges = [],
      dynamic_interlayer_edges = [], mesh = mesh'\<rparr>"

definition example_mesh :: Mesh where
  "example_mesh = \<lparr>vertices = [\<lparr>pt_x = 7, pt_y = 0, pt_z = 0\<rparr>, \<lparr>pt_x = 8, pt_y = 0, pt_z = 0\<rparr>,
                               \<lparr>pt_x = 9, pt_y = 0, pt_z = 0\<rparr>]\<rparr>"

definition example_fan_layer :: "nat SceneGraphLayer" where
  "example_fan_layer = \<lparr>nodes = [example_place2d_node 2 20 4 [0, 7, 2]], edges = []\<rparr>"





section \<open>Attribute casts\<close>

definition example_base_node :: "nat SceneGraphNode" where
  "example_base_node =
     \<lparr>node_id = 7, node_layer = 20, node_attrs = BaseAttrs \<lparr>position = Point0\<rparr>\<rparr>"

text \<open>
  C8. A node whose attributes are not of the class a builder casts to: the
  ellipse, polygon-boundary, mesh-fan and wireframe builders end with the
  failed cast (nothing in them catches it), while \<open>makeTextMarker\<close>, which
  catches it, returns its marker with the node's symbol label as text.
\<close>

theorem attribute_mismatch_propagates:
  "makeLayerEllipseBoundaries example_ext example_header (example_config 0)
     \<lparr>nodes = [example_base_node], edges = []\<rparr> example_visualizer_config ''boundaries''
     = Inl BadCast
   \<and> makeLayerPolygonBoundaries example_ext example_header (example_config 0)
     \<lparr>nodes = [example_semantic_node 2 20 0], edges = []\<rparr> example_visualizer_config ''boundaries''
     = Inl BadCast
   \<and> makeMeshEdgesMarker example_ext example_header (example_config 0) example_visualizer_config
     (example_mesh_graph (Some example_mesh)) \<lparr>nodes = [example_base_node], edges = []\<rparr>
     ''mesh_edges'' = Inl BadCast
   \<and> makeLayerWireframeBoundingBoxes example_ext example_header (example_config 0)
     \<lparr>nodes = [example_base_node], edges = []\<rparr> example_visualizer_config ''bboxes''
     (\<lambda>n. Inr 0) None = Inl BadCast
   \<and> marker_text (makeTextMarker example_ext 0 example_header (example_config 0) example_base_node
        example_visualizer_config ''labels'') = getLabel example_ext 7"
  by (simp add: makeLayerEllipseBoundaries_def makeLayerPolygonBoundaries_def
        makeMeshEdgesMarker_def makeLayerWireframeBoundingBoxes_def makeTextMarker_def
        ellipse_node_def polygon_boundary_node_def mesh_edges_node_def wireframe_node_def
        example_base_node_def example_semantic_node_def example_mesh_graph_def rejects_def
        pose_add_z_def Let_def)


section \<open>The label of a dynamic layer\<close>

lemma unat_size_minus_one:
  "0 < n \<Longrightarrow> n < 2 ^ 64 \<Longrightarrow> unat (of_nat n - 1 :: 64 word) = n - 1"
proof -
  assume n: "0 < n" "n < 2 ^ 64"
  then have u: "unat (of_nat n :: 64 word) = n"
    by (simp add: unat_of_nat)
  with n have "(of_nat n :: 64 word) \<noteq> 0"
    by (metis less_numeral_extra(3) unat_0)
  from unat_minus_one [OF this] u show ?thesis by simp
qed

text \<open>
  C10. On a dynamic layer with no nodes the index \<open>numNodes() - 1\<close> wraps to
  \<open>2 ^ 64 - 1\<close> and the position lookup fails, so no marker is returned. On a
  non-empty layer the slot read is the last one: if it is empty (the node was
  removed) the lookup fails as well; if it holds a node, the builder returns
  one text marker placed at that node's position raised by the layer's
  z-offset plus the label height.
\<close>

theorem dynamic_label_marker:
  "(dyn_nodes layer = [] \<longrightarrow>
      unat (dyn_numNodes layer - 1) = 2 ^ 64 - 1
      \<and> makeDynamicLabelMarker X hdr config layer visualizer_config ns' marker_id' = Inl OutOfRange)
   \<and> (dyn_nodes layer \<noteq> [] \<and> length (dyn_nodes layer) < 2 ^ 64 \<and> last (dyn_nodes layer) = None \<longrightarrow>
      makeDynamicLabelMarker X hdr config layer visualizer_config ns' marker_id' = Inl OutOfRange)
   \<and> (dyn_nodes layer \<noteq> [] \<and> length (dyn_nodes layer) < 2 ^ 64 \<and> last (dyn_nodes layer) = Some n \<longrightarrow>
      (\<exists>m. makeDynamicLabelMarker X hdr config layer visualizer_config ns' marker_id' = Inr m
         \<and> marker_type m = TEXT_VIEW_FACING \<and> marker_text m = ''Agent''
         \<and> points m = [] \<and> colors m = []
         \<and> pose_position (pose m) =
             add_z (getZOffsetScale X (dyn_z_offset_scale config) visualizer_config
                    + dyn_label_height config)
               (position (attributes (node_attrs n)))))"
proof (intro conjI impI)
  assume e: "dyn_nodes layer = []"
  then show "unat (dyn_numNodes layer - 1) = 2 ^ 64 - 1"
    by (simp add: dyn_numNodes_def unsigned_minus_1_eq_mask mask_eq_exp_minus_1)
  from e show "makeDynamicLabelMarker X hdr config layer visualizer_config ns' marker_id' = Inl OutOfRange"
    by (simp add: makeDynamicLabelMarker_def getPositionByIndex_def Let_def)
next
  assume h: "dyn_nodes layer \<noteq> [] \<and> length (dyn_nodes layer) < 2 ^ 64 \<and> last (dyn_nodes layer) = None"
  then have u: "unat (dyn_numNodes layer - 1) = length (dyn_nodes layer) - 1"
    using unat_size_minus_one [of "length (dyn_nodes layer)"] by (simp add: dyn_numNodes_def)
  from h have l: "dyn_nodes layer ! (length (dyn_nodes layer) - 1) = None"
    using last_conv_nth [of "dyn_nodes layer"] by simp
  from h u l have "getPositionByIndex layer (dyn_numNodes layer - 1) = Inl OutOfRange"
    by (simp add: getPositionByIndex_def)
  then show "makeDynamicLabelMarker X hdr config layer visualizer_config ns' marker_id' = Inl OutOfRange"
    by (simp add: makeDynamicLabelMarker_def Let_def)
next
  assume h: "dyn_nodes layer \<noteq> [] \<and> length (dyn_nodes layer) < 2 ^ 64 \<and> last (dyn_nodes layer) = Some n"
  then have u: "unat (dyn_numNodes layer - 1) = length (dyn_nodes layer) - 1"
    using unat_size_minus_one [of "length (dyn_nodes layer)"] by (simp add: dyn_numNodes_def)
  from h have l: "dyn_nodes layer ! (length (dyn_nodes layer) - 1) = Some n"
    using last_conv_nth [of "dyn_nodes layer"] by simp
  from h u l have "getPositionByIndex layer (dyn_numNodes layer - 1)
      = Inr (position (attributes (node_attrs n)))"
    by (simp add: getPositionByIndex_def)
  then show "\<exists>m. makeDynamicLabelMarker X hdr config layer visualizer_config ns' marker_id' = Inr m
         \<and> marker_type m = TEXT_VIEW_FACING \<and> marker_text m = ''Agent''
         \<and> points m = [] \<and> colors m = []
         \<and> pose_position (pose m) =
             add_z (getZOffsetScale X (dyn_z_offset_scale config) visualizer_config
                    + dyn_label_height config)
               (position (attributes (node_attrs n)))"
    by (simp add: makeDynamicLabelMarker_def Let_def pose_add_z_def Marker0_def
          fillPoseWithIdentity_def)
qed


definition example_dynamic_config :: DynamicLayerConfig where
  "example_dynamic_config =
     \<lparr>dyn_visualize = True, dyn_visualize_interlayer_edges = True,
      dyn_interlayer_edge_insertion_skip = 0, dyn_z_offset_scale = 1,
      dyn_node_use_sphere = True, dyn_node_scale = 1, dyn_node_alpha = 1,
      dyn_edge_scale = 1, dyn_edge_alpha = 1, dyn_label_scale = 1, dyn_label_height = 1\<rparr>"

definition example_dynamic_layer :: "nat DynamicSceneGraphLayer" where
  "example_dynamic_layer =
     \<lparr>dyn_nodes = [Some (example_semantic_node 4 2 2), None, Some (example_semantic_node 5 2 3)],
      dyn_edges = [example_edge 4 5]\<rparr>"

theorem dynamic_label_marker_witness:
  "makeDynamicLabelMarker example_ext example_header example_dynamic_config
      \<lparr>dyn_nodes = [], dyn_edges = []\<rparr> example_visualizer_config ''label'' 0 = Inl OutOfRange
   \<and> makeDynamicLabelMarker example_ext example_header example_dynamic_config
      \<lparr>dyn_nodes = [Some (example_semantic_node 5 2 3), None], dyn_edges = []\<rparr>
      example_visualizer_config ''label'' 0 = Inl OutOfRange
   \<and> (\<exists>m. makeDynamicLabelMarker example_ext example_header example_dynamic_config
          example_dynamic_layer example_visualizer_config ''label'' 0 = Inr m
        \<and> marker_text m = ''Agent''
        \<and> pose_position (pose m) = \<lparr>pt_x = 3, pt_y = 0, pt_z = 2\<rparr>)"
proof -
  have 1: "makeDynamicLabelMarker example_ext example_header example_dynamic_config
      \<lparr>dyn_nodes = [], dyn_edges = []\<rparr> example_visualizer_config ''label'' 0 = Inl OutOfRange"
    using dynamic_label_marker [where layer = "\<lparr>dyn_nodes = [], dyn_edges = []\<rparr>"
        and X = example_ext and hdr = example_header and config = example_dynamic_config
        and visualizer_config = example_visualizer_config and ns' = "''label''" and marker_id' = 0,
        THEN conjunct1]
    by simp
  have 2: "makeDynamicLabelMarker example_ext example_header example_dynamic_config
      \<lparr>dyn_nodes = [Some (example_semantic_node 5 2 3), None], dyn_edges = []\<rparr>
      example_visualizer_config ''label'' 0 = Inl OutOfRange"
    using dynamic_label_marker [where
        layer = "\<lparr>dyn_nodes = [Some (example_semantic_node 5 2 3), None], dyn_edges = []\<rparr>"
        and X = example_ext and hdr = example_header and config = example_dynamic_config
        and visualizer_config = example_visualizer_config and ns' = "''label''" and marker_id' = 0,
        THEN conjunct2, THEN conjunct1]
    by simp
  have h: "dyn_nodes example_dynamic_layer \<noteq> [] \<and> length (dyn_nodes example_dynamic_layer) < 2 ^ 64
      \<and> last (dyn_nodes example_dynamic_layer) = Some (example_semantic_node 5 2 3)"
    by (simp add: example_dynamic_layer_def)
  have p: "add_z (getZOffsetScale example_ext (dyn_z_offset_scale example_dynamic_config)
                    example_visualizer_config + dyn_label_height example_dynamic_config)
             (position (attributes (node_attrs (example_semantic_node 5 2 3))))
           = \<lparr>pt_x = 3, pt_y = 0, pt_z = 2\<rparr>"
    by (simp add: example_ext_def example_dynamic_config_def example_semantic_node_def add_z_def
          NodeAttributes.defs)
  have 3: "\<exists>m. makeDynamicLabelMarker example_ext example_header example_dynamic_config
          example_dynamic_layer example_visualizer_config ''label'' 0 = Inr m
        \<and> marker_text m = ''Agent''
        \<and> pose_position (pose m) = \<lparr>pt_x = 3, pt_y = 0, pt_z = 2\<rparr>"
    using dynamic_label_marker [where layer = example_dynamic_layer
        and X = example_ext and hdr = example_header and config = example_dynamic_config
        and visualizer_config = example_visualizer_config and ns' = "''label''" and marker_id' = 0
        and n = "example_semantic_node 5 2 3", THEN conjunct2, THEN conjunct2, rule_format, OF h]
    unfolding p by (elim exE conjE) simp
  from 1 2 3 show ?thesis by (intro conjI)
qed


text \<open>
  C10 as worded ("for every non-empty dynamic layer") fails: a layer of two
  slots whose last slot is empty is not empty, and the builder ends with the
  lookup's exception. The centroid builder skips the empty slot and returns
  the one node's point.
\<close>

definition example_removed_layer :: "nat DynamicSceneGraphLayer" where
  "example_removed_layer =
     \<lparr>dyn_nodes = [Some (example_semantic_node 4 2 2), None], dyn_edges = []\<rparr>"

theorem dynamic_label_marker_counterexample:
  "dyn_nodes example_removed_layer \<noteq> []
   \<and> makeDynamicLabelMarker example_ext example_header example_dynamic_config
       example_removed_layer example_visualizer_config ''label'' 0 = Inl OutOfRange
   \<and> map_sum (\<lambda>e. e) points
       (makeDynamicCentroidMarkers_color example_ext example_header example_dynamic_config
          example_removed_layer example_visualizer_config 7 ''nodes'' 0)
     = Inr [\<lparr>pt_x = 2, pt_y = 0, pt_z = 1\<rparr>]"
  by (simp add: example_removed_layer_def makeDynamicLabelMarker_def getPositionByIndex_def
        dyn_numNodes_def Let_def makeDynamicCentroidMarkers_color_def
        makeDynamicCentroidMarkers_def dynamic_centroid_node_def example_dynamic_config_def
        example_simps builder_simps)


section \<open>Shape of the batches\<close>

text \<open>
  A batch of type \<^verbatim>\<open>LINE_LIST\<close> is read as independent segments, each a pair of
  consecutive entries of \<^verbatim>\<open>points\<close>; \<^verbatim>\<open>colors\<close> is empty, or one colour, or one
  colour per entry of \<^verbatim>\<open>points\<close>. The builders establish one of three stronger
  shapes: segments with one colour per vertex (\<open>balanced\<close>), segments with no
  per-vertex colour (\<open>uncoloured\<close>), or one colour per point (\<open>coloured\<close>).
\<close>

definition segment_list :: "'c Marker \<Rightarrow> bool" where
  "segment_list m = even (length (points m))"

definition colors_fit :: "'c Marker \<Rightarrow> bool" where
  "colors_fit m = (length (colors m) = 0 \<or> length (colors m) = 1
                   \<or> length (colors m) = length (points m))"

definition well_formed_lines :: "'c Marker \<Rightarrow> bool" where
  "well_formed_lines m = (segment_list m \<and> colors_fit m)"

definition balanced :: "'c Marker \<Rightarrow> bool" where
  "balanced m = (even (length (points m)) \<and> length (colors m) = length (points m))"

definition coloured :: "'c Marker \<Rightarrow> bool" where
  "coloured m = (length (colors m) = length (points m))"

definition uncoloured :: "'c Marker \<Rightarrow> bool" where
  "uncoloured m = (even (length (points m)) \<and> colors m = [])"

lemma balanced_well_formed: "balanced m \<Longrightarrow> well_formed_lines m"
  by (simp add: balanced_def well_formed_lines_def segment_list_def colors_fit_def)

lemma uncoloured_well_formed: "uncoloured m \<Longrightarrow> well_formed_lines m"
  by (simp add: uncoloured_def well_formed_lines_def segment_list_def colors_fit_def)

lemma coloured_fit: "coloured m \<Longrightarrow> colors_fit m"
  by (simp add: coloured_def colors_fit_def)

lemma for_each_invariant:
  assumes "\<And>x s s'. body x s = Inr s' \<Longrightarrow> P s \<Longrightarrow> P s'"
  shows "for_each body xs s = Inr s' \<Longrightarrow> P s \<Longrightarrow> P s'"
proof (induction xs arbitrary: s)
  case Nil
  then show ?case by simp
next
  case (Cons x xs)
  from for_each_Cons_Inr [OF Cons.prems(1)] obtain s1 where
    "body x s = Inr s1" "for_each body xs s1 = Inr s'" by blast
  with Cons.IH [of s1] assms [of x s s1] Cons.prems(2) show ?case by simp
qed

lemma foldl_invariant:
  assumes "\<And>s x. P s \<Longrightarrow> P (f s x)"
  shows "P s \<Longrightarrow> P (foldl f s xs)"
  by (induction xs arbitrary: s) (simp_all add: assms)

lemma balanced_push2:
  "balanced m \<Longrightarrow> balanced (push_color c (push_point p (push_color c' (push_point q m))))"
  "balanced m \<Longrightarrow> balanced (push_color c (push_color c' (push_point p (push_point q m))))"
  by (simp_all add: balanced_def)

lemma balanced_update [simp]:
  "balanced (m\<lparr>header := x0\<rparr>) = balanced m"
  "balanced (m\<lparr>ns := x1\<rparr>) = balanced m"
  "balanced (m\<lparr>marker_id := x2\<rparr>) = balanced m"
  "balanced (m\<lparr>marker_type := x3\<rparr>) = balanced m"
  "balanced (m\<lparr>action := x4\<rparr>) = balanced m"
  "balanced (m\<lparr>pose := x5\<rparr>) = balanced m"
  "balanced (m\<lparr>scale := x6\<rparr>) = balanced m"
  "balanced (m\<lparr>marker_color := x7\<rparr>) = balanced m"
  "balanced (m\<lparr>lifetime := x8\<rparr>) = balanced m"
  "balanced (m\<lparr>marker_text := x9\<rparr>) = balanced m"
  "balanced (pose_add_z dz m) = balanced m"
  by (simp_all add: balanced_def pose_add_z_def)

lemma coloured_update [simp]:
  "coloured (m\<lparr>header := x0\<rparr>) = coloured m"
  "coloured (m\<lparr>ns := x1\<rparr>) = coloured m"
  "coloured (m\<lparr>marker_id := x2\<rparr>) = coloured m"
  "coloured (m\<lparr>marker_type := x3\<rparr>) = coloured m"
  "coloured (m\<lparr>action := x4\<rparr>) = coloured m"
  "coloured (m\<lparr>pose := x5\<rparr>) = coloured m"
  "coloured (m\<lparr>scale := x6\<rparr>) = coloured m"
  "coloured (m\<lparr>marker_color := x7\<rparr>) = coloured m"
  "coloured (m\<lparr>lifetime := x8\<rparr>) = coloured m"
  "coloured (m\<lparr>marker_text := x9\<rparr>) = coloured m"
  "coloured (pose_add_z dz m) = coloured m"
  by (simp_all add: coloured_def pose_add_z_def)

lemma uncoloured_update [simp]:
  "uncoloured (m\<lparr>header := x0\<rparr>) = uncoloured m"
  "uncoloured (m\<lparr>ns := x1\<rparr>) = uncoloured m"
  "uncoloured (m\<lparr>marker_id := x2\<rparr>) = uncoloured m"
  "uncoloured (m\<lparr>marker_type := x3\<rparr>) = uncoloured m"
  "uncoloured (m\<lparr>action := x4\<rparr>) = uncoloured m"
  "uncoloured (m\<lparr>pose := x5\<rparr>) = uncoloured m"
  "uncoloured (m\<lparr>scale := x6\<rparr>) = uncoloured m"
  "uncoloured (m\<lparr>marker_color := x7\<rparr>) = uncoloured m"
  "uncoloured (m\<lparr>lifetime := x8\<rparr>) = uncoloured m"
  "uncoloured (m\<lparr>marker_text := x9\<rparr>) = uncoloured m"
  "uncoloured (pose_add_z dz m) = uncoloured m"
  by (simp_all add: uncoloured_def pose_add_z_def)

lemma Marker0_empty [simp]: "balanced Marker0" "coloured Marker0" "uncoloured Marker0"
  by (simp_all add: balanced_def coloured_def uncoloured_def Marker0_def)

lemma ellipse_node_balanced:
  "ellipse_node X config node m = Inr m' \<Longrightarrow> balanced m \<Longrightarrow> balanced m'"
proof -
  assume r: "ellipse_node X config node m = Inr m'" and b: "balanced m"
  then obtain attrs where a: "node_attrs node = Place2dAttrs attrs"
    by (cases "node_attrs node") (simp_all add: ellipse_node_def)
  from ellipse_node_Place2d [OF a, where X = X and config = config and m = m] r b show ?thesis
    by (auto simp: balanced_def ellipse_segments_def)
qed

lemma polygon_edges_node_balanced:
  "polygon_edges_node X config visualizer_config node m = Inr m' \<Longrightarrow> balanced m \<Longrightarrow> balanced m'"
  unfolding polygon_edges_node_def Let_def
  by (auto split: sum.splits if_splits intro!: foldl_invariant balanced_push2)

lemma polygon_boundary_node_balanced:
  "polygon_boundary_node X config node m = Inr m' \<Longrightarrow> balanced m \<Longrightarrow> balanced m'"
proof -
  assume r: "polygon_boundary_node X config node m = Inr m'" and b: "balanced m"
  have "balanced (fst (foldl f (m, lp) xs))"
    if "\<And>s x. balanced (fst s) \<Longrightarrow> balanced (fst (f s x))" for f lp and xs :: "Point list"
    using foldl_invariant [of "\<lambda>s. balanced (fst s)" f "(m, lp)" xs] that b by simp
  note inv = this
  from r b show ?thesis
    unfolding polygon_boundary_node_def Let_def
    by (auto split: sum.splits if_splits intro!: inv simp: case_prod_beta balanced_push2)
qed

lemma wireframe_iter_balanced: "balanced m \<Longrightarrow> balanced (wireframe_iter corners col c m)"
  by (simp add: wireframe_iter_def push_segment_def balanced_def Let_def)

lemma addWireframe_balanced: "balanced m \<Longrightarrow> balanced (addWireframeToMarker corners col m)"
  unfolding addWireframeToMarker_def
  by (rule foldl_invariant) (simp_all add: wireframe_iter_balanced)

lemma wireframe_node_balanced:
  "wireframe_node config func filter' node m = Inr m' \<Longrightarrow> balanced m \<Longrightarrow> balanced m'"
  unfolding wireframe_node_def Let_def
  by (auto split: sum.splits if_splits simp: addWireframe_balanced)

lemma addEdgesToCorners_balanced:
  "balanced m \<Longrightarrow> balanced (addEdgesToCorners corners p col m)"
proof -
  have c: "colors (foldl (\<lambda>m i. push_color col m) m xs) = colors m @ replicate (length xs) col"
    "points (foldl (\<lambda>m i. push_color col m) m xs) = points m" for xs :: "nat list" and m :: "'a Marker"
    by (induction xs arbitrary: m) (simp_all add: replicate_app_Cons_same)
  assume "balanced m"
  then show ?thesis
    by (simp add: addEdgesToCorners_def Let_def balanced_def c)
qed

lemma edges_to_bbox_node_balanced:
  "edges_to_bbox_node X config visualizer_config func filter' node m = Inr m' \<Longrightarrow>
   balanced m \<Longrightarrow> balanced m'"
  unfolding edges_to_bbox_node_def Let_def
  by (auto split: sum.splits if_splits intro!: addEdgesToCorners_balanced balanced_push2)

lemma mesh_edges_node_balanced:
  "mesh_edges_node X config visualizer_config mesh' node m = Inr m' \<Longrightarrow>
   balanced m \<Longrightarrow> balanced m'"
proof -
  assume r: "mesh_edges_node X config visualizer_config mesh' node m = Inr m'" and b: "balanced m"
  then obtain attrs where a: "node_attrs node = Place2dAttrs attrs"
    by (cases "node_attrs node") (simp_all add: mesh_edges_node_def)
  from mesh_edges_node_Place2d [OF a, of X config visualizer_config mesh' m] r b show ?thesis
    by (auto simp: balanced_def)
qed


lemma set_map_put: "set (map_put k v m) \<subseteq> insert (k, v) (set m)"
  by (induction m) (auto split: if_splits)

definition every_batch :: "('c Marker \<Rightarrow> bool) \<Rightarrow> (LayerId \<times> 'c Marker) list \<Rightarrow> bool" where
  "every_batch P lm = (\<forall>x\<in>set lm. P (snd x))"

lemma every_batch_Nil [simp]: "every_batch P []"
  by (simp add: every_batch_def)

lemma every_batch_put: "every_batch P lm \<Longrightarrow> P v \<Longrightarrow> every_batch P (map_put k v lm)"
  using set_map_put [of k v lm] by (auto simp: every_batch_def)

lemma every_batch_get: "map_of lm k = Some m \<Longrightarrow> every_batch P lm \<Longrightarrow> P m"
  unfolding every_batch_def by (metis map_of_SomeD snd_conv)

lemma every_batch_markers: "every_batch P lm \<Longrightarrow> \<forall>m\<in>set (map snd lm). P m"
  by (auto simp: every_batch_def)

lemma makeNewEdgeList_empty [simp]:
  "balanced (makeNewEdgeList hdr config ns_prefix a b)"
  "uncoloured (makeNewEdgeList hdr config ns_prefix a b)"
  by (simp_all add: makeNewEdgeList_def Let_def)

lemma uncoloured_push2: "uncoloured m \<Longrightarrow> uncoloured (push_point p (push_point q m))"
  by (simp add: uncoloured_def)

lemma graph_edge_body_balanced:
  assumes "graph_edge_body X hdr graph configs visualizer_config ns_prefix filter' e (lm, cnt)
             = Inr (lm', cnt')"
    and "every_batch balanced lm"
  shows "every_batch balanced lm'"
  using assms
  unfolding graph_edge_body_def map_at_def Let_def
  by (auto split: sum.splits option.splits if_splits prod.splits
        intro!: every_batch_put balanced_push2 dest: every_batch_get simp: map_of_map_put)

lemma dynamic_edge_body_uncoloured:
  assumes "dynamic_edge_body X hdr graph configs dynamic_configs visualizer_config ns_prefix e (lm, cnt)
             = Inr (lm', cnt')"
    and "every_batch uncoloured lm"
  shows "every_batch uncoloured lm'"
  using assms
  unfolding dynamic_edge_body_def map_at_def Let_def
  by (auto split: sum.splits option.splits if_splits prod.splits
        intro!: every_batch_put uncoloured_push2 dest: every_batch_get simp: map_of_map_put)

lemma graph_edges_balanced:
  assumes "makeGraphEdgeMarkers X hdr graph configs visualizer_config ns_prefix filter' = Inr markers"
  shows "\<forall>m\<in>set markers. balanced m"
proof -
  from makeGraphEdgeMarkers_Inr [OF assms] obtain lm cnt where
    run: "for_each (graph_edge_body X hdr graph configs visualizer_config ns_prefix filter')
           (interlayer_edges graph) ([], \<lambda>_. 0) = Inr (lm, cnt)" and mk: "markers = map snd lm"
    by blast
  have "every_batch balanced (fst (lm, cnt))"
  proof (rule for_each_invariant [where P = "\<lambda>s. every_batch balanced (fst s)", OF _ run])
    fix x and s s' :: "'a edge_state"
    assume "graph_edge_body X hdr graph configs visualizer_config ns_prefix filter' x s = Inr s'"
      "every_batch balanced (fst s)"
    then show "every_batch balanced (fst s')"
      using graph_edge_body_balanced [of X hdr graph configs visualizer_config ns_prefix filter' x
          "fst s" "snd s" "fst s'" "snd s'"] by simp
  qed simp
  then show ?thesis unfolding mk using every_batch_markers by auto
qed

lemma dynamic_graph_edges_uncoloured:
  assumes "makeDynamicGraphEdgeMarkers X hdr graph configs dynamic_configs visualizer_config ns_prefix
             = Inr markers"
  shows "\<forall>m\<in>set markers. uncoloured m"
proof -
  from makeDynamicGraphEdgeMarkers_Inr [OF assms] obtain lm cnt where
    run: "for_each (dynamic_edge_body X hdr graph configs dynamic_configs visualizer_config ns_prefix)
           (dynamic_interlayer_edges graph) ([], \<lambda>_. 0) = Inr (lm, cnt)" and mk: "markers = map snd lm"
    by blast
  have "every_batch uncoloured (fst (lm, cnt))"
  proof (rule for_each_invariant [where P = "\<lambda>s. every_batch uncoloured (fst s)", OF _ run])
    fix x and s s' :: "'a edge_state"
    assume "dynamic_edge_body X hdr graph configs dynamic_configs visualizer_config ns_prefix x s = Inr s'"
      "every_batch uncoloured (fst s)"
    then show "every_batch uncoloured (fst s')"
      using dynamic_edge_body_uncoloured [of X hdr graph configs dynamic_configs visualizer_config
          ns_prefix x "fst s" "snd s" "fst s'" "snd s'"] by simp
  qed simp
  then show ?thesis unfolding mk using every_batch_markers by auto
qed


lemma layer_edge_loop_balanced:
  assumes a: "layer_edge_loop X config layer visualizer_config color_func filter' i marker = Some y"
  shows "balanced marker \<longrightarrow> (case y of Inl e \<Rightarrow> True | Inr m \<Rightarrow> balanced m)"
proof (rule layer_edge_loop.raw_induct [where
      P = "\<lambda>X config layer visualizer_config color_func filter' i marker y.
             balanced marker \<longrightarrow> (case y of Inl e \<Rightarrow> True | Inr m \<Rightarrow> balanced m)", OF _ a],
    goal_cases)
  case (1 f X config layer visualizer_config color_func filter' i marker y)
  from "1"(2) show ?case
    by (auto split: sum.splits if_splits dest!: "1"(1) simp: balanced_push2)
qed

lemma makeLayerEdgeMarkers_balanced:
  "makeLayerEdgeMarkers X hdr config layer visualizer_config ns' color_func filter' = Some (Inr m)
   \<Longrightarrow> balanced m"
  unfolding makeLayerEdgeMarkers_def Let_def
  by (drule layer_edge_loop_balanced) simp

lemma dynamic_edge_uncoloured:
  "dynamic_edge X config layer visualizer_config e m = Inr m' \<Longrightarrow> uncoloured m \<Longrightarrow> uncoloured m'"
  unfolding dynamic_edge_def Let_def
  by (auto split: sum.splits simp: uncoloured_def)

lemma coloured_push:
  "coloured m \<Longrightarrow> coloured (push_color c (push_point p m))"
  by (simp add: coloured_def)

lemma centroid_node_coloured:
  "centroid_node X config visualizer_config color_func filter' node m = Inr m' \<Longrightarrow>
   coloured m \<Longrightarrow> coloured m'"
  unfolding centroid_node_def Let_def
  by (auto split: sum.splits if_splits simp: coloured_push)

lemma place_centroid_node_coloured:
  "place_centroid_node X config visualizer_config color_func node m = Inr m' \<Longrightarrow>
   coloured m \<Longrightarrow> coloured m'"
  unfolding place_centroid_node_def Let_def
  by (auto split: sum.splits if_splits simp: coloured_push)

lemma dynamic_centroid_node_coloured:
  "dynamic_centroid_node X config layer_offset_scale visualizer_config color_func node m = Inr m' \<Longrightarrow>
   coloured m \<Longrightarrow> coloured m'"
  unfolding dynamic_centroid_node_def Let_def
  by (auto split: sum.splits option.splits simp: coloured_push)

lemma gvd_node_coloured:
  "gvd_node config color_func node m = Inr m' \<Longrightarrow> coloured m \<Longrightarrow> coloured m'"
  unfolding gvd_node_def Let_def
  by (auto split: sum.splits simp: coloured_push)

lemma gvd_edge_balanced:
  "gvd_edge config layer color_func e m = Inr m' \<Longrightarrow> balanced m \<Longrightarrow> balanced m'"
  unfolding gvd_edge_def Let_def
  by (auto split: sum.splits simp: balanced_def)

lemma ellipsoid_node_single:
  "ellipsoid_node X hdr config visualizer_config ns' color_func node (i, ms) = Inr (i', ms') \<Longrightarrow>
   \<forall>m\<in>set ms. length (colors m) = 1 \<Longrightarrow> \<forall>m\<in>set ms'. length (colors m) = 1"
  unfolding ellipsoid_node_def Let_def
  by (auto split: sum.splits if_splits simp: pose_add_z_def Marker0_def)


lemma for_each_inv:
  "for_each body xs s = Inr s' \<Longrightarrow> P s \<Longrightarrow>
   (\<And>x s s'. body x s = Inr s' \<Longrightarrow> P s \<Longrightarrow> P s') \<Longrightarrow> P s'"
  using for_each_invariant [of body P xs s s'] by blast

lemma makeLayerEllipseBoundaries_balanced:
  "makeLayerEllipseBoundaries X hdr config layer visualizer_config ns' = Inr m \<Longrightarrow> balanced m"
  unfolding makeLayerEllipseBoundaries_def Let_def
  by (erule for_each_inv [where P = balanced], simp, erule (1) ellipse_node_balanced)

lemma makeLayerPolygonEdges_balanced:
  "makeLayerPolygonEdges X hdr config layer visualizer_config ns' = Inr m \<Longrightarrow> balanced m"
  unfolding makeLayerPolygonEdges_def Let_def
  by (erule for_each_inv [where P = balanced], simp, erule (1) polygon_edges_node_balanced)

lemma makeLayerPolygonBoundaries_balanced:
  "makeLayerPolygonBoundaries X hdr config layer visualizer_config ns' = Inr m \<Longrightarrow> balanced m"
  unfolding makeLayerPolygonBoundaries_def Let_def
  by (erule for_each_inv [where P = balanced], simp, erule (1) polygon_boundary_node_balanced)

lemma makeEdgesToBoundingBoxes_balanced:
  "makeEdgesToBoundingBoxes X hdr config layer visualizer_config ns' func filter' = Inr m \<Longrightarrow>
   balanced m"
  unfolding makeEdgesToBoundingBoxes_def Let_def
  by (erule for_each_inv [where P = balanced], simp, erule (1) edges_to_bbox_node_balanced)

lemma makeLayerWireframeBoundingBoxes_balanced:
  "makeLayerWireframeBoundingBoxes X hdr config layer visualizer_config ns' func filter' = Inr m \<Longrightarrow>
   balanced m"
  unfolding makeLayerWireframeBoundingBoxes_def Let_def
  by (erule for_each_inv [where P = balanced], simp, erule (1) wireframe_node_balanced)

lemma makeMeshEdgesMarker_balanced:
  "makeMeshEdgesMarker X hdr config visualizer_config graph layer ns' = Inr m \<Longrightarrow> balanced m"
proof (cases "mesh graph")
  case None
  assume "makeMeshEdgesMarker X hdr config visualizer_config graph layer ns' = Inr m"
  with None show ?thesis
    by (auto simp: makeMeshEdgesMarker_def Let_def)
next
  case (Some mesh')
  assume "makeMeshEdgesMarker X hdr config visualizer_config graph layer ns' = Inr m"
  with Some show ?thesis
    unfolding makeMeshEdgesMarker_def Let_def
    by simp (erule for_each_inv [where P = balanced], simp, erule (1) mesh_edges_node_balanced)
qed

lemma makeDynamicEdgeMarkers_uncoloured:
  "makeDynamicEdgeMarkers X hdr config layer visualizer_config color' ns' marker_id' = Inr m \<Longrightarrow>
   uncoloured m"
  unfolding makeDynamicEdgeMarkers_def Let_def
  by (erule for_each_inv [where P = uncoloured], simp, erule (1) dynamic_edge_uncoloured)

lemma makeCentroidMarkers_coloured:
  "makeCentroidMarkers X hdr config layer visualizer_config ns' color_func filter' = Inr m \<Longrightarrow>
   coloured m"
  unfolding makeCentroidMarkers_def Let_def
  by (erule for_each_inv [where P = coloured], simp, erule (1) centroid_node_coloured)

lemma makePlaceCentroidMarkers_coloured:
  "makePlaceCentroidMarkers X hdr config layer visualizer_config ns' color_func = Inr m \<Longrightarrow>
   coloured m"
  unfolding makePlaceCentroidMarkers_def Let_def
  by (erule for_each_inv [where P = coloured], simp, erule (1) place_centroid_node_coloured)

lemma makeDynamicCentroidMarkers_coloured:
  "makeDynamicCentroidMarkers X hdr config layer layer_offset_scale visualizer_config ns'
     color_func marker_id' = Inr m \<Longrightarrow> coloured m"
  unfolding makeDynamicCentroidMarkers_def Let_def
  by (erule for_each_inv [where P = coloured], simp, erule (1) dynamic_centroid_node_coloured)

lemma makeEllipsoidMarkers_single:
  assumes "makeEllipsoidMarkers X hdr config layer visualizer_config ns' color_func = Inr ms"
  shows "\<forall>m\<in>set ms. length (colors m) = 1"
proof -
  from assms obtain i where
    run: "for_each (ellipsoid_node X hdr config visualizer_config ns' color_func) (nodes layer)
            (0, []) = Inr (i, ms)"
    by (auto simp: makeEllipsoidMarkers_def split: sum.splits)
  have "\<forall>m\<in>set (snd (i, ms)). length (colors m) = 1"
  proof (rule for_each_inv [where P = "\<lambda>s. \<forall>m\<in>set (snd s). length (colors m) = 1", OF run])
    fix x and s s' :: "nat \<times> 'a Marker list"
    assume "ellipsoid_node X hdr config visualizer_config ns' color_func x s = Inr s'"
      "\<forall>m\<in>set (snd s). length (colors m) = 1"
    then show "\<forall>m\<in>set (snd s'). length (colors m) = 1"
      using ellipsoid_node_single [of X hdr config visualizer_config ns' color_func x
          "fst s" "snd s" "fst s'" "snd s'"] by simp
  qed simp
  then show ?thesis by simp
qed

lemma gvd_node_type:
  "gvd_node config color_func x s = Inr s' \<Longrightarrow> marker_type s = SPHERE_LIST \<Longrightarrow>
   marker_type s' = SPHERE_LIST"
  by (auto simp: gvd_node_def Let_def push_point_def push_color_def split: sum.splits)

lemma makeGvdWireframe_fit:
  assumes "makeGvdWireframe hdr config layer ns' color_func marker_id' = Inr ms"
  shows "\<forall>m\<in>set ms. colors_fit m \<and> (marker_type m = LINE_LIST \<longrightarrow> segment_list m)"
proof -
  have "\<exists>n0 e0. makeGvdWireframe hdr config layer ns' color_func marker_id' =
      (if nodes layer = [] then Inr []
       else case for_each (gvd_node config color_func) (nodes layer) n0 of
              Inl e \<Rightarrow> Inl e
            | Inr nodes' \<Rightarrow>
                if edges layer = [] then Inr [nodes']
                else case for_each (gvd_edge config layer color_func) (edges layer) e0 of
                       Inl e \<Rightarrow> Inl e
                     | Inr edges' \<Rightarrow> Inr [nodes', edges'])
      \<and> coloured n0 \<and> marker_type n0 = SPHERE_LIST \<and> balanced e0"
    unfolding makeGvdWireframe_def Let_def
    by (rule exI, rule exI, rule conjI, rule refl) simp
  then obtain n0 e0 where
    eq: "makeGvdWireframe hdr config layer ns' color_func marker_id' =
      (if nodes layer = [] then Inr []
       else case for_each (gvd_node config color_func) (nodes layer) n0 of
              Inl e \<Rightarrow> Inl e
            | Inr nodes' \<Rightarrow>
                if edges layer = [] then Inr [nodes']
                else case for_each (gvd_edge config layer color_func) (edges layer) e0 of
                       Inl e \<Rightarrow> Inl e
                     | Inr edges' \<Rightarrow> Inr [nodes', edges'])"
    and n0: "coloured n0" "marker_type n0 = SPHERE_LIST" and e0: "balanced e0"
    by (elim exE conjE)
  have cn: "coloured nm \<and> marker_type nm = SPHERE_LIST"
    if "for_each (gvd_node config color_func) (nodes layer) n0 = Inr nm" for nm
  proof
    show "coloured nm"
      by (rule for_each_inv [where P = coloured, OF that n0(1)]) (erule (1) gvd_node_coloured)
    show "marker_type nm = SPHERE_LIST"
      by (rule for_each_inv [where P = "\<lambda>m. marker_type m = SPHERE_LIST", OF that n0(2)])
         (erule (1) gvd_node_type)
  qed
  have ce: "balanced em"
    if "for_each (gvd_edge config layer color_func) (edges layer) e0 = Inr em" for em
    by (rule for_each_inv [where P = balanced, OF that e0]) (erule (1) gvd_edge_balanced)
  from assms show ?thesis
    unfolding eq
    by (auto split: if_splits sum.splits dest!: cn ce
          simp: coloured_fit balanced_well_formed [unfolded well_formed_lines_def])
qed

lemma single_markers_fit:
  "colors_fit (makeDeleteMarker hdr i ns')"
  "colors_fit (makeTextMarker X jitter_draw hdr config node visualizer_config ns')"
  "makeBoundingBoxMarker X hdr config node visualizer_config ns' func = Inr m \<Longrightarrow> colors_fit m"
  "makeTextMarkerNoHeight X regex_number label_names hdr config node visualizer_config ns' = Inr (m, w)
     \<Longrightarrow> colors_fit m"
  "makeDynamicLabelMarker X hdr dconfig dlayer visualizer_config ns' marker_id' = Inr m \<Longrightarrow> colors_fit m"
  by (auto simp: colors_fit_def makeDeleteMarker_def makeTextMarker_def makeBoundingBoxMarker_def
        makeTextMarkerNoHeight_def makeDynamicLabelMarker_def Let_def Marker0_def pose_add_z_def
        split: sum.splits)


text \<open>
  C9. Every line-list batch a builder returns (ellipse boundaries, polygon
  edges and boundaries, edges to bounding boxes, bounding-box wireframes,
  inter-layer and dynamic inter-layer edges, mesh-connection fans, intra-layer
  edges, edges of a dynamic layer, and the edge batch of the GVD wireframe) has
  an even number of vertices, and the colour sequence of every batch any builder
  returns has length 0, 1 or the number of vertices.
\<close>

theorem batches_well_formed:
  "(makeLayerEllipseBoundaries X hdr config layer visualizer_config ns' = Inr m1
      \<longrightarrow> well_formed_lines m1)
   \<and> (makeLayerPolygonEdges X hdr config layer visualizer_config ns' = Inr m2
      \<longrightarrow> well_formed_lines m2)
   \<and> (makeLayerPolygonBoundaries X hdr config layer visualizer_config ns' = Inr m3
      \<longrightarrow> well_formed_lines m3)
   \<and> (makeEdgesToBoundingBoxes X hdr config layer visualizer_config ns' func filter' = Inr m4
      \<longrightarrow> well_formed_lines m4)
   \<and> (makeLayerWireframeBoundingBoxes X hdr config layer visualizer_config ns' func filter' = Inr m5
      \<longrightarrow> well_formed_lines m5)
   \<and> (makeGraphEdgeMarkers X hdr graph configs visualizer_config ns' filter' = Inr ms6
      \<longrightarrow> (\<forall>m\<in>set ms6. well_formed_lines m))
   \<and> (makeDynamicGraphEdgeMarkers X hdr graph configs dynamic_configs visualizer_config ns' = Inr ms7
      \<longrightarrow> (\<forall>m\<in>set ms7. well_formed_lines m))
   \<and> (makeMeshEdgesMarker X hdr config visualizer_config graph layer ns' = Inr m8
      \<longrightarrow> well_formed_lines m8)
   \<and> (makeLayerEdgeMarkers X hdr config layer visualizer_config ns' edge_color_func filter'
        = Some (Inr m9) \<longrightarrow> well_formed_lines m9)
   \<and> (makeDynamicEdgeMarkers X hdr dconfig dlayer visualizer_config color' ns' marker_id' = Inr m10
      \<longrightarrow> well_formed_lines m10)
   \<and> (makeGvdWireframe hdr config layer ns' func marker_id' = Inr ms11
      \<longrightarrow> (\<forall>m\<in>set ms11. colors_fit m \<and> (marker_type m = LINE_LIST \<longrightarrow> segment_list m)))
   \<and> colors_fit (makeDeleteMarker hdr marker_id' ns' :: 'a Marker)
   \<and> (makeBoundingBoxMarker X hdr config node visualizer_config ns' func = Inr m12
      \<longrightarrow> colors_fit m12)
   \<and> colors_fit (makeTextMarker X jitter_draw hdr config node visualizer_config ns')
   \<and> (makeTextMarkerNoHeight X regex_number label_names hdr config node visualizer_config ns'
        = Inr (m13, written) \<longrightarrow> colors_fit m13)
   \<and> (makeEllipsoidMarkers X hdr config layer visualizer_config ns' func = Inr ms14
      \<longrightarrow> (\<forall>m\<in>set ms14. colors_fit m))
   \<and> (makeCentroidMarkers X hdr config layer visualizer_config ns' func filter' = Inr m15
      \<longrightarrow> colors_fit m15)
   \<and> (makePlaceCentroidMarkers X hdr config layer visualizer_config ns' func = Inr m16
      \<longrightarrow> colors_fit m16)
   \<and> (makeDynamicCentroidMarkers X hdr dconfig dlayer layer_offset_scale visualizer_config ns'
        func marker_id' = Inr m17 \<longrightarrow> colors_fit m17)
   \<and> (makeDynamicLabelMarker X hdr dconfig dlayer visualizer_config ns' marker_id' = Inr m18
      \<longrightarrow> colors_fit m18)"
    for X :: "'a ext"
proof -
  note bw = balanced_well_formed and uw = uncoloured_well_formed
  have 1: "makeLayerEllipseBoundaries X hdr config layer visualizer_config ns' = Inr m1
      \<longrightarrow> well_formed_lines m1"
    using makeLayerEllipseBoundaries_balanced bw by blast
  have 2: "makeLayerPolygonEdges X hdr config layer visualizer_config ns' = Inr m2
      \<longrightarrow> well_formed_lines m2"
    using makeLayerPolygonEdges_balanced bw by blast
  have 3: "makeLayerPolygonBoundaries X hdr config layer visualizer_config ns' = Inr m3
      \<longrightarrow> well_formed_lines m3"
    using makeLayerPolygonBoundaries_balanced bw by blast
  have 4: "makeEdgesToBoundingBoxes X hdr config layer visualizer_config ns' func filter' = Inr m4
      \<longrightarrow> well_formed_lines m4"
    using makeEdgesToBoundingBoxes_balanced bw by blast
  have 5: "makeLayerWireframeBoundingBoxes X hdr config layer visualizer_config ns' func filter' = Inr m5
      \<longrightarrow> well_formed_lines m5"
    using makeLayerWireframeBoundingBoxes_balanced bw by blast
  have 6: "makeGraphEdgeMarkers X hdr graph configs visualizer_config ns' filter' = Inr ms6
      \<longrightarrow> (\<forall>m\<in>set ms6. well_formed_lines m)"
    using graph_edges_balanced bw by blast
  have 7: "makeDynamicGraphEdgeMarkers X hdr graph configs dynamic_configs visualizer_config ns' = Inr ms7
      \<longrightarrow> (\<forall>m\<in>set ms7. well_formed_lines m)"
    using dynamic_graph_edges_uncoloured uw by blast
  have 8: "makeMeshEdgesMarker X hdr config visualizer_config graph layer ns' = Inr m8
      \<longrightarrow> well_formed_lines m8"
    using makeMeshEdgesMarker_balanced bw by blast
  have 9: "makeLayerEdgeMarkers X hdr config layer visualizer_config ns' edge_color_func filter'
        = Some (Inr m9) \<longrightarrow> well_formed_lines m9"
    using makeLayerEdgeMarkers_balanced bw by blast
  have 10: "makeDynamicEdgeMarkers X hdr dconfig dlayer visualizer_config color' ns' marker_id' = Inr m10
      \<longrightarrow> well_formed_lines m10"
    by (intro impI uw, erule makeDynamicEdgeMarkers_uncoloured)
  have 11: "makeGvdWireframe hdr config layer ns' func marker_id' = Inr ms11
      \<longrightarrow> (\<forall>m\<in>set ms11. colors_fit m \<and> (marker_type m = LINE_LIST \<longrightarrow> segment_list m))"
    using makeGvdWireframe_fit by blast
  have 12: "colors_fit (makeDeleteMarker hdr marker_id' ns' :: 'a Marker)"
    by (rule single_markers_fit)
  have 13: "makeBoundingBoxMarker X hdr config node visualizer_config ns' func = Inr m12
      \<longrightarrow> colors_fit m12"
    using single_markers_fit(3) by blast
  have 14: "colors_fit (makeTextMarker X jitter_draw hdr config node visualizer_config ns')"
    by (rule single_markers_fit)
  have 15: "makeTextMarkerNoHeight X regex_number label_names hdr config node visualizer_config ns'
        = Inr (m13, written) \<longrightarrow> colors_fit m13"
    using single_markers_fit(4) by blast
  have 16: "makeEllipsoidMarkers X hdr config layer visualizer_config ns' func = Inr ms14
      \<longrightarrow> (\<forall>m\<in>set ms14. colors_fit m)"
    using makeEllipsoidMarkers_single by (fastforce simp: colors_fit_def)
  have 17: "makeCentroidMarkers X hdr config layer visualizer_config ns' func filter' = Inr m15
      \<longrightarrow> colors_fit m15"
    using makeCentroidMarkers_coloured coloured_fit by blast
  have 18: "makePlaceCentroidMarkers X hdr config layer visualizer_config ns' func = Inr m16
      \<longrightarrow> colors_fit m16"
    using makePlaceCentroidMarkers_coloured coloured_fit by blast
  have 19: "makeDynamicCentroidMarkers X hdr dconfig dlayer layer_offset_scale visualizer_config ns'
        func marker_id' = Inr m17 \<longrightarrow> colors_fit m17"
    using makeDynamicCentroidMarkers_coloured coloured_fit by blast
  have 20: "makeDynamicLabelMarker X hdr dconfig dlayer visualizer_config ns' marker_id' = Inr m18
      \<longrightarrow> colors_fit m18"
    using single_markers_fit(5) by blast
  show ?thesis
    by (intro conjI) (fact 1 2 3 4 5 6 7 8 9 10 11 12 13 14 15 16 17 18 19 20)+
qed


theorem batches_well_formed_witness:
  "(\<exists>markers. makeGraphEdgeMarkers example_ext example_header example_graph (example_configs 2)
        example_visualizer_config ''edges_'' None = Inr markers
      \<and> markers \<noteq> [] \<and> list_all well_formed_lines markers)
   \<and> (\<exists>dmarkers. makeDynamicGraphEdgeMarkers example_ext example_header example_graph
        (example_configs 0) (example_dynamic_configs 1) example_visualizer_config ''dynamic_edges_''
        = Inr dmarkers
      \<and> dmarkers \<noteq> [] \<and> list_all well_formed_lines dmarkers)
   \<and> (\<exists>m. makeMeshEdgesMarker example_ext example_header (example_config 0)
        example_visualizer_config (example_mesh_graph None) example_fan_layer ''mesh_edges'' = Inr m
      \<and> well_formed_lines m)
   \<and> (\<exists>m. makeLayerEdgeMarkers example_ext example_header (example_config 0) example_edge_layer
        example_visualizer_config ''layer_edges'' (\<lambda>s t e b. Inr 0) None = Some (Inr m)
      \<and> length (points m) = 2 \<and> well_formed_lines m)
   \<and> (\<exists>m. makeDynamicLabelMarker example_ext example_header example_dynamic_config
        example_dynamic_layer example_visualizer_config ''label'' 0 = Inr m
      \<and> colors_fit m)"
proof -
  have "\<exists>markers. makeGraphEdgeMarkers example_ext example_header example_graph (example_configs 2)
        example_visualizer_config ''edges_'' None = Inr markers \<and> markers \<noteq> []"
    by (simp add: makeGraphEdgeMarkers_def graph_edge_body_def example_simps builder_simps)
  then obtain markers where mk: "makeGraphEdgeMarkers example_ext example_header example_graph
        (example_configs 2) example_visualizer_config ''edges_'' None = Inr markers"
    and mk': "markers \<noteq> []" by blast
  have "\<exists>dmarkers. makeDynamicGraphEdgeMarkers example_ext example_header example_graph
        (example_configs 0) (example_dynamic_configs 1) example_visualizer_config ''dynamic_edges_''
        = Inr dmarkers \<and> dmarkers \<noteq> []"
    by (simp add: makeDynamicGraphEdgeMarkers_def dynamic_edge_body_def example_simps builder_simps)
  then obtain dmarkers where dmk: "makeDynamicGraphEdgeMarkers example_ext example_header
        example_graph (example_configs 0) (example_dynamic_configs 1) example_visualizer_config
        ''dynamic_edges_'' = Inr dmarkers"
    and dmk': "dmarkers \<noteq> []" by blast
  have "\<exists>m. makeMeshEdgesMarker example_ext example_header (example_config 0)
        example_visualizer_config (example_mesh_graph None) example_fan_layer ''mesh_edges'' = Inr m"
    by (simp add: makeMeshEdgesMarker_def example_mesh_graph_def)
  then obtain m8 where me: "makeMeshEdgesMarker example_ext example_header (example_config 0)
        example_visualizer_config (example_mesh_graph None) example_fan_layer ''mesh_edges'' = Inr m8" ..
  have "\<exists>m. makeLayerEdgeMarkers example_ext example_header (example_config 0) example_edge_layer
     example_visualizer_config ''layer_edges'' (\<lambda>s t e b. Inr 0) None = Some (Inr m)
       \<and> length (points m) = 2"
    by (simp add: makeLayerEdgeMarkers_def Let_def layer_edge_loop.simps example_edge_layer_def
          getNode_def example_edge_def example_semantic_node_def rejects_def example_config_def
          Marker0_def)
  then obtain m9 where le: "makeLayerEdgeMarkers example_ext example_header (example_config 0)
      example_edge_layer example_visualizer_config ''layer_edges'' (\<lambda>s t e b. Inr 0) None
      = Some (Inr m9)" and le': "length (points m9) = 2" by blast
  have "\<exists>m. makeDynamicLabelMarker example_ext example_header example_dynamic_config
        example_dynamic_layer example_visualizer_config ''label'' 0 = Inr m"
    by (simp add: makeDynamicLabelMarker_def Let_def example_dynamic_layer_def dyn_numNodes_def
          getPositionByIndex_def)
  then obtain m18 where dl: "makeDynamicLabelMarker example_ext example_header
        example_dynamic_config example_dynamic_layer example_visualizer_config ''label'' 0
        = Inr m18" ..
  have 6: "list_all well_formed_lines markers"
    using batches_well_formed [THEN conjunct2, THEN conjunct2, THEN conjunct2, THEN conjunct2,
        THEN conjunct2, THEN conjunct1, THEN mp, OF mk]
    by (simp add: list_all_iff)
  have 7: "list_all well_formed_lines dmarkers"
    using batches_well_formed [THEN conjunct2, THEN conjunct2, THEN conjunct2, THEN conjunct2,
        THEN conjunct2, THEN conjunct2, THEN conjunct1, THEN mp, OF dmk]
    by (simp add: list_all_iff)
  have 8: "well_formed_lines m8"
    using batches_well_formed [THEN conjunct2, THEN conjunct2, THEN conjunct2, THEN conjunct2,
        THEN conjunct2, THEN conjunct2, THEN conjunct2, THEN conjunct1, THEN mp, OF me] .
  have 9: "well_formed_lines m9"
    using batches_well_formed [THEN conjunct2, THEN conjunct2, THEN conjunct2, THEN conjunct2,
        THEN conjunct2, THEN conjunct2, THEN conjunct2, THEN conjunct2, THEN conjunct1, THEN mp,
        OF le] .
  have 20: "colors_fit m18"
    using batches_well_formed [THEN conjunct2, THEN conjunct2, THEN conjunct2, THEN conjunct2,
        THEN conjunct2, THEN conjunct2, THEN conjunct2, THEN conjunct2, THEN conjunct2,
        THEN conjunct2, THEN conjunct2, THEN conjunct2, THEN conjunct2, THEN conjunct2,
        THEN conjunct2, THEN conjunct2, THEN conjunct2, THEN conjunct2, THEN conjunct2,
        THEN mp, OF dl] .
  from mk mk' 6 dmk dmk' 7 me 8 le le' 9 dl 20 show ?thesis by blast
qed

end
